(* ===== verification/Prelude.thy ===== *)
theory Prelude
  imports Main
begin

text \<open>
  Shared vocabulary of the development: the Python builtins the module
  \<open>gl_geniolibre/models/project_task.py\<close> relies on (truthiness of optional
  fields, \<open>str.strip\<close>, \<open>str.lower\<close>, \<open>str(int)\<close>), the exceptions its
  methods raise, the control flow of a method body with early \<open>return\<close>s and
  \<open>raise\<close>s, and the transaction boundary of the ORM (an exception that leaves a
  button or a scheduled job rolls back every write of the call).
\<close>

named_theorems py_simps "evaluation rules of the Python builtins of the model"
named_theorems stage_simps "rules that run the early-return combinators"

section \<open>Python values\<close>

text \<open>
  An ORM \<open>Char\<close> field holds a string or \<open>False\<close>; it is modelled as
  \<open>string option\<close>, \<open>None\<close> for \<open>False\<close>. Python's \<open>if v:\<close> is
  \<open>truthy v\<close>: the empty string is false as well.
\<close>

definition truthy :: "string option \<Rightarrow> bool" where
  "truthy v = (case v of None \<Rightarrow> False | Some s \<Rightarrow> s \<noteq> [])"

text \<open>\<open>f"{v}"\<close> of a field: an empty field prints as \<open>False\<close>.\<close>

definition fmt_field :: "string option \<Rightarrow> string" where
  "fmt_field v = (case v of None \<Rightarrow> ''False'' | Some s \<Rightarrow> s)"

text \<open>
  \<open>str.isspace\<close> on the ASCII range (tab, newline, vertical tab, form feed,
  carriage return, the separators 28--31, and space), \<open>str.strip()\<close> and
  \<open>str.lower()\<close>. Characters are bytes in HOL; the states and names these
  functions are applied to are ASCII.
\<close>

definition py_isspace :: "char \<Rightarrow> bool" where
  "py_isspace c = (let n = (of_char c :: nat) in (9 \<le> n \<and> n \<le> 13) \<or> (28 \<le> n \<and> n \<le> 32))"

definition py_strip :: "string \<Rightarrow> string" where
  "py_strip s = rev (dropWhile py_isspace (rev (dropWhile py_isspace s)))"

definition py_lower_char :: "char \<Rightarrow> char" where
  "py_lower_char c = (let n = (of_char c :: nat) in if 65 \<le> n \<and> n \<le> 90 then char_of (n + 32) else c)"

definition py_lower :: "string \<Rightarrow> string" where
  "py_lower s = map py_lower_char s"

text \<open>\<open>s.strip().lower()\<close>, the normalisation applied to every state string.\<close>

definition py_norm :: "string \<Rightarrow> string" where
  "py_norm s = py_lower (py_strip s)"

text \<open>\<open>v in (a, b, ...)\<close> for a value read with \<open>dict.get\<close>, \<open>None\<close> when absent.\<close>

definition py_in :: "string option \<Rightarrow> string list \<Rightarrow> bool" where
  "py_in v xs = (case v of None \<Rightarrow> False | Some s \<Rightarrow> s \<in> set xs)"

text \<open>
  The messages of the module are Spanish; the accented letters are written as
  their UTF-8 bytes.
\<close>

definition acute_o :: string where
  "acute_o = [CHR 0xC3, CHR 0xB3]"

definition acute_a :: string where
  "acute_a = [CHR 0xC3, CHR 0xA1]"

definition tilde_n :: string where
  "tilde_n = [CHR 0xC3, CHR 0xB1]"

text \<open>U+2011, the non-breaking hyphen written twice in the message about the \<open>X-RestLi-Id\<close> header.\<close>

definition nb_hyphen :: string where
  "nb_hyphen = [CHR 0xE2, CHR 0x80, CHR 0x91]"

text \<open>\<open>'{s}'\<close> inside an f-string.\<close>

definition py_quote :: "string \<Rightarrow> string" where
  "py_quote s = CHR 0x27 # s @ [CHR 0x27]"

text \<open>\<open>sep.join(xs)\<close>.\<close>

fun py_join :: "string \<Rightarrow> string list \<Rightarrow> string" where
  "py_join sep [] = []"
| "py_join sep [x] = x"
| "py_join sep (x # y # ys) = x @ sep @ py_join sep (y # ys)"

text \<open>\<open>str(n)\<close> for a non-negative integer, and its inverse \<open>int(s)\<close> on digit strings.\<close>

fun nat_str :: "nat \<Rightarrow> string" where
  "nat_str n = (if n < 10 then [char_of (48 + n)] else nat_str (n div 10) @ [char_of (48 + n mod 10)])"

declare nat_str.simps [simp del]

text \<open>\<open>str(i)\<close> (or \<open>%i\<close>) of a Python integer.\<close>

definition int_str :: "int \<Rightarrow> string" where
  "int_str i = (if i < 0 then ''-'' @ nat_str (nat (- i)) else nat_str (nat i))"

definition is_digit :: "char \<Rightarrow> bool" where
  "is_digit c = (48 \<le> (of_char c :: nat) \<and> (of_char c :: nat) \<le> 57)"

definition str_nat :: "string \<Rightarrow> nat" where
  "str_nat s = foldl (\<lambda>acc c. 10 * acc + ((of_char c :: nat) - 48)) 0 s"

section \<open>Exceptions and early returns\<close>

text \<open>
  The exceptions the module raises or lets through: Odoo's \<open>ValidationError\<close>
  with its message, and the failures of the HTTP client and of JSON decoding
  (\<open>requests.exceptions.*\<close>, \<open>KeyError\<close>), and the \<open>OverflowError\<close> and
  \<open>ValueError\<close> of date arithmetic and the \<open>TypeError\<close> of comparing a date with an
  unset field, kept as the text \<open>str(e)\<close> gives.
\<close>

datatype exc = ValidationError string | RequestError string | OverflowError string | ValueError string | TypeError string

fun exc_str :: "exc \<Rightarrow> string" where
  "exc_str (ValidationError m) = m"
| "exc_str (RequestError m) = m"
| "exc_str (OverflowError m) = m"
| "exc_str (ValueError m) = m"
| "exc_str (TypeError m) = m"

text \<open>
  A method body runs on the record and either falls through to its next
  statement (\<open>Next\<close>) or leaves the method (\<open>Exit\<close>) by a \<open>return\<close>
  (\<open>Inr\<close> of the value) or a \<open>raise\<close> (\<open>Inl\<close> of the exception), with the
  record as it was written so far.
\<close>

datatype ('s, 'r) stage = Next 's | Exit "exc + 'r" 's

fun then_stage :: "('s, 'r) stage \<Rightarrow> ('s \<Rightarrow> ('s, 'r) stage) \<Rightarrow> ('s, 'r) stage" where
  "then_stage (Next s) f = f s"
| "then_stage (Exit r s) f = Exit r s"

text \<open>Falling off the end of a Python function returns \<open>None\<close>.\<close>

fun finish_stage :: "'r \<Rightarrow> ('s, 'r) stage \<Rightarrow> (exc + 'r) \<times> 's" where
  "finish_stage none (Next s) = (Inr none, s)"
| "finish_stage none (Exit r s) = (r, s)"

text \<open>
  The transaction boundary: an exception that leaves the call rolls the record
  back to its state before the call, a normal return commits it.
\<close>

definition odoo_txn :: "('s \<Rightarrow> (exc + 'a) \<times> 's) \<Rightarrow> 's \<Rightarrow> (exc + 'a) \<times> 's" where
  "odoo_txn f s = (case f s of (Inl e, _) \<Rightarrow> (Inl e, s) | (Inr a, s') \<Rightarrow> (Inr a, s'))"

section \<open>Lemmas\<close>

lemma truthy_simps [simp, py_simps]:
  "truthy None = False"
  "truthy (Some s) = (s \<noteq> [])"
  by (simp_all add: truthy_def)

lemma fmt_field_simps [simp, py_simps]:
  "fmt_field None = ''False''"
  "fmt_field (Some s) = s"
  by (simp_all add: fmt_field_def)

lemma py_in_simps [simp, py_simps]:
  "py_in None xs = False"
  "py_in (Some s) xs = (s \<in> set xs)"
  by (simp_all add: py_in_def)

lemma truthy_Some_ex: "truthy v \<Longrightarrow> \<exists>s. v = Some s \<and> s \<noteq> []"
  by (cases v) auto

lemma then_stage_Next [simp, stage_simps]: "then_stage (Next s) f = f s"
  by simp

lemma then_stage_Exit [simp, stage_simps]: "then_stage (Exit r s) f = Exit r s"
  by simp

lemma then_stage_assoc [stage_simps]:
  "then_stage (then_stage st f) g = then_stage st (\<lambda>s. then_stage (f s) g)"
  by (cases st) simp_all

lemma odoo_txn_raise [simp]:
  "fst (f s) = Inl e \<Longrightarrow> odoo_txn f s = (Inl e, s)"
  by (cases "f s") (auto simp: odoo_txn_def)

lemma odoo_txn_return [simp]:
  "f s = (Inr a, s') \<Longrightarrow> odoo_txn f s = (Inr a, s')"
  by (simp add: odoo_txn_def)

lemma odoo_txn_cases:
  "odoo_txn f s = (r, s') \<Longrightarrow> (\<exists>e. r = Inl e \<and> s' = s) \<or> f s = (r, s')"
  by (cases "f s"; cases "fst (f s)") (auto simp: odoo_txn_def split: sum.splits)

subsection \<open>\<open>str\<close> and \<open>int\<close> on natural numbers\<close>

lemma nat_str_digit_char: "c \<in> set (nat_str n) \<Longrightarrow> is_digit c"
proof (induction n rule: nat_str.induct)
  case (1 n)
  have d: "\<And>k::nat. k < 10 \<Longrightarrow> is_digit (char_of (48 + k))"
    by (simp add: is_digit_def of_char_of)
  show ?case
  proof (cases "n < 10")
    case True
    with "1.prems" d show ?thesis by (simp add: nat_str.simps [of n])
  next
    case False
    with "1.prems" "1.IH" d show ?thesis by (auto simp: nat_str.simps [of n])
  qed
qed

lemma of_char_digit: "k < 10 \<Longrightarrow> (of_char (char_of (48 + k) :: char) :: nat) = 48 + k"
  by (simp add: of_char_of)

lemma str_nat_snoc: "str_nat (s @ [c]) = 10 * str_nat s + ((of_char c :: nat) - 48)"
  by (simp add: str_nat_def)

lemma nat_str_roundtrip: "str_nat (nat_str n) = n"
proof (induction n rule: nat_str.induct)
  case (1 n)
  show ?case
  proof (cases "n < 10")
    case True
    then show ?thesis by (simp add: nat_str.simps [of n] str_nat_def of_char_digit)
  next
    case False
    with "1.IH" show ?thesis
      by (simp add: nat_str.simps [of n] str_nat_snoc of_char_digit)
  qed
qed

lemma nat_str_inj: "nat_str m = nat_str n \<Longrightarrow> m = n"
  by (metis nat_str_roundtrip)

lemma nat_str_not_Nil [simp]: "nat_str n \<noteq> []"
  by (simp add: nat_str.simps [of n])

lemma nat_str_no_dot: "CHR ''.'' \<notin> set (nat_str n)"
  using nat_str_digit_char [of "CHR ''.''" n] by (auto simp: is_digit_def)

end
