(* ===== verification/Task.thy ===== *)
theory Task
  imports Prelude
begin

text \<open>
  The data of the publication orchestrator: the fields of \<open>project.task\<close> that
  \<open>gl_geniolibre/models/project_task.py\<close> declares and reads (lines 55--152),
  the selection values it compares them with, and the per-platform phase
  strings its methods write.
\<close>

section \<open>Selections and phases\<close>

text \<open>The \<open>tipo\<close> selection (lines 67--72).\<close>

datatype tipo = Feed | Video_stories | Video_reels | Otro

text \<open>
  The per-platform phase fields \<open>fb_estado\<close>, \<open>ig_estado\<close>, \<open>tt_estado\<close>,
  \<open>li_estado\<close> (lines 143--146) are \<open>Char\<close> fields. The module writes exactly
  the five strings below into them (\<open>Programado\<close> is the field default);
  \<open>Vacio\<close> is the empty field (\<open>False\<close>).
\<close>

datatype estado = Programado | Procesando | Revisando | Publicado | Error | Vacio

fun estado_str :: "estado \<Rightarrow> string" where
  "estado_str Programado = ''Programado''"
| "estado_str Procesando = ''Procesando''"
| "estado_str Revisando = ''Revisando''"
| "estado_str Publicado = ''Publicado''"
| "estado_str Error = ''Error''"
| "estado_str Vacio = ''''"

text \<open>
  The four networks. A task selects networks through \<open>red_social_ids\<close>, records
  of \<open>red.social\<close> whose \<open>name\<close> the code compares with these literals.
\<close>

datatype red = Facebook | Instagram | TikTok | LinkedIn

fun red_name :: "red \<Rightarrow> string" where
  "red_name Facebook = ''Facebook''"
| "red_name Instagram = ''Instagram''"
| "red_name TikTok = ''TikTok''"
| "red_name LinkedIn = ''LinkedIn''"

section \<open>Attachments and the task record\<close>

text \<open>
  An \<open>ir.attachment\<close>: its id, file name, MIME type, base64 payload, and what
  \<open>get_video_duration_ffprobe\<close> (lines 1743--1776) makes of it: the whole
  seconds of the video, or the text of the \<open>ValidationError\<close> it raises when
  \<open>ffprobe\<close> fails or times out.
\<close>

record attachment =
  att_id :: nat
  att_name :: string
  att_mimetype :: string
  att_datas :: string
  att_duration :: "string + nat"

text \<open>
  The publication fields of one network. The module declares them flat, one
  group per network with a prefix (lines 85--95 and 143--150); they are
  grouped here, one record per network:
  \<^item> \<open>net_estado\<close> is \<open>fb_estado\<close>, \<open>ig_estado\<close>, \<open>tt_estado\<close>, \<open>li_estado\<close>;
  \<^item> \<open>net_post_id\<close> is \<open>fb_post_id\<close>, \<open>inst_post_id\<close>, \<open>tiktok_post_id\<close>,
    \<open>linkedin_post_id\<close>;
  \<^item> \<open>net_post_url\<close> is \<open>fb_post_url\<close>, \<open>inst_post_url\<close>,
    \<open>tiktok_post_url\<close>, \<open>linkedin_post_url\<close>;
  \<^item> \<open>net_error\<close> is \<open>fb_error\<close>, \<open>ig_error\<close>, \<open>tt_error\<close>, \<open>li_error\<close>.
\<close>

record net_state =
  net_estado :: estado
  net_post_id :: "string option"
  net_post_url :: "string option"
  net_error :: "string option"

text \<open>
  The fields of \<open>project.task\<close> the orchestrator reads and writes. The related
  partner fields (\<open>partner_page_access_token\<close> and the page ids) are read-only
  here; \<open>red_social_names\<close> is \<open>red_social_ids.mapped('name')\<close>.
\<close>

record task =
  task_state :: string
  tipo :: tipo
  fecha_publicacion :: "nat option"
  red_social_names :: "string list"
  adjuntos :: "attachment list"
  imagen_portada :: "string option"
  partner_page_access_token :: "string option"
  partner_facebook_page_id :: "string option"
  partner_instagram_page_id :: "string option"
  partner_tiktok_access_token :: "string option"
  partner_linkedin_page_id :: "string option"
  post_estado :: string
  fb_video_id :: "string option"
  fb :: net_state
  ig :: net_state
  tt :: net_state
  li :: net_state
  tiktok_video_duration :: nat
  tiktok_creator_status_info :: "string option"

text \<open>\<open>'Facebook' in self.red_social_ids.mapped('name')\<close> and its kin.\<close>

definition selected :: "task \<Rightarrow> red \<Rightarrow> bool" where
  "selected t r = (red_name r \<in> set (red_social_names t))"

text \<open>The fields of each network, read and written by name.\<close>

fun net :: "red \<Rightarrow> task \<Rightarrow> net_state" where
  "net Facebook t = fb t"
| "net Instagram t = ig t"
| "net TikTok t = tt t"
| "net LinkedIn t = li t"

fun set_net :: "red \<Rightarrow> net_state \<Rightarrow> task \<Rightarrow> task" where
  "set_net Facebook s t = t\<lparr>fb := s\<rparr>"
| "set_net Instagram s t = t\<lparr>ig := s\<rparr>"
| "set_net TikTok s t = t\<lparr>tt := s\<rparr>"
| "set_net LinkedIn s t = t\<lparr>li := s\<rparr>"

definition phase :: "red \<Rightarrow> task \<Rightarrow> estado" where
  "phase r t = net_estado (net r t)"

text \<open>\<open>self.write({"<p>_estado": e, "<p>_error": err})\<close> for one network.\<close>

definition write_phase :: "red \<Rightarrow> estado \<Rightarrow> string option \<Rightarrow> task \<Rightarrow> task" where
  "write_phase r e err t = set_net r ((net r t)\<lparr>net_estado := e, net_error := err\<rparr>) t"

text \<open>Running an operation of one network's fields on the task.\<close>

definition lift_net :: "red \<Rightarrow> (net_state \<Rightarrow> 'a \<times> net_state) \<Rightarrow> task \<Rightarrow> 'a \<times> task" where
  "lift_net r f t = (case f (net r t) of (a, s') \<Rightarrow> (a, set_net r s' t))"

text \<open>Terminal phases of the state machine.\<close>

definition terminal :: "estado \<Rightarrow> bool" where
  "terminal e = (e = Publicado \<or> e = Error)"

section \<open>Lemmas\<close>

lemma red_name_inj: "red_name a = red_name b \<Longrightarrow> a = b"
  by (cases a; cases b) simp_all

lemma estado_str_inj: "estado_str a = estado_str b \<Longrightarrow> a = b"
  by (cases a; cases b) simp_all

lemma net_set_net [simp]: "net r (set_net r s t) = s"
  by (cases r) simp_all

lemma net_set_net_other [simp]: "r \<noteq> q \<Longrightarrow> net q (set_net r s t) = net q t"
  by (cases r; cases q) simp_all

lemma set_net_net [simp]: "set_net r (net r t) t = t"
  by (cases r) simp_all

lemma set_net_set_net [simp]: "set_net r s (set_net r s' t) = set_net r s t"
  by (cases r) simp_all

lemma set_net_frame [simp]:
  "task_state (set_net r s t) = task_state t" "tipo (set_net r s t) = tipo t"
  "red_social_names (set_net r s t) = red_social_names t" "adjuntos (set_net r s t) = adjuntos t"
  "imagen_portada (set_net r s t) = imagen_portada t" "post_estado (set_net r s t) = post_estado t"
  "fb_video_id (set_net r s t) = fb_video_id t"
  by (cases r; simp)+

lemma selected_set_net [simp]: "selected (set_net r s t) q = selected t q"
  by (simp add: selected_def)

lemma phase_write_phase [simp]: "phase r (write_phase r e err t) = e"
  by (simp add: phase_def write_phase_def)

lemma phase_write_phase_other [simp]: "r \<noteq> q \<Longrightarrow> phase q (write_phase r e err t) = phase q t"
  by (simp add: phase_def write_phase_def)

lemma net_write_phase_other [simp]: "r \<noteq> q \<Longrightarrow> net q (write_phase r e err t) = net q t"
  by (simp add: write_phase_def)

lemma selected_write_phase [simp]: "selected (write_phase r e err t) q = selected t q"
  by (simp add: write_phase_def)

lemma lift_net_other [simp]: "r \<noteq> q \<Longrightarrow> net q (snd (lift_net r f t)) = net q t"
  by (simp add: lift_net_def split: prod.split)

lemma lift_net_same [simp]: "net r (snd (lift_net r f t)) = snd (f (net r t))"
  by (simp add: lift_net_def split: prod.split)

lemma lift_net_fst [simp]: "fst (lift_net r f t) = fst (f (net r t))"
  by (simp add: lift_net_def split: prod.split)

lemma lift_net_eq: "lift_net r f t = (fst (f (net r t)), set_net r (snd (f (net r t))) t)"
  by (simp add: lift_net_def split: prod.split)

lemma terminal_simps [simp]:
  "terminal Publicado" "terminal Error" "\<not> terminal Programado" "\<not> terminal Procesando"
  "\<not> terminal Revisando" "\<not> terminal Vacio"
  by (simp_all add: terminal_def)

end
