(* ===== verification/Estado_Global.thy ===== *)
theory Estado_Global
  imports Task
begin

text \<open>
  The aggregation of the four per-platform phases into one global phase,
  \<open>project_task._compute_post_estado_global\<close> (lines 148--165). The code works
  on the raw strings: it drops empty values, normalises with
  \<open>strip().lower()\<close>, drops \<open>programado\<close>, and decides by the order
  error, all-published, reviewing, processing. \<open>compute_post_estado_global\<close>
  is that code on any four strings; \<open>aggregate\<close> is the same rule on the
  phases the module writes, and the two agree.
  \<open>spec_aggregate\<close> is the rule of the specification (section 4.3), which looks
  only at the selected networks; the code refines it when the unselected
  networks were never started and every selected one was.
\<close>

section \<open>The code, on strings\<close>

definition compute_post_estado_global :: "string list \<Rightarrow> string" where
  "compute_post_estado_global estados =
     (let estados_norm = map py_norm (filter (\<lambda>e. e \<noteq> []) estados);
          estados_validos = filter (\<lambda>e. e \<noteq> ''programado'') estados_norm
      in if estados_validos = [] then ''Programado''
         else if ''error'' \<in> set estados_validos then ''Error''
         else if list_all (\<lambda>e. e = ''publicado'') estados_validos then ''Publicado''
         else if ''revisando'' \<in> set estados_validos then ''Revisando''
         else if ''procesando'' \<in> set estados_validos then ''Procesando''
         else ''Programado'')"

text \<open>The record method: \<open>estados = [fb_estado, ig_estado, tt_estado, li_estado]\<close>.\<close>

definition task_estados :: "task \<Rightarrow> estado list" where
  "task_estados t = [net_estado (fb t), net_estado (ig t), net_estado (tt t), net_estado (li t)]"

definition post_estado_global :: "task \<Rightarrow> string" where
  "post_estado_global t = compute_post_estado_global (map estado_str (task_estados t))"

section \<open>The same rule on phases\<close>

definition valid_estados :: "estado list \<Rightarrow> estado list" where
  "valid_estados es = filter (\<lambda>e. e \<noteq> Vacio \<and> e \<noteq> Programado) es"

definition aggregate :: "estado list \<Rightarrow> estado" where
  "aggregate es =
     (let v = valid_estados es
      in if v = [] then Programado
         else if Error \<in> set v then Error
         else if list_all (\<lambda>e. e = Publicado) v then Publicado
         else if Revisando \<in> set v then Revisando
         else if Procesando \<in> set v then Procesando
         else Programado)"

section \<open>The rule of the specification\<close>

text \<open>
  Section 4.3 of the specification: only the selected networks count; error
  dominates, then all-published, then reviewing, then processing, else pending.
\<close>

definition spec_aggregate :: "estado list \<Rightarrow> estado" where
  "spec_aggregate ps =
     (if Error \<in> set ps then Error
      else if list_all (\<lambda>e. e = Publicado) ps then Publicado
      else if Revisando \<in> set ps then Revisando
      else if Procesando \<in> set ps then Procesando
      else Programado)"

definition selected_phases :: "task \<Rightarrow> estado list" where
  "selected_phases t = map (\<lambda>r. phase r t) (filter (selected t) [Facebook, Instagram, TikTok, LinkedIn])"

section \<open>Lemmas\<close>

text \<open>The normal form of each phase string.\<close>

fun estado_lc :: "estado \<Rightarrow> string" where
  "estado_lc Programado = ''programado''"
| "estado_lc Procesando = ''procesando''"
| "estado_lc Revisando = ''revisando''"
| "estado_lc Publicado = ''publicado''"
| "estado_lc Error = ''error''"
| "estado_lc Vacio = ''''"

lemma py_norm_literals [simp]:
  "py_norm ''Programado'' = ''programado''" "py_norm ''Procesando'' = ''procesando''"
  "py_norm ''Revisando'' = ''revisando''" "py_norm ''Publicado'' = ''publicado''"
  "py_norm ''Error'' = ''error''" "py_norm [] = []"
  by code_simp+

lemma py_norm_estado_str [simp]: "py_norm (estado_str e) = estado_lc e"
  by (cases e) (simp_all add: py_norm_literals)

lemma estado_str_empty_iff [simp]: "(estado_str e = []) = (e = Vacio)"
  by (cases e) simp_all

lemma estado_lc_eq_iff [simp]:
  "(estado_lc e = ''programado'') = (e = Programado)"
  "(estado_lc e = ''procesando'') = (e = Procesando)"
  "(estado_lc e = ''revisando'') = (e = Revisando)"
  "(estado_lc e = ''publicado'') = (e = Publicado)"
  "(estado_lc e = ''error'') = (e = Error)"
  "(''error'' = estado_lc e) = (e = Error)"
  "(''revisando'' = estado_lc e) = (e = Revisando)"
  "(''procesando'' = estado_lc e) = (e = Procesando)"
  by (cases e; simp)+

lemma filter_map_comp: "filter P (map f xs) = map f (filter (P \<circ> f) xs)"
  by (induction xs) simp_all

lemma lc_member:
  "(''error'' \<in> estado_lc ` A) = (Error \<in> A)"
  "(''revisando'' \<in> estado_lc ` A) = (Revisando \<in> A)"
  "(''procesando'' \<in> estado_lc ` A) = (Procesando \<in> A)"
  by (simp_all add: image_iff)

lemma valid_norm:
  "filter (\<lambda>e. e \<noteq> ''programado'') (map py_norm (filter (\<lambda>e. e \<noteq> []) (map estado_str es)))
     = map estado_lc (valid_estados es)"
  by (induction es) (simp_all add: valid_estados_def)

lemma compute_aggregate:
  "compute_post_estado_global (map estado_str es) = estado_str (aggregate es)"
proof -
  let ?v = "valid_estados es"
  have "list_all (\<lambda>e. e = ''publicado'') (map estado_lc ?v) = list_all (\<lambda>e. e = Publicado) ?v"
    by (simp add: list_all_iff)
  then show ?thesis
    unfolding compute_post_estado_global_def aggregate_def Let_def valid_norm
    by (simp add: lc_member)
qed

lemma valid_estados_Cons:
  "valid_estados (e # es) = (if e = Vacio \<or> e = Programado then valid_estados es else e # valid_estados es)"
  by (simp add: valid_estados_def)

lemma set_valid_estados: "set (valid_estados es) = set es - {Vacio, Programado}"
  by (auto simp: valid_estados_def)

lemma aggregate_Error: "Error \<in> set es \<Longrightarrow> aggregate es = Error"
proof -
  assume "Error \<in> set es"
  then have "Error \<in> set (valid_estados es)" by (simp add: set_valid_estados)
  then show ?thesis by (auto simp: aggregate_def Let_def)
qed

lemma aggregate_cases:
  "aggregate es \<in> {Programado, Error, Publicado, Revisando, Procesando}"
  by (simp add: aggregate_def Let_def)

subsection \<open>The rule of the specification\<close>


lemma valid_estados_id: "Programado \<notin> set v \<Longrightarrow> Vacio \<notin> set v \<Longrightarrow> valid_estados v = v"
  unfolding valid_estados_def by (induction v) auto

lemma aggregate_eq_spec:
  "v \<noteq> [] \<Longrightarrow> Programado \<notin> set v \<Longrightarrow> Vacio \<notin> set v \<Longrightarrow> aggregate v = spec_aggregate v"
  by (simp add: aggregate_def spec_aggregate_def valid_estados_id Let_def)

lemma valid_task_estados:
  assumes unsel: "\<forall>r. \<not> selected t r \<longrightarrow> phase r t = Programado \<or> phase r t = Vacio"
      and sel: "\<forall>r. selected t r \<longrightarrow> phase r t \<noteq> Programado \<and> phase r t \<noteq> Vacio"
  shows "valid_estados (task_estados t) = selected_phases t"
proof -
  have "\<And>r. (phase r t \<noteq> Vacio \<and> phase r t \<noteq> Programado) = selected t r"
    using unsel sel by blast
  then have "filter (\<lambda>e. e \<noteq> Vacio \<and> e \<noteq> Programado) (map (\<lambda>r. phase r t) [Facebook, Instagram, TikTok, LinkedIn])
    = map (\<lambda>r. phase r t) (filter (selected t) [Facebook, Instagram, TikTok, LinkedIn])"
    by (simp only: filter_map_comp o_def)
  then show ?thesis by (simp add: valid_estados_def task_estados_def selected_phases_def phase_def)
qed

lemma set_selected_phases: "set (selected_phases t) = (\<lambda>r. phase r t) ` {r. selected t r}"
proof -
  have "set [Facebook, Instagram, TikTok, LinkedIn] = UNIV" using red.exhaust by auto
  then have "{r. selected t r} = set (filter (selected t) [Facebook, Instagram, TikTok, LinkedIn])"
    by (simp only: set_filter) simp
  then show ?thesis by (simp add: selected_phases_def)
qed

text \<open>C34: When the unselected networks are Programado or empty and every selected one has started, the code's global phase equals the specification's rule applied to the selected networks' phases.\<close>

theorem post_estado_global_refines_spec:
  assumes "\<forall>r. \<not> selected t r \<longrightarrow> phase r t = Programado \<or> phase r t = Vacio"
      and "\<forall>r. selected t r \<longrightarrow> phase r t \<noteq> Programado \<and> phase r t \<noteq> Vacio"
      and "selected_phases t \<noteq> []"
  shows "post_estado_global t = estado_str (spec_aggregate (selected_phases t))"
proof -
  have np: "Programado \<notin> set (selected_phases t)" "Vacio \<notin> set (selected_phases t)"
    using assms(2) by (auto simp: set_selected_phases)
  have "aggregate (task_estados t) = aggregate (selected_phases t)"
    unfolding aggregate_def using valid_task_estados [OF assms(1,2)] valid_estados_id [OF np] by simp
  also have "\<dots> = spec_aggregate (selected_phases t)"
    using assms(3) np by (rule aggregate_eq_spec)
  finally show ?thesis
    by (simp add: post_estado_global_def compute_aggregate)
qed

text \<open>C36: An unselected network left in Error makes the global phase Error: the aggregation does not look at the selection.\<close>

theorem post_estado_global_unselected_error:
  "\<not> selected t r \<Longrightarrow> phase r t = Error \<Longrightarrow> post_estado_global t = ''Error''"
proof -
  assume "phase r t = Error"
  then have "Error \<in> set (task_estados t)" by (cases r) (simp_all add: task_estados_def phase_def)
  then show ?thesis by (simp add: post_estado_global_def compute_aggregate aggregate_Error)
qed


end
