(* ===== verification/Json.thy ===== *)
theory Json
  imports Prelude
begin

text \<open>
  \<open>publish_on_facebook\<close> stores the ids of the unpublished photos of a feed
  post as \<open>json.dumps(photo_ids)\<close> in the \<open>fb_post_id\<close> field (lines 739--743), and
  \<open>_run_facebook_flow\<close> reads them back with \<open>json.loads\<close> when the stripped
  field starts with \<open>[\<close> (lines 369--375). This theory models both for a JSON
  array of strings over ASCII: \<open>json_dumps\<close> writes what Python's encoder
  writes with its default separators and \<open>ensure_ascii\<close>, \<open>json_loads\<close> is a
  one-pass automaton over the characters that accepts a JSON array of strings
  with optional whitespace and returns \<open>None\<close> where \<open>json.loads\<close> raises.
  (\<open>json.loads\<close> also accepts arrays of numbers or nested values; the field
  never holds one.)
\<close>

section \<open>Encoder\<close>

definition hex_digit :: "nat \<Rightarrow> char" where
  "hex_digit n = (if n < 10 then char_of (48 + n) else char_of (87 + n))"

text \<open>Python's \<open>ESCAPE_ASCII\<close> table, for a character below 128.\<close>

definition json_esc :: "char \<Rightarrow> string" where
  "json_esc c =
     (let n = (of_char c :: nat) in
      if c = CHR 0x22 then [CHR 0x5C, CHR 0x22]
      else if c = CHR 0x5C then [CHR 0x5C, CHR 0x5C]
      else if n = 8 then [CHR 0x5C, CHR ''b'']
      else if n = 12 then [CHR 0x5C, CHR ''f'']
      else if n = 10 then [CHR 0x5C, CHR ''n'']
      else if n = 13 then [CHR 0x5C, CHR ''r'']
      else if n = 9 then [CHR 0x5C, CHR ''t'']
      else if n < 32 then [CHR 0x5C, CHR ''u'', CHR ''0'', CHR ''0'', hex_digit (n div 16), hex_digit (n mod 16)]
      else [c])"

definition json_str :: "string \<Rightarrow> string" where
  "json_str s = CHR 0x22 # concat (map json_esc s) @ [CHR 0x22]"

fun json_items :: "string list \<Rightarrow> string" where
  "json_items [] = []"
| "json_items [x] = json_str x"
| "json_items (x # y # ys) = json_str x @ '', '' @ json_items (y # ys)"

definition json_dumps :: "string list \<Rightarrow> string" where
  "json_dumps xs = ''['' @ json_items xs @ '']''"

section \<open>Decoder\<close>

text \<open>
  The states of the decoder: before the array, after \<open>[\<close>, inside a string
  (the characters read so far, reversed), after a backslash, inside a
  \<open>\u\<close> escape (the value so far and the digits still to read), after an item,
  after a comma, after \<open>]\<close>. Every state carries the items read so far.
\<close>

datatype jstate =
    J_Start
  | J_Open "string list"
  | J_Str string "string list"
  | J_Esc string "string list"
  | J_Hex nat nat string "string list"
  | J_After "string list"
  | J_Comma "string list"
  | J_End "string list"
  | J_Fail

definition json_ws :: "char \<Rightarrow> bool" where
  "json_ws c = (c = CHR '' '' \<or> c = CHR 0x09 \<or> c = CHR 0x0A \<or> c = CHR 0x0D)"

definition hex_val :: "char \<Rightarrow> nat option" where
  "hex_val c =
     (let n = (of_char c :: nat) in
      if 48 \<le> n \<and> n \<le> 57 then Some (n - 48)
      else if 97 \<le> n \<and> n \<le> 102 then Some (n - 87)
      else if 65 \<le> n \<and> n \<le> 70 then Some (n - 55)
      else None)"

definition unescape :: "char \<Rightarrow> char option" where
  "unescape c =
     (if c = CHR 0x22 \<or> c = CHR 0x5C \<or> c = CHR ''/'' then Some c
      else if c = CHR ''b'' then Some (char_of (8::nat))
      else if c = CHR ''f'' then Some (char_of (12::nat))
      else if c = CHR ''n'' then Some (char_of (10::nat))
      else if c = CHR ''r'' then Some (char_of (13::nat))
      else if c = CHR ''t'' then Some (char_of (9::nat))
      else None)"

fun json_step :: "jstate \<Rightarrow> char \<Rightarrow> jstate" where
  "json_step J_Start c =
     (if json_ws c then J_Start else if c = CHR ''['' then J_Open [] else J_Fail)"
| "json_step (J_Open its) c =
     (if json_ws c then J_Open its else if c = CHR 0x22 then J_Str [] its
      else if c = CHR '']'' then J_End its else J_Fail)"
| "json_step (J_Str acc its) c =
     (if c = CHR 0x22 then J_After (its @ [rev acc])
      else if c = CHR 0x5C then J_Esc acc its
      else if (of_char c :: nat) < 32 then J_Fail
      else J_Str (c # acc) its)"
| "json_step (J_Esc acc its) c =
     (if c = CHR ''u'' then J_Hex 0 4 acc its
      else case unescape c of Some d \<Rightarrow> J_Str (d # acc) its | None \<Rightarrow> J_Fail)"
| "json_step (J_Hex v k acc its) c =
     (case hex_val c of
        None \<Rightarrow> J_Fail
      | Some h \<Rightarrow>
          if k \<le> 1 then (if 16 * v + h < 128 then J_Str (char_of (16 * v + h) # acc) its else J_Fail)
          else J_Hex (16 * v + h) (k - 1) acc its)"
| "json_step (J_After its) c =
     (if json_ws c then J_After its else if c = CHR '','' then J_Comma its
      else if c = CHR '']'' then J_End its else J_Fail)"
| "json_step (J_Comma its) c =
     (if json_ws c then J_Comma its else if c = CHR 0x22 then J_Str [] its else J_Fail)"
| "json_step (J_End its) c = (if json_ws c then J_End its else J_Fail)"
| "json_step J_Fail c = J_Fail"

definition json_loads :: "string \<Rightarrow> string list option" where
  "json_loads s = (case fold (\<lambda>c st. json_step st c) s J_Start of J_End its \<Rightarrow> Some its | _ \<Rightarrow> None)"

text \<open>The strings the round trip is stated for: ASCII, as the ids of the platforms are.\<close>

definition ascii_str :: "string \<Rightarrow> bool" where
  "ascii_str s = (\<forall>c\<in>set s. (of_char c :: nat) < 128)"

abbreviation json_run :: "jstate \<Rightarrow> string \<Rightarrow> jstate" where
  "json_run st s \<equiv> fold (\<lambda>c st. json_step st c) s st"

section \<open>Round trip\<close>

text \<open>
  Each escape sequence the encoder writes is read back as the character it
  encodes; a string literal is read back whole; so is the list.
\<close>

lemma hex_val_hex_digit: "n < 16 \<Longrightarrow> hex_val (hex_digit n) = Some n"
  by (auto simp: hex_val_def hex_digit_def of_char_of Let_def)

lemma char_of_eq: "(of_char c :: nat) = n \<Longrightarrow> c = char_of n"
  by (metis char_of_char)

lemma hex_val_0 [simp]: "hex_val (CHR ''0'') = Some 0"
  by (simp add: hex_val_def)

lemma unescape_simps [simp]:
  "unescape (CHR 0x22) = Some (CHR 0x22)" "unescape (CHR 0x5C) = Some (CHR 0x5C)"
  "unescape (CHR ''b'') = Some (char_of (8::nat))" "unescape (CHR ''f'') = Some (char_of (12::nat))"
  "unescape (CHR ''n'') = Some (char_of (10::nat))" "unescape (CHR ''r'') = Some (char_of (13::nat))"
  "unescape (CHR ''t'') = Some (char_of (9::nat))"
  by (simp_all add: unescape_def)

lemma json_run_esc:
  assumes "(of_char c :: nat) < 128"
  shows "json_run (J_Str acc its) (json_esc c) = J_Str (c # acc) its"
proof -
  let ?n = "of_char c :: nat"
  consider "c = CHR 0x22" | "c = CHR 0x5C" | "?n = 8" | "?n = 12" | "?n = 10" | "?n = 13" | "?n = 9"
    | "c \<noteq> CHR 0x22" "c \<noteq> CHR 0x5C" "?n \<noteq> 8" "?n \<noteq> 12" "?n \<noteq> 10" "?n \<noteq> 13" "?n \<noteq> 9" "?n < 32"
    | "c \<noteq> CHR 0x22" "c \<noteq> CHR 0x5C" "\<not> ?n < 32"
    by linarith
  then show ?thesis
  proof cases
    case 8
    have hi: "hex_val (hex_digit (?n div 16)) = Some (?n div 16)" and lo: "hex_val (hex_digit (?n mod 16)) = Some (?n mod 16)"
      using 8 by (simp_all add: hex_val_hex_digit)
    have "16 * (?n div 16) + ?n mod 16 = ?n" by simp
    with 8 hi lo show ?thesis
      by (simp add: json_esc_def Let_def char_of_char)
  next
    case 9
    then show ?thesis by (simp add: json_esc_def Let_def)
  qed (auto simp: json_esc_def Let_def dest!: char_of_eq)
qed


lemma json_run_body:
  "ascii_str s \<Longrightarrow> json_run (J_Str acc its) (concat (map json_esc s)) = J_Str (rev s @ acc) its"
proof (induction s arbitrary: acc)
  case Nil
  then show ?case by simp
next
  case (Cons c s)
  then have "(of_char c :: nat) < 128" and "ascii_str s" by (simp_all add: ascii_str_def)
  then show ?case using Cons.IH by (simp add: json_run_esc)
qed

lemma json_run_str:
  assumes "st = J_Open its \<or> st = J_Comma its" and "ascii_str x"
  shows "json_run st (json_str x) = J_After (its @ [x])"
proof -
  have "json_step st (CHR 0x22) = J_Str [] its" using assms(1) by (auto simp: json_ws_def)
  with assms(2) show ?thesis by (simp add: json_str_def json_run_body)
qed

lemma json_run_items:
  "st = J_Open its \<or> st = J_Comma its \<Longrightarrow> xs \<noteq> [] \<Longrightarrow> \<forall>x\<in>set xs. ascii_str x \<Longrightarrow>
   json_run st (json_items xs) = J_After (its @ xs)"
proof (induction xs arbitrary: st its rule: json_items.induct)
  case 1
  then show ?case by simp
next
  case (2 x)
  then show ?case by (simp add: json_run_str)
next
  case (3 x y ys)
  have "json_run st (json_str x) = J_After (its @ [x])"
    using "3.prems" by (simp add: json_run_str)
  moreover have "json_run (J_After (its @ [x])) '', '' = J_Comma (its @ [x])"
    by (simp add: json_ws_def)
  moreover have "json_run (J_Comma (its @ [x])) (json_items (y # ys)) = J_After ((its @ [x]) @ y # ys)"
    using "3.prems" by (intro "3.IH") simp_all
  ultimately show ?case by simp
qed

lemma json_roundtrip: "\<forall>x\<in>set xs. ascii_str x \<Longrightarrow> json_loads (json_dumps xs) = Some xs"
proof (cases "xs = []")
  case True
  then show ?thesis by (simp add: json_loads_def json_dumps_def json_ws_def)
next
  case False
  assume a: "\<forall>x\<in>set xs. ascii_str x"
  have "json_run J_Start ''['' = J_Open []" by (simp add: json_ws_def)
  moreover have "json_run (J_Open []) (json_items xs) = J_After xs"
    using json_run_items [of "J_Open []" "[]" xs] False a by simp
  moreover have "json_run (J_After xs) '']'' = J_End xs" by (simp add: json_ws_def)
  ultimately show ?thesis by (simp add: json_loads_def json_dumps_def)
qed


end
