(* ===== verification/Reconcile.thy ===== *)
theory Reconcile
  imports Estado_Global Json
begin

text \<open>
  The reconciliation sweep \<open>project_task.revisar_post\<close> (lines 313--347) and
  the four per-network flows it runs: \<open>_run_facebook_flow\<close> (358--583),
  \<open>_run_instagram_flow\<close> (585--703), \<open>_run_tiktok_flow\<close> (705--784) and
  \<open>_run_linkedin_flow\<close> (786--827). Each flow is a function of the
  \<open>from_cron\<close> flag, of the answers the platform gives to the requests the
  flow sends (a record per flow, one field per request; \<open>Inl\<close> of the text of
  the exception \<open>requests\<close> raises, \<open>Inr\<close> of the fields of the JSON answer
  the code reads) and of the task; it returns what the Python method returns
  or raises, and the task as the method leaves it. The bodies follow the
  Python statement by statement: a \<open>return\<close> in the middle of a body is an
  \<open>Exit\<close> of the early-return combinators of the prelude.
\<close>

section \<open>Return values\<close>

text \<open>
  The flows return \<open>True\<close>, fall off their end (\<open>None\<close>), or return an
  \<open>ir.actions.client\<close> notification, kept here by its title.
\<close>

datatype flow_ret = Ret_True | Ret_None | Notification string

definition cron_ret :: "bool \<Rightarrow> string \<Rightarrow> flow_ret" where
  "cron_ret from_cron title = (if from_cron then Ret_True else Notification title)"

section \<open>The answers of the platforms\<close>

text \<open>Facebook: the \<open>feed\<close> POST (\<open>id\<close>, \<open>error.code\<close>, the body as printed).\<close>

record fb_feed_data =
  ffd_id :: "string option"
  ffd_error_code :: "int option"
  ffd_raw :: string

record fb_remote =
  fb_feed_resp :: "string + fb_feed_data"
  fb_video_status_resp :: "string + string option"
  fb_reel_publish_resp :: "string + string option \<times> string"
  fb_thumb_resp :: "string + nat \<times> string"
  fb_permalink_resp :: "string + string option"

text \<open>
  Instagram: the container status (\<open>status_code\<close>, body), \<open>media_publish\<close>
  (\<open>id\<close>, body), the permalink.
\<close>

record ig_remote =
  ig_status_resp :: "string + string option \<times> string"
  ig_publish_resp :: "string + string option \<times> string"
  ig_permalink_resp :: "string + string option"

text \<open>TikTok: the \<open>data\<close> object of \<open>publish/status/fetch\<close>, and the body.\<close>

record tt_status_data =
  tt_status :: "string option"
  tt_publicaly_id :: "string option"
  tt_publicly_id :: "string option"

record tt_remote =
  tt_status_resp :: "string + tt_status_data \<times> string"

record remote =
  rm_fb :: fb_remote
  rm_ig :: ig_remote
  rm_tt :: tt_remote

section \<open>Shared error handling\<close>

text \<open>
  The explicit failure branches of the Instagram and TikTok flows
  (lines 617--631, 644--658, 730--744): record the error, then raise it under
  the scheduler or return a danger notification.
\<close>

definition flow_fail :: "red \<Rightarrow> bool \<Rightarrow> string \<Rightarrow> net_state \<Rightarrow> (exc + flow_ret) \<times> net_state" where
  "flow_fail r from_cron msg s =
     (let s' = s\<lparr>net_estado := Error, net_error := Some msg\<rparr>
      in (if from_cron then Inl (ValidationError msg) else Inr (Notification (''Error '' @ red_name r)), s'))"

text \<open>
  The \<open>except Exception as e\<close> handler of the Instagram, TikTok and LinkedIn
  flows (lines 689--703, 770--784, 813--827): the phase becomes \<open>Error\<close> with
  \<open>str(e)\<close>, and the exception is re-raised under the scheduler.
\<close>

fun flow_except :: "red \<Rightarrow> bool \<Rightarrow> (exc + flow_ret) \<times> net_state \<Rightarrow> (exc + flow_ret) \<times> net_state" where
  "flow_except r from_cron (Inl e, s) =
     (if from_cron then Inl e else Inr (Notification (''Error '' @ red_name r)),
      s\<lparr>net_estado := Error, net_error := Some (exc_str e)\<rparr>)"
| "flow_except r from_cron (Inr v, s) = (Inr v, s)"

section \<open>Facebook\<close>

text \<open>
  The stages of \<open>_run_facebook_flow\<close> read the task \<open>t\<close> (its \<open>tipo\<close>,
  cover, page id and \<open>fb_video_id\<close>, which the flow never writes) and run on
  the Facebook fields \<open>s\<close>.
\<close>

text \<open>\<open>json.loads\<close> of the stripped \<open>fb_post_id\<close> when it starts with \<open>[\<close> (lines 375--381).\<close>

definition fb_media_ids :: "string option \<Rightarrow> string list option" where
  "fb_media_ids v =
     (let val = py_strip (case v of None \<Rightarrow> [] | Some s \<Rightarrow> s)
      in if take 1 val = ''['' then json_loads val else None)"

text \<open>Lines 369--371: \<open>Procesando\<close> becomes \<open>Revisando\<close>, without returning.\<close>

definition fb_start_stage :: "net_state \<Rightarrow> (net_state, flow_ret) stage" where
  "fb_start_stage s = Next (if net_estado s = Procesando then s\<lparr>net_estado := Revisando\<rparr> else s)"

text \<open>Lines 373--422: the feed post that attaches the unpublished photos.\<close>

definition fb_feed_stage :: "bool \<Rightarrow> fb_remote \<Rightarrow> task \<Rightarrow> net_state \<Rightarrow> (net_state, flow_ret) stage" where
  "fb_feed_stage from_cron r t s =
     (if net_estado s = Revisando \<and> tipo t = Feed \<and> truthy (net_post_id s) \<and> \<not> truthy (net_post_url s) then
        (case fb_media_ids (net_post_id s) of
           None \<Rightarrow> Next s
         | Some ids \<Rightarrow>
             if ids = [] then Next s
             else (case fb_feed_resp r of
                     Inl e \<Rightarrow> Exit (Inl (ValidationError
                               (''Facebook Feed: error de comunicaci'' @ acute_o @ ''n con la API. Detalle: '' @ e)))
                             (s\<lparr>net_estado := Error\<rparr>)
                   | Inr d \<Rightarrow>
                       if truthy (ffd_id d) then Next (s\<lparr>net_post_id := ffd_id d, net_estado := Publicado\<rparr>)
                       else if ffd_error_code d = Some 9007 \<or> ffd_error_code d = Some 2207027
                       then Exit (Inr (cron_ret from_cron ''Procesando'')) s
                       else Exit (Inl (ValidationError (''Facebook Feed: error al publicar. Detalle: '' @ ffd_raw d)))
                              (s\<lparr>net_estado := Error\<rparr>)))
      else Next s)"

text \<open>Lines 424--426: the URL of a published feed post.\<close>

definition fb_feed_url_stage :: "net_state \<Rightarrow> (net_state, flow_ret) stage" where
  "fb_feed_url_stage s =
     Next (if truthy (net_post_id s) \<and> net_estado s = Publicado \<and> \<not> truthy (net_post_url s)
           then s\<lparr>net_post_url := Some (''https://www.facebook.com/'' @ fmt_field (net_post_id s))\<rparr>
           else s)"

text \<open>Lines 429--451: a story with a post id is published, whatever its phase.\<close>

definition fb_stories_stage :: "bool \<Rightarrow> task \<Rightarrow> net_state \<Rightarrow> (net_state, flow_ret) stage" where
  "fb_stories_stage from_cron t s =
     (if tipo t = Video_stories \<and> truthy (net_post_id s) then
        (let s1 = s\<lparr>net_estado := Publicado\<rparr>;
             s2 = (if \<not> truthy (net_post_url s1)
                   then s1\<lparr>net_post_url := Some (''https://www.facebook.com/'' @ fmt_field (partner_facebook_page_id t))\<rparr>
                   else s1)
         in Exit (Inr (cron_ret from_cron ''Publicado'')) s2)
      else Next s)"

text \<open>Lines 466--529: poll the reel, publish it, attach the cover.\<close>

definition fb_reel_publish_stage :: "fb_remote \<Rightarrow> task \<Rightarrow> net_state \<Rightarrow> (net_state, flow_ret) stage" where
  "fb_reel_publish_stage r t s =
     (if net_estado s = Revisando \<and> truthy (fb_video_id t) then
        (case fb_video_status_resp r of
           Inl e \<Rightarrow> Exit (Inl (RequestError e)) s
         | Inr up \<Rightarrow>
             if up \<noteq> Some ''complete'' then Exit (Inr Ret_True) s
             else (case fb_reel_publish_resp r of
                     Inl e \<Rightarrow> Exit (Inl (RequestError e)) s
                   | Inr (pid, raw) \<Rightarrow>
                       if \<not> truthy pid
                       then Exit (Inl (ValidationError (''Facebook Reel: no devolvi'' @ acute_o @ '' post_id. Detalle: '' @ raw))) s
                       else (let s1 = s\<lparr>net_post_id := pid, net_estado := Publicado\<rparr>
                             in if truthy (imagen_portada t) \<and> truthy (fb_video_id t) then
                                  (case fb_thumb_resp r of
                                     Inl e \<Rightarrow> Exit (Inl (RequestError e)) s1
                                   | Inr (code, text) \<Rightarrow>
                                       if 400 \<le> code
                                       then Exit (Inl (ValidationError (''FB thumbnails error: '' @ nat_str code @ '' '' @ text))) s1
                                       else Next s1)
                                else Next s1)))
      else Next s)"

text \<open>Lines 531--552: fetch the permalink of a published reel.\<close>

definition fb_reel_url_stage :: "bool \<Rightarrow> fb_remote \<Rightarrow> net_state \<Rightarrow> (net_state, flow_ret) stage" where
  "fb_reel_url_stage from_cron r s =
     (if net_estado s = Publicado \<and> truthy (net_post_id s) \<and> \<not> truthy (net_post_url s) then
        (case fb_permalink_resp r of
           Inl e \<Rightarrow> Exit (Inl (RequestError e)) s
         | Inr u \<Rightarrow> Exit (Inr (cron_ret from_cron ''Publicado'')) (s\<lparr>net_post_url := u\<rparr>))
      else Next s)"

text \<open>
  Lines 454--555: the reel branch. Its first test (\<open>Procesando\<close>, line 459)
  can no longer hold, as line 369 has already moved the phase on; it is kept
  as written.
\<close>

definition fb_reels_stage :: "bool \<Rightarrow> fb_remote \<Rightarrow> task \<Rightarrow> net_state \<Rightarrow> (net_state, flow_ret) stage" where
  "fb_reels_stage from_cron r t s =
     (if tipo t = Video_reels then
        (if net_estado s = Procesando then Exit (Inr Ret_True) (s\<lparr>net_estado := Revisando\<rparr>)
         else then_stage (fb_reel_publish_stage r t s) (fb_reel_url_stage from_cron r))
      else Next s)"

text \<open>
  The whole flow on the Facebook fields. Both \<open>except\<close> clauses re-raise
  (lines 554--560); the second handler of the outer \<open>try\<close> (lines 566--583) is
  unreachable.
\<close>

definition facebook_flow :: "bool \<Rightarrow> fb_remote \<Rightarrow> task \<Rightarrow> net_state \<Rightarrow> (exc + flow_ret) \<times> net_state" where
  "facebook_flow from_cron r t s =
     finish_stage Ret_None
       (then_stage (fb_start_stage s) (\<lambda>s1.
        then_stage (fb_feed_stage from_cron r t s1) (\<lambda>s2.
        then_stage (fb_feed_url_stage s2) (\<lambda>s3.
        then_stage (fb_stories_stage from_cron t s3) (fb_reels_stage from_cron r t)))))"

definition run_facebook_flow :: "bool \<Rightarrow> fb_remote \<Rightarrow> task \<Rightarrow> (exc + flow_ret) \<times> task" where
  "run_facebook_flow from_cron r t = lift_net Facebook (facebook_flow from_cron r t) t"

section \<open>Instagram\<close>

text \<open>
  The body of the \<open>try\<close> of lines 593--687, on the Instagram fields
  (\<open>inst_post_id\<close>, \<open>inst_post_url\<close>, \<open>ig_estado\<close>, \<open>ig_error\<close>).
\<close>

definition instagram_try :: "bool \<Rightarrow> ig_remote \<Rightarrow> net_state \<Rightarrow> (exc + flow_ret) \<times> net_state" where
  "instagram_try from_cron r s =
     (if net_estado s = Procesando then (Inr Ret_True, s\<lparr>net_estado := Revisando\<rparr>)
      else if net_estado s = Revisando \<and> truthy (net_post_id s) \<and> \<not> truthy (net_post_url s) then
        (case ig_status_resp r of
           Inl e \<Rightarrow> (Inl (RequestError e), s)
         | Inr (sc, raw) \<Rightarrow>
             if \<not> truthy sc \<or> py_in sc [''IN_PROGRESS'', ''PROCESSING''] then (Inr Ret_True, s)
             else if sc = Some ''ERROR'' then flow_fail Instagram from_cron (''Container ERROR: '' @ raw) s
             else (case ig_publish_resp r of
                     Inl e \<Rightarrow> (Inl (RequestError e), s)
                   | Inr (mid, raw2) \<Rightarrow>
                       if \<not> truthy mid then flow_fail Instagram from_cron (''media_publish sin id: '' @ raw2) s
                       else (case ig_permalink_resp r of
                               Inl e \<Rightarrow> (Inl (RequestError e), s)
                             | Inr pl \<Rightarrow>
                                 (Inr (cron_ret from_cron ''Publicado''),
                                  s\<lparr>net_post_id := mid, net_post_url := (if truthy pl then pl else None),
                                    net_estado := Publicado, net_error := None\<rparr>))))
      else (Inr Ret_True, s))"

definition instagram_flow :: "bool \<Rightarrow> ig_remote \<Rightarrow> net_state \<Rightarrow> (exc + flow_ret) \<times> net_state" where
  "instagram_flow from_cron r s = flow_except Instagram from_cron (instagram_try from_cron r s)"

definition run_instagram_flow :: "bool \<Rightarrow> ig_remote \<Rightarrow> task \<Rightarrow> (exc + flow_ret) \<times> task" where
  "run_instagram_flow from_cron r t = lift_net Instagram (instagram_flow from_cron r) t"

section \<open>TikTok\<close>

text \<open>
  The body of the \<open>try\<close> of lines 707--768, on the TikTok fields
  (\<open>tiktok_post_id\<close> holds the publish id, \<open>tiktok_post_url\<close>, \<open>tt_estado\<close>,
  \<open>tt_error\<close>).
\<close>

definition tiktok_try :: "bool \<Rightarrow> tt_remote \<Rightarrow> net_state \<Rightarrow> (exc + flow_ret) \<times> net_state" where
  "tiktok_try from_cron r s =
     (if net_estado s = Procesando then (Inr Ret_True, s\<lparr>net_estado := Revisando\<rparr>)
      else if net_estado s = Revisando \<and> truthy (net_post_id s) \<and> \<not> truthy (net_post_url s) then
        (case tt_status_resp r of
           Inl e \<Rightarrow> (Inl (RequestError e), s)
         | Inr (d, raw) \<Rightarrow>
             if \<not> truthy (tt_status d) \<or> py_in (tt_status d) [''IN_PROGRESS'', ''PROCESSING'', ''PUBLISHING'']
             then (Inr Ret_True, s)
             else if py_in (tt_status d) [''ERROR'', ''FAILED'', ''PUBLISH_FAILED'']
             then flow_fail TikTok from_cron (''TikTok status error: '' @ raw) s
             else if tt_status d = Some ''PUBLISH_COMPLETE'' then
               (let video_id = (if truthy (tt_publicaly_id d) then tt_publicaly_id d else tt_publicly_id d);
                    s1 = (if truthy video_id
                          then s\<lparr>net_post_url := Some (''https://www.tiktok.com/@_/video/'' @ fmt_field video_id)\<rparr>
                          else s)
                in (Inr (cron_ret from_cron ''Publicado''), s1\<lparr>net_estado := Publicado, net_error := None\<rparr>))
             else (Inr Ret_True, s))
      else (Inr Ret_True, s))"

definition tiktok_flow :: "bool \<Rightarrow> tt_remote \<Rightarrow> net_state \<Rightarrow> (exc + flow_ret) \<times> net_state" where
  "tiktok_flow from_cron r s = flow_except TikTok from_cron (tiktok_try from_cron r s)"

definition run_tiktok_flow :: "bool \<Rightarrow> tt_remote \<Rightarrow> task \<Rightarrow> (exc + flow_ret) \<times> task" where
  "run_tiktok_flow from_cron r t = lift_net TikTok (tiktok_flow from_cron r) t"

section \<open>LinkedIn\<close>

text \<open>
  The body of the \<open>try\<close> of lines 788--811. The post already exists when the
  flow first runs (\<open>publish_on_linkedin\<close> created it); the flow only writes
  its URL and the final phase.
\<close>

definition linkedin_try :: "bool \<Rightarrow> net_state \<Rightarrow> (exc + flow_ret) \<times> net_state" where
  "linkedin_try from_cron s =
     (let s1 = (if net_estado s = Procesando then s\<lparr>net_estado := Revisando\<rparr> else s)
      in if net_estado s1 = Revisando \<and> truthy (net_post_id s1) then
           (let s2 = (if \<not> truthy (net_post_url s1)
                      then s1\<lparr>net_post_url := Some (''https://www.linkedin.com/feed/update/'' @ fmt_field (net_post_id s1) @ ''/'')\<rparr>
                      else s1)
            in (Inr (cron_ret from_cron ''Publicado''), s2\<lparr>net_estado := Publicado, net_error := None\<rparr>))
         else (Inr Ret_True, s1))"

definition linkedin_flow :: "bool \<Rightarrow> net_state \<Rightarrow> (exc + flow_ret) \<times> net_state" where
  "linkedin_flow from_cron s = flow_except LinkedIn from_cron (linkedin_try from_cron s)"

definition run_linkedin_flow :: "bool \<Rightarrow> task \<Rightarrow> (exc + flow_ret) \<times> task" where
  "run_linkedin_flow from_cron t = lift_net LinkedIn (linkedin_flow from_cron) t"

section \<open>The sweep\<close>

text \<open>
  \<open>revisar_post\<close> runs the flow of every selected network, in the order
  Facebook, Instagram, TikTok, LinkedIn, ignoring what they return; an
  exception leaves the method at once. \<open>run_when\<close> is one
  \<open>if "<net>" in active: rec._run_<net>_flow(from_cron)\<close>.
\<close>

fun run_when :: "bool \<Rightarrow> (task \<Rightarrow> (exc + flow_ret) \<times> task) \<Rightarrow> (exc + unit) \<times> task \<Rightarrow> (exc + unit) \<times> task" where
  "run_when sel f (Inl e, t) = (Inl e, t)"
| "run_when sel f (Inr u, t) =
     (if sel then (case f t of (Inl e, t') \<Rightarrow> (Inl e, t') | (Inr _, t') \<Rightarrow> (Inr (), t')) else (Inr (), t))"

text \<open>Lines 335--345: the global state becomes \<open>Publicado\<close> when every selected network is.\<close>

definition revisar_global :: "task \<Rightarrow> task" where
  "revisar_global t =
     (let estados = map (\<lambda>r. py_norm (estado_str (phase r t)))
                      (filter (selected t) [Facebook, Instagram, TikTok, LinkedIn])
      in if estados \<noteq> [] \<and> list_all (\<lambda>e. e = ''publicado'') estados
         then t\<lparr>post_estado := ''Publicado''\<rparr> else t)"

text \<open>Lines 315--345: one record of the loop.\<close>

definition revisar_record :: "bool \<Rightarrow> remote \<Rightarrow> task \<Rightarrow> (exc + unit) \<times> task" where
  "revisar_record from_cron r t =
     (case run_when (selected t LinkedIn) (run_linkedin_flow from_cron)
            (run_when (selected t TikTok) (run_tiktok_flow from_cron (rm_tt r))
              (run_when (selected t Instagram) (run_instagram_flow from_cron (rm_ig r))
                (run_when (selected t Facebook) (run_facebook_flow from_cron (rm_fb r)) (Inr (), t)))) of
        (Inl e, t') \<Rightarrow> (Inl e, t')
      | (Inr _, t') \<Rightarrow> (Inr (), revisar_global t'))"

text \<open>
  Lines 313--347: the loop over the recordset. An exception stops the loop;
  the records after the failing one are not visited.
\<close>

fun revisar_post :: "bool \<Rightarrow> (remote \<times> task) list \<Rightarrow> (exc + bool) \<times> task list" where
  "revisar_post from_cron [] = (Inr True, [])"
| "revisar_post from_cron ((r, t) # rts) =
     (case revisar_record from_cron r t of
        (Inl e, t') \<Rightarrow> (Inl e, t' # map snd rts)
      | (Inr _, t') \<Rightarrow> (case revisar_post from_cron rts of (res, ts) \<Rightarrow> (res, t' # ts)))"

text \<open>
  A scheduled sweep calls \<open>revisar_post(from_cron=True)\<close> inside one
  transaction: an exception rolls back the whole batch.
\<close>

definition cron_sweep :: "(remote \<times> task) list \<Rightarrow> (exc + bool) \<times> task list" where
  "cron_sweep rts = odoo_txn (\<lambda>ts. revisar_post True (zip (map fst rts) ts)) (map snd rts)"

section \<open>Lemmas\<close>

named_theorems flow_defs "the bodies of the per-network flows"

lemmas ig_defs [flow_defs] = instagram_flow_def instagram_try_def flow_fail_def cron_ret_def
lemmas tt_defs [flow_defs] = tiktok_flow_def tiktok_try_def flow_fail_def cron_ret_def
lemmas li_defs [flow_defs] = linkedin_flow_def linkedin_try_def cron_ret_def


lemmas fb_defs = facebook_flow_def fb_start_stage_def fb_feed_stage_def fb_feed_url_stage_def
  fb_stories_stage_def fb_reels_stage_def cron_ret_def

text \<open>
  A flow that never writes \<open>Procesando\<close> and reaches a fixed point in one call
  from any other phase reaches one in two calls from any phase.
\<close>

lemma fixed_after_two:
  assumes never: "\<And>s. net_estado (snd (f s)) \<noteq> Procesando"
      and one: "\<And>s. net_estado s \<noteq> Procesando \<Longrightarrow> snd (f (snd (f s))) = snd (f s)"
  shows "snd (f (snd (f (snd (f s))))) = snd (f (snd (f s)))"
  using one [OF never [of s]] by simp

lemma fixed_if_quiet_or_terminal:
  assumes fix_term: "\<And>s. terminal (net_estado s) \<Longrightarrow> snd (f s) = s"
      and step: "snd (f s) = s \<or> terminal (net_estado (snd (f s)))"
  shows "snd (f (snd (f s))) = snd (f s)"
  using step fix_term [of "snd (f s)"] by auto

subsection \<open>Instagram\<close>

lemma instagram_procesando:
  "net_estado s = Procesando \<Longrightarrow> instagram_flow c r s = (Inr Ret_True, s\<lparr>net_estado := Revisando\<rparr>)"
  by (simp add: ig_defs)

lemma instagram_terminal:
  "terminal (net_estado s) \<Longrightarrow> instagram_flow c r s = (Inr Ret_True, s)"
  by (auto simp: ig_defs terminal_def)

lemma instagram_never_procesando: "net_estado (snd (instagram_flow c r s)) \<noteq> Procesando"
  by (auto simp: ig_defs split: sum.splits prod.splits)

lemma instagram_quiet_or_terminal:
  "net_estado s \<noteq> Procesando \<Longrightarrow>
   snd (instagram_flow c r s) = s \<or> terminal (net_estado (snd (instagram_flow c r s)))"
  by (auto simp: ig_defs terminal_def split: sum.splits prod.splits)

text \<open>C33: From any phase other than Procesando, a second Instagram flow call changes nothing that the first did not (the fields reach a fixed point).\<close>

lemma instagram_fixed_after:
  "net_estado s \<noteq> Procesando \<Longrightarrow>
   snd (instagram_flow c r (snd (instagram_flow c r s))) = snd (instagram_flow c r s)"
  by (rule fixed_if_quiet_or_terminal) (simp_all add: instagram_terminal instagram_quiet_or_terminal)

subsection \<open>TikTok\<close>

lemma tiktok_procesando:
  "net_estado s = Procesando \<Longrightarrow> tiktok_flow c r s = (Inr Ret_True, s\<lparr>net_estado := Revisando\<rparr>)"
  by (simp add: tt_defs)

lemma tiktok_terminal:
  "terminal (net_estado s) \<Longrightarrow> tiktok_flow c r s = (Inr Ret_True, s)"
  by (auto simp: tt_defs terminal_def)

lemma tiktok_never_procesando: "net_estado (snd (tiktok_flow c r s)) \<noteq> Procesando"
  by (auto simp: tt_defs Let_def split: sum.splits prod.splits)

lemma tiktok_quiet_or_terminal:
  "net_estado s \<noteq> Procesando \<Longrightarrow>
   snd (tiktok_flow c r s) = s \<or> terminal (net_estado (snd (tiktok_flow c r s)))"
  by (auto simp: tt_defs terminal_def Let_def split: sum.splits prod.splits)

text \<open>From any phase other than Procesando, a second TikTok flow call changes nothing that the first did not.\<close>

lemma tiktok_fixed_after:
  "net_estado s \<noteq> Procesando \<Longrightarrow>
   snd (tiktok_flow c r (snd (tiktok_flow c r s))) = snd (tiktok_flow c r s)"
  by (rule fixed_if_quiet_or_terminal) (simp_all add: tiktok_terminal tiktok_quiet_or_terminal)

subsection \<open>LinkedIn\<close>

lemma linkedin_terminal:
  "terminal (net_estado s) \<Longrightarrow> linkedin_flow c s = (Inr Ret_True, s)"
  by (auto simp: li_defs terminal_def)

lemma linkedin_never_procesando: "net_estado (snd (linkedin_flow c s)) \<noteq> Procesando"
  by (simp add: li_defs Let_def)

lemma linkedin_quiet_or_terminal:
  "net_estado s \<noteq> Procesando \<Longrightarrow> snd (linkedin_flow c s) = s \<or> terminal (net_estado (snd (linkedin_flow c s)))"
  by (simp add: li_defs terminal_def Let_def)

text \<open>From any phase other than Procesando, a second LinkedIn flow call changes nothing that the first did not.\<close>

lemma linkedin_fixed_after:
  "net_estado s \<noteq> Procesando \<Longrightarrow> snd (linkedin_flow c (snd (linkedin_flow c s))) = snd (linkedin_flow c s)"
  by (rule fixed_if_quiet_or_terminal) (simp_all add: linkedin_terminal linkedin_quiet_or_terminal)

subsection \<open>Facebook\<close>

text \<open>A Facebook story with a post id is marked Publicado by the flow, whatever its phase, Error included.\<close>

lemma facebook_story_published:
  "tipo t = Video_stories \<Longrightarrow> truthy (net_post_id s) \<Longrightarrow> net_estado (snd (facebook_flow c r t s)) = Publicado"
  by (simp add: fb_defs Let_def)

text \<open>C27: A Facebook story without a post id in Procesando or Revisando is left in Revisando with no error, on every call: it never reaches a terminal phase.\<close>

lemma facebook_story_without_post_id:
  "tipo t = Video_stories \<Longrightarrow> \<not> truthy (net_post_id s) \<Longrightarrow> net_estado s = Procesando \<or> net_estado s = Revisando \<Longrightarrow>
   facebook_flow c r t s = (Inr Ret_None, s\<lparr>net_estado := Revisando\<rparr>)"
  by (auto simp: fb_defs)

lemma facebook_reel_no_post_id:
  assumes "tipo t = Video_reels" "net_estado s = Revisando" "truthy (fb_video_id t)"
    "fb_video_status_resp r = Inr (Some ''complete'')" "fb_reel_publish_resp r = Inr (pid, raw)" "\<not> truthy pid"
  shows "facebook_flow c r t s =
    (Inl (ValidationError (''Facebook Reel: no devolvi'' @ acute_o @ '' post_id. Detalle: '' @ raw)), s)"
  using assms by (simp add: fb_defs fb_reel_publish_stage_def)

lemma run_facebook_flow_raise:
  "facebook_flow c r t (fb t) = (Inl e, fb t) \<Longrightarrow> run_facebook_flow c r t = (Inl e, t)"
  by (simp add: run_facebook_flow_def lift_net_def)

lemma revisar_record_fb_raise:
  "selected t Facebook \<Longrightarrow> facebook_flow c (rm_fb r) t (fb t) = (Inl e, fb t) \<Longrightarrow> revisar_record c r t = (Inl e, t)"
  by (simp add: revisar_record_def run_facebook_flow_raise)

text \<open>C8: A selected Facebook reel in Revisando whose publish call answers without a post_id makes every reconciliation of the record raise before any write, so the task never changes however often it is reconciled: Facebook never reaches Error and Instagram, TikTok and LinkedIn are never reconciled.\<close>

theorem facebook_reel_starves_sweep:
  assumes "tipo t = Video_reels" "selected t Facebook" "net_estado (fb t) = Revisando" "truthy (fb_video_id t)"
    "fb_video_status_resp (rm_fb r) = Inr (Some ''complete'')" "fb_reel_publish_resp (rm_fb r) = Inr (pid, raw)"
    "\<not> truthy pid"
  shows "((\<lambda>t. snd (revisar_record c r t)) ^^ n) t = t"
proof -
  have "revisar_record c r t = (Inl (ValidationError (''Facebook Reel: no devolvi'' @ acute_o @ '' post_id. Detalle: '' @ raw)), t)"
    using assms by (intro revisar_record_fb_raise facebook_reel_no_post_id) simp_all
  then show ?thesis by (induction n) simp_all
qed

subsection \<open>The sweep\<close>

text \<open>An exception of one record stops the loop, and the scheduler's transaction rolls the batch back.\<close>

lemma revisar_post_raise:
  "(r, t) \<in> set rts \<Longrightarrow> isl (fst (revisar_record c r t)) \<Longrightarrow> isl (fst (revisar_post c rts))"
proof (induction rts)
  case (Cons rt rts)
  obtain r' t' where rt: "rt = (r', t')" by (cases rt)
  show ?case
  proof (cases "isl (fst (revisar_record c r' t'))")
    case True
    then show ?thesis using rt by (auto split: prod.split sum.split)
  next
    case False
    then have "(r, t) \<in> set rts" using Cons.prems rt by auto
    with Cons.IH Cons.prems(2) have "isl (fst (revisar_post c rts))" by blast
    with False rt show ?thesis by (auto split: prod.split sum.split)
  qed
qed simp

lemma cron_sweep_raise:
  "(r, t) \<in> set rts \<Longrightarrow> isl (fst (revisar_record True r t)) \<Longrightarrow> \<exists>e. cron_sweep rts = (Inl e, map snd rts)"
  using revisar_post_raise [of r t rts True]
  by (cases "revisar_post True rts") (auto simp: cron_sweep_def odoo_txn_def zip_map_fst_snd isl_def split: sum.split)

text \<open>C9: A scheduled sweep over a batch that contains such a Facebook reel raises and, being one transaction, leaves every task of the batch unchanged.\<close>

theorem facebook_reel_blocks_cron:
  assumes "(r, t) \<in> set rts"
    "tipo t = Video_reels" "selected t Facebook" "net_estado (fb t) = Revisando" "truthy (fb_video_id t)"
    "fb_video_status_resp (rm_fb r) = Inr (Some ''complete'')" "fb_reel_publish_resp (rm_fb r) = Inr (pid, raw)"
    "\<not> truthy pid"
  shows "\<exists>e. cron_sweep rts = (Inl e, map snd rts)"
proof -
  have "revisar_record True r t = (Inl (ValidationError (''Facebook Reel: no devolvi'' @ acute_o @ '' post_id. Detalle: '' @ raw)), t)"
    using assms(2-) by (intro revisar_record_fb_raise facebook_reel_no_post_id) simp_all
  then have "isl (fst (revisar_record True r t))" by (metis fst_conv sum.disc(1))
  with assms(1) show ?thesis by (rule cron_sweep_raise)
qed


subsection \<open>Single transitions\<close>

text \<open>C29: An Instagram container in Revisando whose status is FINISHED is published: media_publish's id replaces the container id, the permalink is stored, the phase becomes Publicado and the error is cleared.\<close>

lemma instagram_publishes:
  assumes "net_estado s = Revisando" "truthy (net_post_id s)" "\<not> truthy (net_post_url s)"
    "ig_status_resp r = Inr (Some ''FINISHED'', raw)" "ig_publish_resp r = Inr (mid, raw2)" "truthy mid"
    "ig_permalink_resp r = Inr pl"
  shows "instagram_flow c r s = (Inr (cron_ret c ''Publicado''),
           s\<lparr>net_post_id := mid, net_post_url := (if truthy pl then pl else None), net_estado := Publicado, net_error := None\<rparr>)"
  using assms by (simp add: ig_defs)

text \<open>C30: If the permalink request fails after media_publish succeeded, the Instagram flow marks the network Error and keeps the container id, losing the id of the media it has just published.\<close>

lemma instagram_permalink_failure:
  assumes "net_estado s = Revisando" "truthy (net_post_id s)" "\<not> truthy (net_post_url s)"
    "ig_status_resp r = Inr (Some ''FINISHED'', raw)" "ig_publish_resp r = Inr (mid, raw2)" "truthy mid"
    "ig_permalink_resp r = Inl e"
  shows "snd (instagram_flow c r s) = s\<lparr>net_estado := Error, net_error := Some e\<rparr>"
  using assms by (simp add: ig_defs)

text \<open>C31: A failed status request (a timeout, say) marks an Instagram container that is still being checked as Error for good, instead of retrying it on the next sweep.\<close>

lemma instagram_status_request_failure:
  assumes "net_estado s = Revisando" "truthy (net_post_id s)" "\<not> truthy (net_post_url s)" "ig_status_resp r = Inl e"
  shows "snd (instagram_flow c r s) = s\<lparr>net_estado := Error, net_error := Some e\<rparr>"
  using assms by (simp add: ig_defs)

text \<open>C32: When TikTok reports PUBLISH_COMPLETE with the id under 'publicly_available_post_id' only, the flow still builds the video URL from it and marks the network Publicado.\<close>

lemma tiktok_publicly_id:
  assumes "net_estado s = Revisando" "truthy (net_post_id s)" "\<not> truthy (net_post_url s)"
    "tt_status_resp r = Inr (d, raw)" "tt_status d = Some ''PUBLISH_COMPLETE''" "\<not> truthy (tt_publicaly_id d)"
    "tt_publicly_id d = Some v" "v \<noteq> []"
  shows "snd (tiktok_flow c r s) =
    s\<lparr>net_post_url := Some (''https://www.tiktok.com/@_/video/'' @ v), net_estado := Publicado, net_error := None\<rparr>"
  using assms by (simp add: tt_defs Let_def)

text \<open>A LinkedIn post in Procesando with its URN is published by one flow call: the URL is the feed/update link of the URN and the phase becomes Publicado.\<close>

lemma linkedin_one_call:
  assumes "net_estado s = Procesando" "net_post_id s = Some urn" "urn \<noteq> []" "\<not> truthy (net_post_url s)"
  shows "linkedin_flow c s = (Inr (cron_ret c ''Publicado''),
    s\<lparr>net_post_url := Some (''https://www.linkedin.com/feed/update/'' @ urn @ ''/''), net_estado := Publicado, net_error := None\<rparr>)"
  using assms by (simp add: li_defs Let_def)


subsection \<open>The feed post, read back through JSON\<close>

lemma py_strip_json_dumps: "py_strip (json_dumps xs) = json_dumps xs"
  by (simp add: py_strip_def json_dumps_def py_isspace_def)

lemma fb_media_ids_json_dumps:
  assumes "\<forall>x\<in>set xs. ascii_str x"
  shows "fb_media_ids (Some (json_dumps xs)) = Some xs"
proof -
  have "take 1 (json_dumps xs) = ''[''" by (simp add: json_dumps_def)
  with assms show ?thesis by (simp add: fb_media_ids_def py_strip_json_dumps json_roundtrip)
qed

text \<open>C28: A feed post started by publish_on_facebook (photo ids stored as json.dumps in fb_post_id) is published by one flow call when the feed POST returns an id: the ids are read back by json.loads, fb_post_id becomes the post id, the phase Publicado and the URL the facebook.com link.\<close>

theorem facebook_feed_publishes:
  assumes "tipo t = Feed" "net_estado s = Procesando" "net_post_id s = Some (json_dumps ids)"
    "ids \<noteq> []" "\<forall>x\<in>set ids. ascii_str x" "\<not> truthy (net_post_url s)"
    "fb_feed_resp r = Inr d" "ffd_id d = Some p" "p \<noteq> []"
  shows "facebook_flow c r t s =
    (Inr Ret_None, s\<lparr>net_post_id := Some p, net_estado := Publicado, net_post_url := Some (''https://www.facebook.com/'' @ p)\<rparr>)"
proof -
  have "truthy (Some (json_dumps ids))" by (simp add: json_dumps_def)
  with assms show ?thesis by (simp add: fb_defs fb_media_ids_json_dumps)
qed

end
