(* ===== verification/Staging.thy ===== *)
theory Staging
  imports Prelude
begin

text \<open>
  The media stager, \<open>upload_files_to_s3\<close> (lines 1652--1740): it checks the
  credentials, creates the S3 client, and uploads each file in turn under a key
  made of a timestamp, five random digits and the file's position, returning
  the public URLs in the order of the files. The bucket is an explicit store
  from keys to payloads, since the uploads are effects that stay when a later
  file fails; the client, the clock and the random digits are an environment
  record. A file is a pair of its name and base64 payload: the callers pass the
  task's attachments (\<open>item.name\<close>, \<open>item.datas\<close>) and the pair
  \<open>("portada.jpg", imagen_portada)\<close>.
\<close>

type_synonym s3_store = "string \<Rightarrow> string option"

record s3_env =
  s3_client_resp :: "string + unit"
  s3_put_resp :: "string \<Rightarrow> string + unit"
  s3_timestamp :: string
  s3_random :: string

text \<open>\<open>file_name_raw.split('.')[-1].lower()\<close>.\<close>

definition file_ext :: "string \<Rightarrow> string" where
  "file_ext name = py_lower (rev (takeWhile (\<lambda>c. c \<noteq> CHR ''.'') (rev name)))"

definition allowed_extensions :: "string list" where
  "allowed_extensions = [''jpg'', ''jpeg'', ''mp4'']"

text \<open>\<open>f"media_{timestamp}_{random_digits}-{idx}.{file_ext}"\<close> and its public URL.\<close>

definition s3_key :: "string \<Rightarrow> string \<Rightarrow> nat \<Rightarrow> string \<Rightarrow> string" where
  "s3_key ts rnd idx ext = ''media_'' @ ts @ ''_'' @ rnd @ ''-'' @ nat_str idx @ ''.'' @ ext"

definition s3_url :: "string \<Rightarrow> string" where
  "s3_url key = ''https://odoo-geniolibre.s3.us-east-2.amazonaws.com/'' @ key"

text \<open>
  The loop of lines 1698--1737, from position \<open>idx\<close>: each failure inside the
  \<open>try\<close> is re-raised as \<open>Error al subir archivo {name}: {e}\<close>.
\<close>

fun upload_loop :: "s3_env \<Rightarrow> nat \<Rightarrow> (string \<times> string) list \<Rightarrow> s3_store \<Rightarrow> (exc + string list) \<times> s3_store" where
  "upload_loop env idx [] st = (Inr [], st)"
| "upload_loop env idx ((name, data) # fs) st =
     (let ext = file_ext name;
          fail = (\<lambda>e. Inl (ValidationError (''Error al subir archivo '' @ name @ '': '' @ e)))
      in if ext \<notin> set allowed_extensions
         then (fail (''Tipo de archivo '' @ py_quote ext @ '' no permitido. Solo JPG, JPEG o MP4.''), st)
         else (let key = s3_key (s3_timestamp env) (s3_random env) idx ext
               in case s3_put_resp env key of
                    Inl e \<Rightarrow> (fail e, st)
                  | Inr _ \<Rightarrow>
                      (case upload_loop env (Suc idx) fs (st(key \<mapsto> data)) of
                         (Inl e, st') \<Rightarrow> (Inl e, st')
                       | (Inr urls, st') \<Rightarrow> (Inr (s3_url key # urls), st'))))"

definition upload_files_to_s3 ::
  "s3_env \<Rightarrow> (string \<times> string) list \<Rightarrow> string option \<Rightarrow> string option \<Rightarrow> s3_store \<Rightarrow> (exc + string list) \<times> s3_store" where
  "upload_files_to_s3 env files aws_api aws_secret st =
     (if \<not> truthy aws_api \<or> \<not> truthy aws_secret
      then (Inl (ValidationError (''No se configur'' @ acute_o @ '' correctamente el servicio de AWS.'')), st)
      else (case s3_client_resp env of
              Inl e \<Rightarrow> (Inl (ValidationError (''Error al crear el cliente AWS S3: '' @ e)), st)
            | Inr _ \<Rightarrow>
                if files = []
                then (Inl (ValidationError (''No se encontraron archivos adjuntos o im'' @ acute_a @ ''genes.'')), st)
                else upload_loop env 1 files st))"

text \<open>The keys the loop writes, from position \<open>idx\<close> on, and the store after writing them.\<close>

definition staged_keys :: "s3_env \<Rightarrow> nat \<Rightarrow> (string \<times> string) list \<Rightarrow> string list" where
  "staged_keys env idx fs =
     map (\<lambda>(i, f). s3_key (s3_timestamp env) (s3_random env) i (file_ext (fst f))) (zip [idx..<idx + length fs] fs)"

definition stored :: "string list \<Rightarrow> string list \<Rightarrow> s3_store \<Rightarrow> s3_store" where
  "stored keys datas st = fold (\<lambda>(k, d) m. m(k \<mapsto> d)) (zip keys datas) st"

section \<open>Lemmas\<close>

lemma staged_keys_Nil [simp]: "staged_keys env idx [] = []"
  by (simp add: staged_keys_def)

lemma length_staged_keys [simp]: "length (staged_keys env idx fs) = length fs"
  by (simp add: staged_keys_def)

lemma stored_Nil [simp]: "stored [] ds st = st"
  by (simp add: stored_def)

lemma staged_keys_Cons [simp]:
  "staged_keys env idx (f # fs) =
     s3_key (s3_timestamp env) (s3_random env) idx (file_ext (fst f)) # staged_keys env (Suc idx) fs"
  by (simp add: staged_keys_def upt_conv_Cons del: upt_Suc)
lemma stored_Cons [simp]: "stored (k # ks) (d # ds) st = stored ks ds (st(k \<mapsto> d))"
  by (simp add: stored_def)
lemma upload_loop_Inr:
  "upload_loop env idx fs st = (Inr urls, st') \<Longrightarrow>
   urls = map s3_url (staged_keys env idx fs) \<and> st' = stored (staged_keys env idx fs) (map snd fs) st"
proof (induction fs arbitrary: idx st urls)
  case Nil
  then show ?case by simp
next
  case (Cons f fs)
  obtain name data where f: "f = (name, data)" by fastforce
  from Cons.prems show ?case
    by (auto simp: f Let_def split: if_splits sum.splits prod.splits dest: Cons.IH)
qed

lemma takeWhile_nat_str: "takeWhile (\<lambda>c. c \<noteq> CHR ''.'') (nat_str i @ CHR ''.'' # e) = nat_str i"
  using nat_str_no_dot [of i] by (subst takeWhile_append2) auto

text \<open>C39: The upload loop returns the URLs exactly when every file has an allowed extension (jpg, jpeg, mp4) and every put succeeds.\<close>

lemma upload_loop_succeeds_iff:
  "(\<exists>urls st'. upload_loop env idx fs st = (Inr urls, st')) \<longleftrightarrow>
   (\<forall>f\<in>set fs. file_ext (fst f) \<in> set allowed_extensions) \<and>
   (\<forall>k\<in>set (staged_keys env idx fs). s3_put_resp env k = Inr ())"
proof (induction fs arbitrary: idx st)
  case Nil
  then show ?case by simp
next
  case (Cons f fs)
  obtain name data where f: "f = (name, data)" by fastforce
  let ?key = "s3_key (s3_timestamp env) (s3_random env) idx (file_ext name)"
  show ?case
  proof (cases "file_ext name \<in> set allowed_extensions")
    case False
    then show ?thesis by (simp add: f Let_def)
  next
    case ok: True
    show ?thesis
    proof (cases "s3_put_resp env ?key")
      case (Inl e)
      with ok show ?thesis by (simp add: f Let_def)
    next
      case (Inr u)
      have "(\<exists>urls st'. upload_loop env idx (f # fs) st = (Inr urls, st')) \<longleftrightarrow>
            (\<exists>urls st'. upload_loop env (Suc idx) fs (st(?key \<mapsto> data)) = (Inr urls, st'))"
        using ok Inr by (auto simp: f Let_def split: sum.splits prod.splits)
      then show ?thesis using Cons.IH [of "Suc idx" "st(?key \<mapsto> data)"] ok Inr by (simp add: f)
    qed
  qed
qed

lemma s3_key_inj: "s3_key ts rnd i e = s3_key ts rnd j e' \<Longrightarrow> i = j"
proof -
  assume "s3_key ts rnd i e = s3_key ts rnd j e'"
  then have "nat_str i @ CHR ''.'' # e = nat_str j @ CHR ''.'' # e'"
    by (simp add: s3_key_def)
  then have "takeWhile (\<lambda>c. c \<noteq> CHR ''.'') (nat_str i @ CHR ''.'' # e) =
             takeWhile (\<lambda>c. c \<noteq> CHR ''.'') (nat_str j @ CHR ''.'' # e')"
    by simp
  then show "i = j" by (simp add: takeWhile_nat_str nat_str_inj)
qed

lemma set_staged_keys:
  "k \<in> set (staged_keys env idx fs) \<Longrightarrow> \<exists>i e. idx \<le> i \<and> k = s3_key (s3_timestamp env) (s3_random env) i e"
proof (induction fs arbitrary: idx)
  case Nil
  then show ?case by simp
next
  case (Cons f fs)
  show ?case
  proof (cases "k \<in> set (staged_keys env (Suc idx) fs)")
    case True
    then obtain i e where "Suc idx \<le> i" "k = s3_key (s3_timestamp env) (s3_random env) i e"
      using Cons.IH by blast
    then show ?thesis by (metis Suc_leD)
  next
    case False
    with Cons.prems show ?thesis by auto
  qed
qed


lemma s3_url_inj: "inj s3_url"
  by (rule injI) (simp add: s3_url_def)

text \<open>C40: A file with a forbidden extension fails the call after the files before it were put in the bucket, and those objects stay there.\<close>

lemma upload_loop_forbidden_after:
  assumes "\<forall>f\<in>set good. file_ext (fst f) \<in> set allowed_extensions"
      and "\<forall>k\<in>set (staged_keys env idx good). s3_put_resp env k = Inr ()"
      and "file_ext (fst bad) \<notin> set allowed_extensions"
  shows "\<exists>e. upload_loop env idx (good @ bad # rest) st = (Inl e, stored (staged_keys env idx good) (map snd good) st)"
  using assms
proof (induction good arbitrary: idx st)
  case Nil
  obtain name data where "bad = (name, data)" by fastforce
  with Nil.prems show ?case by (simp add: Let_def)
next
  case (Cons f good)
  obtain name data where f: "f = (name, data)" by fastforce
  let ?key = "s3_key (s3_timestamp env) (s3_random env) idx (file_ext name)"
  from Cons.prems have g: "\<forall>f\<in>set good. file_ext (fst f) \<in> set allowed_extensions"
    and k: "\<forall>k\<in>set (staged_keys env (Suc idx) good). s3_put_resp env k = Inr ()"
    and ok: "file_ext name \<in> set allowed_extensions" and put: "s3_put_resp env ?key = Inr ()"
    by (simp_all add: f)
  obtain e where rec: "upload_loop env (Suc idx) (good @ bad # rest) (st(?key \<mapsto> data)) =
                    (Inl e, stored (staged_keys env (Suc idx) good) (map snd good) (st(?key \<mapsto> data)))"
    using Cons.IH [OF g k Cons.prems(3)] by blast
  from rec ok put show ?case by (simp add: f Let_def)
qed

end
