(* ===== verification/Publish.thy ===== *)
theory Publish
  imports Reconcile Staging
begin

text \<open>
  The publication entry point \<open>project_task.publicar_post\<close> (lines 1331--1584)
  and the four per-network initiators it calls: \<open>publish_on_facebook\<close>
  (829--983), \<open>publish_on_instagram\<close> (985--1074), \<open>publish_on_tiktok\<close>
  (1076--1102) and \<open>publish_on_linkedin\<close> (1104--1329). As in the reconciliation
  flows, the answers of the platforms are records of responses, one field per
  request the code sends (a function of the URL or of the upload instruction
  where the request is sent in a loop), and the initiators write the task as
  the Python does.
\<close>

section \<open>Facebook\<close>

text \<open>
  The answers to \<open>publish_on_facebook\<close>: the unpublished photo upload for
  each media URL (the \<open>id\<close> of the answer, absent or present, and the body), the
  \<open>start\<close> call (\<open>video_id\<close>, \<open>upload_url\<close>, body), the binary upload
  (whether \<open>success\<close> is in the answer, body) and the \<open>finish\<close> call (status
  code, \<open>post_id\<close>, body).
\<close>

record fb_pub_remote =
  fbp_photo_resp :: "string \<Rightarrow> string + string option \<times> string"
  fbp_start_resp :: "string + string option \<times> string option \<times> string"
  fbp_upload_resp :: "string + bool \<times> string"
  fbp_finish_resp :: "string + nat \<times> string option \<times> string"

text \<open>Lines 838--851: upload each photo unpublished, collecting the ids in order.\<close>

fun fb_upload_photos :: "(string \<Rightarrow> string + string option \<times> string) \<Rightarrow> string list \<Rightarrow> exc + string list" where
  "fb_upload_photos resp [] = Inr []"
| "fb_upload_photos resp (u # us) =
     (case resp u of
        Inl e \<Rightarrow> Inl (RequestError e)
      | Inr (None, body) \<Rightarrow> Inl (ValidationError (''Error subiendo foto: '' @ body))
      | Inr (Some i, body) \<Rightarrow>
          (case fb_upload_photos resp us of Inl e \<Rightarrow> Inl e | Inr ids \<Rightarrow> Inr (i # ids)))"

text \<open>Lines 864--925: a story, published directly when \<open>finish\<close> returns a post id.\<close>

definition fb_publish_story :: "fb_pub_remote \<Rightarrow> task \<Rightarrow> (exc + flow_ret) \<times> task" where
  "fb_publish_story r t =
     (case fbp_start_resp r of
        Inl e \<Rightarrow> (Inl (RequestError e), t)
      | Inr (vid, up, body) \<Rightarrow>
          if vid = None \<or> up = None
          then (Inl (ValidationError (''Error iniciando upload Story FB: '' @ body)), t)
          else (let t1 = t\<lparr>fb_video_id := vid, fb := (fb t)\<lparr>net_post_id := None, net_estado := Procesando\<rparr>\<rparr>
                in case fbp_upload_resp r of
                     Inl e \<Rightarrow> (Inl (RequestError e), t1)
                   | Inr (ok, body2) \<Rightarrow>
                       if \<not> ok then (Inl (ValidationError (''Error subiendo video Story FB: '' @ body2)), t1)
                       else (case fbp_finish_resp r of
                               Inl e \<Rightarrow> (Inl (RequestError e), t1)
                             | Inr (code, pid, body3) \<Rightarrow>
                                 if truthy pid
                                 then (Inr Ret_True, t1\<lparr>fb_video_id := vid, fb := (fb t1)\<lparr>net_post_id := pid, net_estado := Publicado\<rparr>\<rparr>)
                                 else (Inr Ret_True, t1\<lparr>fb_video_id := vid, fb := (fb t1)\<lparr>net_estado := Procesando\<rparr>\<rparr>))))"

text \<open>Lines 930--981: a reel, uploaded and finished unpublished.\<close>

definition fb_publish_reel :: "fb_pub_remote \<Rightarrow> task \<Rightarrow> (exc + flow_ret) \<times> task" where
  "fb_publish_reel r t =
     (case fbp_start_resp r of
        Inl e \<Rightarrow> (Inl (RequestError e), t)
      | Inr (vid, up, body) \<Rightarrow>
          if vid = None \<or> up = None
          then (Inl (ValidationError (''Error Starting session (Reel FB): '' @ body)), t)
          else (let t1 = t\<lparr>fb_video_id := vid,
                           fb := (fb t)\<lparr>net_post_id := None, net_post_url := None, net_estado := Procesando\<rparr>\<rparr>
                in case fbp_upload_resp r of
                     Inl e \<Rightarrow> (Inl (RequestError e), t1)
                   | Inr (ok, body2) \<Rightarrow>
                       if \<not> ok then (Inl (ValidationError (''Error uploading Reel FB: '' @ body2)), t1)
                       else (case fbp_finish_resp r of
                               Inl e \<Rightarrow> (Inl (RequestError e), t1)
                             | Inr (code, pid, body3) \<Rightarrow>
                                 if code \<noteq> 200
                                 then (Inl (ValidationError (''Error finishing upload Reel FB: '' @ body3)), t1)
                                 else (Inr Ret_True, t1))))"

definition publish_on_facebook :: "fb_pub_remote \<Rightarrow> string list \<Rightarrow> task \<Rightarrow> (exc + flow_ret) \<times> task" where
  "publish_on_facebook r media_urls t =
     (if tipo t = Feed then
        (case fb_upload_photos (fbp_photo_resp r) media_urls of
           Inl e \<Rightarrow> (Inl e, t)
         | Inr ids \<Rightarrow>
             (Inr Ret_True, t\<lparr>fb := (fb t)\<lparr>net_post_id := Some (json_dumps ids), net_post_url := None,
                                           net_estado := Procesando\<rparr>\<rparr>))
      else if tipo t = Video_stories then fb_publish_story r t
      else if tipo t = Video_reels then fb_publish_reel r t
      else (Inr Ret_None, t))"

section \<open>Instagram\<close>

text \<open>
  The answers to \<open>publish_on_instagram\<close>: the single container, each carousel
  item by URL, and the carousel container (status code, \<open>id\<close>, body).
\<close>

record ig_pub_remote =
  igp_container_resp :: "string + nat \<times> string option \<times> string"
  igp_item_resp :: "string \<Rightarrow> string + nat \<times> string option \<times> string"
  igp_carousel_resp :: "string + nat \<times> string option \<times> string"

text \<open>Lines 1033--1044: the carousel items, in order.\<close>

fun ig_carousel_items :: "(string \<Rightarrow> string + nat \<times> string option \<times> string) \<Rightarrow> string list \<Rightarrow> exc + string list" where
  "ig_carousel_items resp [] = Inr []"
| "ig_carousel_items resp (u # us) =
     (case resp u of
        Inl e \<Rightarrow> Inl (RequestError e)
      | Inr (code, cid, body) \<Rightarrow>
          if code \<noteq> 200 \<or> \<not> truthy cid then Inl (ValidationError (''Error item carrusel IG: '' @ body))
          else (case ig_carousel_items resp us of Inl e \<Rightarrow> Inl e | Inr ids \<Rightarrow> Inr (fmt_field cid # ids)))"

text \<open>Lines 993--1057: the container id, single or carousel.\<close>

definition ig_container :: "ig_pub_remote \<Rightarrow> string list \<Rightarrow> tipo \<Rightarrow> string option \<Rightarrow> exc + string" where
  "ig_container r media_urls tp cover_url =
     (if tp = Video_reels \<and> \<not> truthy cover_url
      then Inl (ValidationError ''Instagram Reels: cover_url es obligatorio.'')
      else if length media_urls = 1 then
        (case igp_container_resp r of
           Inl e \<Rightarrow> Inl (RequestError e)
         | Inr (code, cid, body) \<Rightarrow>
             if code \<noteq> 200 \<or> \<not> truthy cid then Inl (ValidationError (''Error al crear contenedor IG: '' @ body))
             else Inr (fmt_field cid))
      else
        (case ig_carousel_items (igp_item_resp r) media_urls of
           Inl e \<Rightarrow> Inl e
         | Inr ids \<Rightarrow>
             (case igp_carousel_resp r of
                Inl e \<Rightarrow> Inl (RequestError e)
              | Inr (code, cid, body) \<Rightarrow>
                  if code \<noteq> 200 \<or> \<not> truthy cid then Inl (ValidationError (''Error contenedor carrusel IG: '' @ body))
                  else Inr (fmt_field cid))))"

text \<open>Lines 1059--1074, on the Instagram fields: record the container, or the error and re-raise.\<close>

definition instagram_publish :: "ig_pub_remote \<Rightarrow> string list \<Rightarrow> string option \<Rightarrow> tipo \<Rightarrow> net_state \<Rightarrow> (exc + flow_ret) \<times> net_state" where
  "instagram_publish r media_urls cover_url tp s =
     (case ig_container r media_urls tp cover_url of
        Inl e \<Rightarrow> (Inl e, s\<lparr>net_estado := Error, net_error := Some (exc_str e)\<rparr>)
      | Inr cid \<Rightarrow> (Inr Ret_True, s\<lparr>net_post_id := Some cid, net_post_url := None, net_estado := Procesando, net_error := None\<rparr>))"

definition publish_on_instagram :: "ig_pub_remote \<Rightarrow> string list \<Rightarrow> string option \<Rightarrow> task \<Rightarrow> (exc + flow_ret) \<times> task" where
  "publish_on_instagram r media_urls cover_url t =
     lift_net Instagram (instagram_publish r media_urls cover_url (tipo t)) t"

section \<open>TikTok\<close>

text \<open>The \<open>init\<close> call with \<open>PULL_FROM_URL\<close>: status code, \<open>data.publish_id\<close>, body.\<close>

record tt_pub_remote =
  ttp_init_resp :: "string + nat \<times> string option \<times> string"

text \<open>
  Lines 1076--1102: the publish id, read without a check (a missing key raises
  \<open>KeyError\<close>); \<open>media_urls[0]\<close> raises on an empty list.
\<close>

definition publish_on_tiktok :: "tt_pub_remote \<Rightarrow> string list \<Rightarrow> exc + string" where
  "publish_on_tiktok r media_urls =
     (if media_urls = [] then Inl (RequestError ''list index out of range'')
      else (case ttp_init_resp r of
              Inl e \<Rightarrow> Inl (RequestError e)
            | Inr (code, pid, body) \<Rightarrow>
                if code \<noteq> 200 then Inl (ValidationError (''Error al Publicar el video en TIKTOK: '' @ body))
                else (case pid of None \<Rightarrow> Inl (RequestError (py_quote ''publish_id'')) | Some p \<Rightarrow> Inr p)))"

section \<open>LinkedIn\<close>

text \<open>
  \<open>publish_on_linkedin\<close> runs its work inside a \<open>try\<close> whose handlers tell an
  \<open>HTTPError\<close> (status code and body: the JSON \<open>message\<close> and \<open>error\<close>
  members, or the text of a body that is not JSON) from any other exception
  (its text). A \<open>ValidationError\<close> raised inside the \<open>try\<close> is such another
  exception.
\<close>

datatype li_body = Json_Body "string option" "string option" | Text_Body string

datatype li_exc = Li_HTTPError nat li_body | Li_Exc string

record li_instr =
  li_upload_url :: string
  li_first_byte :: nat
  li_last_byte :: nat

text \<open>
  The answers: the configured token, the \<open>HEAD\<close> of the staged video
  (\<open>Content-Length\<close>), \<open>initializeUpload\<close> for a video (its URN, upload token,
  instructions and thumbnail URL), the ranged download and upload of each chunk
  (its \<open>ETag\<close>), the thumbnail upload, \<open>finalizeUpload\<close> (given the URN, the
  token and the ETags it is sent), \<open>initializeUpload\<close> and the upload of each
  image by URL, and the post creation (\<open>X-RestLi-Id\<close>).
\<close>

record li_pub_remote =
  lip_token :: "string option"
  lip_head_resp :: "li_exc + nat"
  lip_vinit_resp :: "li_exc + string \<times> string \<times> li_instr list \<times> string option"
  lip_chunk_resp :: "li_instr \<Rightarrow> li_exc + string option"
  lip_thumb_resp :: "li_exc + unit"
  lip_finalize_resp :: "string \<Rightarrow> string \<Rightarrow> string list \<Rightarrow> li_exc + unit"
  lip_img_init_resp :: "string \<Rightarrow> li_exc + string \<times> string"
  lip_img_put_resp :: "string \<Rightarrow> li_exc + unit"
  lip_post_resp :: "li_exc + string option"

text \<open>Lines 1165--1192: upload the chunks in the order of the instructions, collecting the ETags.\<close>

fun li_upload_chunks :: "(li_instr \<Rightarrow> li_exc + string option) \<Rightarrow> li_instr list \<Rightarrow> li_exc + string list" where
  "li_upload_chunks resp [] = Inr []"
| "li_upload_chunks resp (ins # rest) =
     (case resp ins of
        Inl e \<Rightarrow> Inl e
      | Inr etag \<Rightarrow>
          if \<not> truthy etag then Inl (Li_Exc (''No se recibi'' @ acute_o @ '' ETag al subir parte del video''))
          else (case li_upload_chunks resp rest of Inl e \<Rightarrow> Inl e | Inr tags \<Rightarrow> Inr (fmt_field etag # tags)))"

text \<open>Lines 1241--1260: initialise and upload each image, collecting the URNs.\<close>

fun li_upload_images :: "li_pub_remote \<Rightarrow> string list \<Rightarrow> li_exc + string list" where
  "li_upload_images r [] = Inr []"
| "li_upload_images r (u # us) =
     (case lip_img_init_resp r u of
        Inl e \<Rightarrow> Inl e
      | Inr (urn, up) \<Rightarrow>
          (case lip_img_put_resp r u of
             Inl e \<Rightarrow> Inl e
           | Inr _ \<Rightarrow> (case li_upload_images r us of Inl e \<Rightarrow> Inl e | Inr urns \<Rightarrow> Inr (urn # urns))))"

fun tipo_str :: "tipo \<Rightarrow> string" where
  "tipo_str Feed = ''feed''"
| "tipo_str Video_stories = ''video_stories''"
| "tipo_str Video_reels = ''video_reels''"
| "tipo_str Otro = ''otro''"

text \<open>Lines 1294--1311: create the post; only a non-video post is marked published.\<close>

definition li_create_post :: "li_pub_remote \<Rightarrow> task \<Rightarrow> (li_exc + string \<times> string) \<times> task" where
  "li_create_post r t =
     (case lip_post_resp r of
        Inl e \<Rightarrow> (Inl e, t)
      | Inr urn \<Rightarrow>
          if \<not> truthy urn
          then (Inl (Li_Exc (''LinkedIn no devolvi'' @ acute_o @ '' un URN en X'' @ nb_hyphen @ ''RestLi'' @ nb_hyphen @ ''Id'')), t)
          else (Inr (fmt_field urn, ''https://www.linkedin.com/feed/update/'' @ fmt_field urn @ ''/''),
                if tipo t \<noteq> Video_reels then t\<lparr>post_estado := ''Publicado''\<rparr> else t))"

text \<open>Lines 1128--1238: the video (reel) upload, then the post.\<close>

definition li_publish_video :: "li_pub_remote \<Rightarrow> string list \<Rightarrow> task \<Rightarrow> (li_exc + string \<times> string) \<times> task" where
  "li_publish_video r media_urls t =
     (if length media_urls \<noteq> 1 then (Inl (Li_Exc ''Los Reels solo admiten un (1) video''), t)
      else (case lip_head_resp r of
              Inl e \<Rightarrow> (Inl e, t)
            | Inr size_bytes \<Rightarrow>
                if size_bytes = 0 then (Inl (Li_Exc (''No se pudo obtener el tama'' @ tilde_n @ ''o del video'')), t)
                else (case lip_vinit_resp r of
                        Inl e \<Rightarrow> (Inl e, t)
                      | Inr (urn, tok, instrs, thumb) \<Rightarrow>
                          (case li_upload_chunks (lip_chunk_resp r) instrs of
                             Inl e \<Rightarrow> (Inl e, t)
                           | Inr etags \<Rightarrow>
                               (case (if truthy (imagen_portada t) \<and> truthy thumb then lip_thumb_resp r else Inr ()) of
                                  Inl e \<Rightarrow> (Inl e, t)
                                | Inr _ \<Rightarrow>
                                    (case lip_finalize_resp r urn tok etags of
                                       Inl e \<Rightarrow> (Inl e, t)
                                     | Inr _ \<Rightarrow>
                                         li_create_post r (t\<lparr>post_estado := ''Procesando'',
                                                            li := (li t)\<lparr>net_post_id := Some urn\<rparr>\<rparr>)))))))"

text \<open>The \<open>try\<close> of lines 1128--1311.\<close>

definition li_publish_try :: "li_pub_remote \<Rightarrow> string list \<Rightarrow> task \<Rightarrow> (li_exc + string \<times> string) \<times> task" where
  "li_publish_try r media_urls t =
     (if tipo t = Video_reels then li_publish_video r media_urls t
      else if tipo t = Feed then
        (case li_upload_images r media_urls of
           Inl e \<Rightarrow> (Inl e, t)
         | Inr urns \<Rightarrow> li_create_post r t)
      else (Inl (Li_Exc (''Tipo de publicaci'' @ acute_o @ ''n no soportado: '' @ tipo_str (tipo t))), t))"

text \<open>Lines 1314--1325: the message of an \<open>HTTPError\<close>.\<close>

fun li_http_msg :: "nat \<Rightarrow> li_body \<Rightarrow> string" where
  "li_http_msg code (Json_Body (Some m) e) = ''Error HTTP '' @ nat_str code @ '': '' @ m"
| "li_http_msg code (Json_Body None (Some e)) = ''Error HTTP '' @ nat_str code @ '': '' @ e"
| "li_http_msg code (Json_Body None None) = ''Error HTTP '' @ nat_str code"
| "li_http_msg code (Text_Body txt) = ''Error HTTP '' @ nat_str code @ '': '' @ take 200 txt"

text \<open>Lines 1313--1329: both handlers mark the global state \<open>Error\<close> and raise a \<open>ValidationError\<close>.\<close>

fun li_handle :: "(li_exc + 'a) \<times> task \<Rightarrow> (exc + 'a) \<times> task" where
  "li_handle (Inl (Li_HTTPError code body), t) = (Inl (ValidationError (li_http_msg code body)), t\<lparr>post_estado := ''Error''\<rparr>)"
| "li_handle (Inl (Li_Exc m), t) = (Inl (ValidationError (''Error inesperado: '' @ m)), t\<lparr>post_estado := ''Error''\<rparr>)"
| "li_handle (Inr v, t) = (Inr v, t)"

definition publish_on_linkedin :: "li_pub_remote \<Rightarrow> string list \<Rightarrow> task \<Rightarrow> (exc + string \<times> string) \<times> task" where
  "publish_on_linkedin r media_urls t =
     (if media_urls = [] then (Inl (ValidationError ''No se proporcionaron URLs de medios''), t)
      else if \<not> truthy (lip_token r) then (Inl (ValidationError ''Falta configurar linkedin.access_token''), t)
      else li_handle (li_publish_try r media_urls t))"

section \<open>The entry point\<close>

text \<open>
  \<open>publicar_post\<close> acts on the task, on the S3 bucket and on the outbox: the
  mails it sends to the administrator (\<open>mail.mail.create(...).send()\<close>), kept
  as the process name and the error detail of the body.
\<close>

datatype mail = Mail string string

record world =
  w_task :: task
  w_store :: s3_store
  w_mails :: "mail list"

text \<open>
  Everything the call reads beyond the task: the AWS parameters, the S3
  environment of the two uploads (the attachments, and the cover of a reel),
  the answers of the four platforms, and those of the reconciliation run at the
  end of a fully successful call.
\<close>

record pub_env =
  pe_aws_api :: "string option"
  pe_aws_secret :: "string option"
  pe_s3 :: s3_env
  pe_s3_cover :: s3_env
  pe_fb :: fb_pub_remote
  pe_ig :: ig_pub_remote
  pe_tt :: tt_pub_remote
  pe_li :: li_pub_remote
  pe_remote :: remote

text \<open>Lines 1376--1388: the partner field each selected network needs.\<close>

fun cred_of :: "red \<Rightarrow> task \<Rightarrow> string option" where
  "cred_of Facebook t = partner_facebook_page_id t"
| "cred_of Instagram t = partner_instagram_page_id t"
| "cred_of TikTok t = partner_tiktok_access_token t"
| "cred_of LinkedIn t = partner_linkedin_page_id t"

definition credential_errors :: "task \<Rightarrow> string list" where
  "credential_errors t =
     map red_name (filter (\<lambda>r. selected t r \<and> \<not> truthy (cred_of r t)) [Facebook, Instagram, TikTok, LinkedIn])"

definition task_files :: "task \<Rightarrow> (string \<times> string) list" where
  "task_files t = map (\<lambda>a. (att_name a, att_datas a)) (adjuntos t)"

text \<open>
  The state of the four attempts: the task, the error lines (\<open>errors\<close>) and the
  networks that accepted the content (\<open>published_on\<close>).
\<close>

record attempt =
  at_task :: task
  at_errors :: "string list"
  at_published :: "string list"

text \<open>Lines 1405--1415.\<close>

definition attempt_facebook :: "pub_env \<Rightarrow> string list \<Rightarrow> attempt \<Rightarrow> attempt" where
  "attempt_facebook env urls a =
     (let t = at_task a in
      if selected t Facebook then
        (case publish_on_facebook (pe_fb env) urls (write_phase Facebook Procesando None t) of
           (Inl e, t') \<Rightarrow> a\<lparr>at_task := write_phase Facebook Error (Some (exc_str e)) t',
                            at_errors := at_errors a @ [''Facebook: '' @ exc_str e]\<rparr>
         | (Inr _, t') \<Rightarrow> a\<lparr>at_task := t', at_published := at_published a @ [''Facebook'']\<rparr>)
      else a)"

text \<open>Lines 1417--1427.\<close>

definition attempt_instagram :: "pub_env \<Rightarrow> string list \<Rightarrow> string option \<Rightarrow> attempt \<Rightarrow> attempt" where
  "attempt_instagram env urls cover_url a =
     (let t = at_task a in
      if selected t Instagram then
        (case publish_on_instagram (pe_ig env) urls cover_url (write_phase Instagram Procesando None t) of
           (Inl e, t') \<Rightarrow> a\<lparr>at_task := write_phase Instagram Error (Some (exc_str e)) t',
                            at_errors := at_errors a @ [''Instagram: '' @ exc_str e]\<rparr>
         | (Inr _, t') \<Rightarrow> a\<lparr>at_task := t', at_published := at_published a @ [''Instagram'']\<rparr>)
      else a)"

text \<open>Lines 1429--1445: TikTok is attempted for reels only.\<close>

definition attempt_tiktok :: "pub_env \<Rightarrow> string list \<Rightarrow> attempt \<Rightarrow> attempt" where
  "attempt_tiktok env urls a =
     (let t = at_task a in
      if selected t TikTok \<and> tipo t = Video_reels then
        (let t1 = write_phase TikTok Procesando None t;
             no_resp = ''No se recibi'' @ acute_o @ '' respuesta del servidor''
         in case publish_on_tiktok (pe_tt env) urls of
              Inl e \<Rightarrow> a\<lparr>at_task := write_phase TikTok Error (Some (exc_str e)) t1,
                          at_errors := at_errors a @ [''TikTok: '' @ exc_str e]\<rparr>
            | Inr pid \<Rightarrow>
                if pid \<noteq> []
                then a\<lparr>at_task := t1\<lparr>tt := (tt t1)\<lparr>net_post_id := Some pid\<rparr>\<rparr>,
                       at_published := at_published a @ [''TikTok'']\<rparr>
                else a\<lparr>at_task := write_phase TikTok Error (Some no_resp) t1,
                       at_errors := at_errors a @ [''TikTok: '' @ no_resp]\<rparr>)
      else a)"

text \<open>Lines 1447--1464.\<close>

definition attempt_linkedin :: "pub_env \<Rightarrow> string list \<Rightarrow> attempt \<Rightarrow> attempt" where
  "attempt_linkedin env urls a =
     (let t = at_task a in
      if selected t LinkedIn then
        (case publish_on_linkedin (pe_li env) urls (write_phase LinkedIn Procesando None t) of
           (Inl e, t') \<Rightarrow> a\<lparr>at_task := write_phase LinkedIn Error (Some (exc_str e)) t',
                            at_errors := at_errors a @ [''LinkedIn: '' @ exc_str e]\<rparr>
         | (Inr (pid, url), t') \<Rightarrow>
             a\<lparr>at_task := t'\<lparr>li := (li t')\<lparr>net_post_id := Some pid, net_post_url := Some url\<rparr>\<rparr>,
               at_published := at_published a @ [''LinkedIn'']\<rparr>)
      else a)"

definition publish_attempts :: "pub_env \<Rightarrow> string list \<Rightarrow> string option \<Rightarrow> task \<Rightarrow> attempt" where
  "publish_attempts env urls cover_url t =
     attempt_linkedin env urls (attempt_tiktok env urls (attempt_instagram env urls cover_url
       (attempt_facebook env urls \<lparr>at_task = t, at_errors = [], at_published = []\<rparr>)))"

text \<open>
  Lines 1533--1542 and 1562--1571: the error written to the selected networks
  after a total failure. LinkedIn is not among them.
\<close>

definition mark_selected_errors :: "string \<Rightarrow> task \<Rightarrow> task" where
  "mark_selected_errors msg t =
     fold (\<lambda>r t'. if selected t' r then write_phase r Error (Some msg) t' else t') [Facebook, Instagram, TikTok] t"

text \<open>
  Lines 1466--1557: partial success mails the errors and returns; full success
  runs \<open>revisar_post\<close> on the record and returns, an exception of the sweep
  being logged and dropped; total failure raises.
\<close>

definition publicar_result :: "pub_env \<Rightarrow> attempt \<Rightarrow> world \<Rightarrow> (exc + string) \<times> world" where
  "publicar_result env a w =
     (let t = at_task a; errs = at_errors a; nl = [CHR 0x0A] in
      if at_published a \<noteq> [] then
        (let t1 = t\<lparr>post_estado := ''Procesando''\<rparr> in
         if errs \<noteq> []
         then (Inr ''Proceso con observaciones'',
               w\<lparr>w_task := t1, w_mails := w_mails w @ [Mail ''publicar_post'' (py_join nl errs)]\<rparr>)
         else (Inr ''Proceso en curso'', w\<lparr>w_task := snd (revisar_record False (pe_remote env) t1)\<rparr>))
      else
        (let detalle = (if errs \<noteq> [] then py_join nl errs else ''Error no especificado'');
             t2 = mark_selected_errors detalle (t\<lparr>post_estado := ''Procesando''\<rparr>)
         in (Inl (ValidationError (''No se pudo iniciar el proceso en ninguna red social:'' @ nl @ detalle)),
             w\<lparr>w_task := t2, w_mails := w_mails w @ [Mail ''publicar_post'' detalle]\<rparr>)))"

text \<open>Lines 1367--1557: the body of the \<open>try\<close>.\<close>

definition publicar_try :: "pub_env \<Rightarrow> world \<Rightarrow> (exc + string) \<times> world" where
  "publicar_try env w =
     (let t = w_task w; missing = credential_errors t;
          reel_cover = (truthy (imagen_portada t) \<and> tipo t = Video_reels)
      in if missing \<noteq> []
         then (Inl (ValidationError (''Los datos de acceso no fueron configurados para: '' @ py_join '', '' missing)), w)
         else (case upload_files_to_s3 (pe_s3 env) (task_files t) (pe_aws_api env) (pe_aws_secret env) (w_store w) of
                 (Inl e, st) \<Rightarrow> (Inl e, w\<lparr>w_store := st\<rparr>)
               | (Inr media_urls, st) \<Rightarrow>
                   (case (if reel_cover
                          then upload_files_to_s3 (pe_s3_cover env) [(''portada.jpg'', fmt_field (imagen_portada t))]
                                 (pe_aws_api env) (pe_aws_secret env) st
                          else (Inr [], st)) of
                      (Inl e, st') \<Rightarrow> (Inl e, w\<lparr>w_store := st'\<rparr>)
                    | (Inr cover_urls, st') \<Rightarrow>
                        (let cover_url = (if reel_cover then Some (hd cover_urls) else None)
                         in publicar_result env (publish_attempts env media_urls cover_url t) (w\<lparr>w_store := st'\<rparr>)))))"

text \<open>Lines 1559--1584: every exception of the body is reported and raised again, wrapped.\<close>

fun publicar_except :: "(exc + string) \<times> world \<Rightarrow> (exc + string) \<times> world" where
  "publicar_except (Inl e, w) =
     (Inl (ValidationError (''Error en el proceso de publicaci'' @ acute_o @ ''n: '' @ exc_str e)),
      w\<lparr>w_task := mark_selected_errors (exc_str e) (w_task w),
        w_mails := w_mails w @ [Mail ''publicar_post'' (exc_str e)]\<rparr>)"
| "publicar_except (Inr v, w) = (Inr v, w)"

text \<open>Lines 1331--1365: the preconditions, checked before the \<open>try\<close>.\<close>

definition publicar_post :: "pub_env \<Rightarrow> world \<Rightarrow> (exc + string) \<times> world" where
  "publicar_post env w =
     (let t = w_task w in
      if \<not> truthy (imagen_portada t) \<and> tipo t = Video_reels
      then (Inl (ValidationError ''Debe especificar una portada para el reel''), w)
      else if fecha_publicacion t = None
      then (Inl (ValidationError (''Debe seleccionar una fecha de publicaci'' @ acute_o @ ''n'')), w)
      else if task_state t \<noteq> ''03_approved''
      then (Inl (ValidationError (''El estado de la Tarea debe ser '' @ py_quote ''Aprobado'')), w)
      else if red_social_names t = []
      then (Inl (ValidationError ''Debe seleccionar al menos una red social''), w)
      else publicar_except (publicar_try env w))"

text \<open>
  A button call is one transaction: an exception rolls the database back (the
  task), while the objects written to S3 and the mails already sent stay.
\<close>

definition odoo_button :: "(world \<Rightarrow> (exc + 'a) \<times> world) \<Rightarrow> world \<Rightarrow> (exc + 'a) \<times> world" where
  "odoo_button f w = (case f w of (Inl e, w') \<Rightarrow> (Inl e, w'\<lparr>w_task := w_task w\<rparr>) | (Inr a, w') \<Rightarrow> (Inr a, w'))"

text \<open>The fields \<open>publish_on_linkedin\<close> may change: \<open>post_estado\<close> and the LinkedIn fields.\<close>

definition li_frame :: "task \<Rightarrow> task \<Rightarrow> bool" where
  "li_frame t t' = (t' = t\<lparr>post_estado := post_estado t', li := li t'\<rparr>)"

text \<open>Two runs whose environments give the same answers for network \<open>r\<close>.\<close>

definition same_remote :: "red \<Rightarrow> pub_env \<Rightarrow> pub_env \<Rightarrow> bool" where
  "same_remote r e e' =
     (case r of Facebook \<Rightarrow> pe_fb e = pe_fb e' | Instagram \<Rightarrow> pe_ig e = pe_ig e'
      | TikTok \<Rightarrow> pe_tt e = pe_tt e' | LinkedIn \<Rightarrow> pe_li e = pe_li e')"

text \<open>The preconditions of lines 1355--1365 hold, for a task that is not a reel (no cover upload).\<close>


definition pre_ok :: "task \<Rightarrow> bool" where
  "pre_ok t = (tipo t \<noteq> Video_reels \<and> fecha_publicacion t \<noteq> None \<and> task_state t = ''03_approved'' \<and> red_social_names t \<noteq> [])"

section \<open>Lemmas\<close>

subsection \<open>What each initiator writes\<close>

text \<open>
  \<open>publish_on_linkedin\<close> writes only \<open>post_estado\<close> and the LinkedIn fields;
  \<open>publish_on_facebook\<close> only \<open>fb_video_id\<close> and the Facebook fields. The
  results of one network depend only on its own fields, \<open>tipo\<close>, the cover and
  the answers of its own platform.
\<close>
lemma li_frame_iff: "li_frame t t' \<longleftrightarrow> (\<exists>p s. t' = t\<lparr>post_estado := p, li := s\<rparr>)"
proof
  assume "li_frame t t'"
  then show "\<exists>p s. t' = t\<lparr>post_estado := p, li := s\<rparr>" unfolding li_frame_def by blast
next
  assume "\<exists>p s. t' = t\<lparr>post_estado := p, li := s\<rparr>"
  then obtain p s where "t' = t\<lparr>post_estado := p, li := s\<rparr>" by blast
  then show "li_frame t t'" by (simp add: li_frame_def)
qed

lemma li_frame_trans: "li_frame t t1 \<Longrightarrow> li_frame t1 t2 \<Longrightarrow> li_frame t t2"
  unfolding li_frame_iff by fastforce


lemma li_frame_refl [simp]: "li_frame t t"
  by (simp add: li_frame_def)

lemma li_frame_upd [simp]: "li_frame t (t\<lparr>post_estado := p\<rparr>)" "li_frame t (t\<lparr>post_estado := p, li := s\<rparr>)"
  by (simp_all add: li_frame_def)

lemma li_create_post_frame: "li_frame t (snd (li_create_post r t))"
  by (simp add: li_create_post_def split: sum.split)

lemma li_publish_video_frame: "li_frame t (snd (li_publish_video r urls t))"
proof -
  have "\<And>p s. li_frame t (snd (li_create_post r (t\<lparr>post_estado := p, li := s\<rparr>)))"
    using li_frame_trans li_create_post_frame li_frame_upd(2) by blast
  then show ?thesis
    unfolding li_publish_video_def by (simp split: sum.split prod.split)
qed


lemma li_publish_try_frame: "li_frame t (snd (li_publish_try r urls t))"
  unfolding li_publish_try_def
  by (simp add: li_publish_video_frame li_create_post_frame split: sum.split)

lemma li_handle_frame: "li_frame t (snd x) \<Longrightarrow> li_frame t (snd (li_handle x))"
proof (cases x rule: li_handle.cases)
  case (1 code body t')
  assume "li_frame t (snd x)"
  with 1 show ?thesis using li_frame_trans li_frame_upd(1) by fastforce
next
  case (2 m t')
  assume "li_frame t (snd x)"
  with 2 show ?thesis using li_frame_trans li_frame_upd(1) by fastforce
qed simp

lemma publish_on_linkedin_frame: "li_frame t (snd (publish_on_linkedin r urls t))"
  unfolding publish_on_linkedin_def
  by (simp add: li_handle_frame li_publish_try_frame)


lemma net_upd_simps [simp]:
  "q \<noteq> Facebook \<Longrightarrow> net q (t\<lparr>fb := s\<rparr>) = net q t"
  "q \<noteq> Instagram \<Longrightarrow> net q (t\<lparr>ig := s\<rparr>) = net q t"
  "q \<noteq> TikTok \<Longrightarrow> net q (t\<lparr>tt := s\<rparr>) = net q t"
  "q \<noteq> LinkedIn \<Longrightarrow> net q (t\<lparr>li := s\<rparr>) = net q t"
  "net q (t\<lparr>post_estado := p\<rparr>) = net q t"
  "net q (t\<lparr>fb_video_id := v\<rparr>) = net q t"
  by (cases q; simp)+

lemma li_frame_other:
  assumes "li_frame t t'"
  shows "q \<noteq> LinkedIn \<Longrightarrow> net q t' = net q t" and "tipo t' = tipo t"
    and "red_social_names t' = red_social_names t" and "imagen_portada t' = imagen_portada t"
  using assms unfolding li_frame_iff by auto

lemma publish_on_facebook_other:
  "q \<noteq> Facebook \<Longrightarrow> net q (snd (publish_on_facebook r urls t)) = net q t"
  by (auto simp: publish_on_facebook_def fb_publish_story_def fb_publish_reel_def Let_def split: sum.split prod.split)

lemma publish_on_facebook_ro:
  "tipo (snd (publish_on_facebook r urls t)) = tipo t"
  "red_social_names (snd (publish_on_facebook r urls t)) = red_social_names t"
  "imagen_portada (snd (publish_on_facebook r urls t)) = imagen_portada t"
  by (auto simp: publish_on_facebook_def fb_publish_story_def fb_publish_reel_def Let_def split: sum.split prod.split)


lemma li_create_post_local:
  "tipo t = tipo t' \<Longrightarrow> li t = li t' \<Longrightarrow>
   fst (li_create_post r t) = fst (li_create_post r t') \<and> li (snd (li_create_post r t)) = li (snd (li_create_post r t'))"
  by (simp add: li_create_post_def split: sum.split)

lemma li_publish_video_local:
  assumes "tipo t = tipo t'" "imagen_portada t = imagen_portada t'" "li t = li t'"
  shows "fst (li_publish_video r u t) = fst (li_publish_video r u t') \<and> li (snd (li_publish_video r u t)) = li (snd (li_publish_video r u t'))"
proof -
  have cp: "fst (li_create_post r (t\<lparr>post_estado := p, li := L\<rparr>)) = fst (li_create_post r (t'\<lparr>post_estado := p, li := L\<rparr>)) \<and>
    li (snd (li_create_post r (t\<lparr>post_estado := p, li := L\<rparr>))) = li (snd (li_create_post r (t'\<lparr>post_estado := p, li := L\<rparr>)))" for p L
    using assms(1) by (intro li_create_post_local) simp_all
  show ?thesis
    unfolding li_publish_video_def using assms(2,3) by (auto simp: cp split: sum.split prod.split)
qed

lemma li_publish_try_local:
  assumes "tipo t = tipo t'" "imagen_portada t = imagen_portada t'" "li t = li t'"
  shows "fst (li_publish_try r u t) = fst (li_publish_try r u t') \<and> li (snd (li_publish_try r u t)) = li (snd (li_publish_try r u t'))"
  using li_publish_video_local [OF assms, of r u] li_create_post_local [OF assms(1,3), of r] assms(1,3)
  unfolding li_publish_try_def by (simp split: sum.split)


lemma li_handle_local:
  "fst x = fst y \<Longrightarrow> li (snd x) = li (snd y) \<Longrightarrow> fst (li_handle x) = fst (li_handle y) \<and> li (snd (li_handle x)) = li (snd (li_handle y))"
  by (cases x rule: li_handle.cases; cases y rule: li_handle.cases) auto

lemma publish_on_linkedin_local:
  assumes "tipo t = tipo t'" "imagen_portada t = imagen_portada t'" "li t = li t'"
  shows "fst (publish_on_linkedin r u t) = fst (publish_on_linkedin r u t') \<and> li (snd (publish_on_linkedin r u t)) = li (snd (publish_on_linkedin r u t'))"
proof -
  have "fst (li_publish_try r u t) = fst (li_publish_try r u t') \<and> li (snd (li_publish_try r u t)) = li (snd (li_publish_try r u t'))"
    by (rule li_publish_try_local [OF assms])
  then have "fst (li_handle (li_publish_try r u t)) = fst (li_handle (li_publish_try r u t')) \<and>
    li (snd (li_handle (li_publish_try r u t))) = li (snd (li_handle (li_publish_try r u t')))"
    using li_handle_local by blast
  with assms(3) show ?thesis unfolding publish_on_linkedin_def by simp
qed

subsection \<open>Isolation of the attempts\<close>

lemma fb_publish_story_local:
  "fb t = fb t' \<Longrightarrow> fst (fb_publish_story r t) = fst (fb_publish_story r t') \<and> fb (snd (fb_publish_story r t)) = fb (snd (fb_publish_story r t'))"
  by (cases "fbp_start_resp r"; cases "fbp_upload_resp r"; cases "fbp_finish_resp r")
     (auto simp: fb_publish_story_def Let_def split: prod.splits)

lemma fb_publish_reel_local:
  "fb t = fb t' \<Longrightarrow> fst (fb_publish_reel r t) = fst (fb_publish_reel r t') \<and> fb (snd (fb_publish_reel r t)) = fb (snd (fb_publish_reel r t'))"
  by (cases "fbp_start_resp r"; cases "fbp_upload_resp r"; cases "fbp_finish_resp r")
     (auto simp: fb_publish_reel_def Let_def split: prod.splits)

lemma publish_on_facebook_local:
  assumes "tipo t = tipo t'" "fb t = fb t'"
  shows "fst (publish_on_facebook r u t) = fst (publish_on_facebook r u t') \<and> fb (snd (publish_on_facebook r u t)) = fb (snd (publish_on_facebook r u t'))"
  using fb_publish_story_local [OF assms(2), of r] fb_publish_reel_local [OF assms(2), of r] assms
  unfolding publish_on_facebook_def by (simp split: sum.split)

text \<open>Each attempt writes its own network's fields, and reads nothing else that another writes.\<close>

lemma attempt_ro:
  "tipo (at_task (attempt_facebook env u a)) = tipo (at_task a)"
  "red_social_names (at_task (attempt_facebook env u a)) = red_social_names (at_task a)"
  "imagen_portada (at_task (attempt_facebook env u a)) = imagen_portada (at_task a)"
  "tipo (at_task (attempt_instagram env u c a)) = tipo (at_task a)"
  "red_social_names (at_task (attempt_instagram env u c a)) = red_social_names (at_task a)"
  "imagen_portada (at_task (attempt_instagram env u c a)) = imagen_portada (at_task a)"
  "tipo (at_task (attempt_tiktok env u a)) = tipo (at_task a)"
  "red_social_names (at_task (attempt_tiktok env u a)) = red_social_names (at_task a)"
  "imagen_portada (at_task (attempt_tiktok env u a)) = imagen_portada (at_task a)"
  by (simp_all add: attempt_facebook_def attempt_instagram_def attempt_tiktok_def publish_on_instagram_def
      lift_net_eq Let_def publish_on_facebook_ro write_phase_def prod.case_eq_if split: sum.split)


lemma attempt_linkedin_ro:
  "tipo (at_task (attempt_linkedin env u a)) = tipo (at_task a)"
  "red_social_names (at_task (attempt_linkedin env u a)) = red_social_names (at_task a)"
  "imagen_portada (at_task (attempt_linkedin env u a)) = imagen_portada (at_task a)"
  using li_frame_other(2-4) [OF publish_on_linkedin_frame, of "pe_li env" u "write_phase LinkedIn Procesando None (at_task a)"]
  by (simp_all add: attempt_linkedin_def Let_def write_phase_def prod.case_eq_if split: sum.split)

lemma attempt_other:
  "q \<noteq> Facebook \<Longrightarrow> net q (at_task (attempt_facebook env u a)) = net q (at_task a)"
  "q \<noteq> Instagram \<Longrightarrow> net q (at_task (attempt_instagram env u c a)) = net q (at_task a)"
  "q \<noteq> TikTok \<Longrightarrow> net q (at_task (attempt_tiktok env u a)) = net q (at_task a)"
  "q \<noteq> LinkedIn \<Longrightarrow> net q (at_task (attempt_linkedin env u a)) = net q (at_task a)"
  using li_frame_other(1) [OF publish_on_linkedin_frame, of q "pe_li env" u "write_phase LinkedIn Procesando None (at_task a)"]
  by (simp_all add: attempt_facebook_def attempt_instagram_def attempt_tiktok_def attempt_linkedin_def
      publish_on_instagram_def publish_on_facebook_other Let_def prod.case_eq_if split: sum.split)


lemma attempt_facebook_local:
  assumes "pe_fb env = pe_fb env'" "tipo (at_task a) = tipo (at_task b)"
    "red_social_names (at_task a) = red_social_names (at_task b)" "net Facebook (at_task a) = net Facebook (at_task b)"
  shows "net Facebook (at_task (attempt_facebook env u a)) = net Facebook (at_task (attempt_facebook env' u b))"
proof -
  let ?t = "write_phase Facebook Procesando None (at_task a)" and ?t' = "write_phase Facebook Procesando None (at_task b)"
  have "fst (publish_on_facebook (pe_fb env) u ?t) = fst (publish_on_facebook (pe_fb env') u ?t') \<and>
    fb (snd (publish_on_facebook (pe_fb env) u ?t)) = fb (snd (publish_on_facebook (pe_fb env') u ?t'))"
    using assms(2-) unfolding assms(1) by (intro publish_on_facebook_local) (simp_all add: write_phase_def)
  moreover have "selected (at_task a) Facebook = selected (at_task b) Facebook"
    using assms(3) by (simp add: selected_def)
  ultimately show ?thesis using assms(4)
    by (simp add: attempt_facebook_def Let_def write_phase_def prod.case_eq_if split: sum.split)
qed

lemma attempt_instagram_local:
  assumes "pe_ig env = pe_ig env'" "tipo (at_task a) = tipo (at_task b)"
    "red_social_names (at_task a) = red_social_names (at_task b)" "net Instagram (at_task a) = net Instagram (at_task b)"
  shows "net Instagram (at_task (attempt_instagram env u c a)) = net Instagram (at_task (attempt_instagram env' u c b))"
proof -
  have "selected (at_task a) Instagram = selected (at_task b) Instagram"
    using assms(3) by (simp add: selected_def)
  with assms show ?thesis
    by (simp add: attempt_instagram_def publish_on_instagram_def lift_net_eq Let_def write_phase_def prod.case_eq_if split: sum.split)
qed

lemma attempt_tiktok_local:
  assumes "pe_tt env = pe_tt env'" "tipo (at_task a) = tipo (at_task b)"
    "red_social_names (at_task a) = red_social_names (at_task b)" "net TikTok (at_task a) = net TikTok (at_task b)"
  shows "net TikTok (at_task (attempt_tiktok env u a)) = net TikTok (at_task (attempt_tiktok env' u b))"
proof -
  have "selected (at_task a) TikTok = selected (at_task b) TikTok"
    using assms(3) by (simp add: selected_def)
  with assms show ?thesis
    by (simp add: attempt_tiktok_def Let_def write_phase_def split: sum.split)
qed

lemma attempt_linkedin_local:
  assumes "pe_li env = pe_li env'" "tipo (at_task a) = tipo (at_task b)"
    "red_social_names (at_task a) = red_social_names (at_task b)" "imagen_portada (at_task a) = imagen_portada (at_task b)"
    "net LinkedIn (at_task a) = net LinkedIn (at_task b)"
  shows "net LinkedIn (at_task (attempt_linkedin env u a)) = net LinkedIn (at_task (attempt_linkedin env' u b))"
proof -
  let ?t = "write_phase LinkedIn Procesando None (at_task a)" and ?t' = "write_phase LinkedIn Procesando None (at_task b)"
  have "fst (publish_on_linkedin (pe_li env) u ?t) = fst (publish_on_linkedin (pe_li env') u ?t') \<and>
    li (snd (publish_on_linkedin (pe_li env) u ?t)) = li (snd (publish_on_linkedin (pe_li env') u ?t'))"
    using assms(2-) unfolding assms(1) by (intro publish_on_linkedin_local) (simp_all add: write_phase_def)
  moreover have "selected (at_task a) LinkedIn = selected (at_task b) LinkedIn"
    using assms(3) by (simp add: selected_def)
  ultimately show ?thesis using assms(5)
    by (simp add: attempt_linkedin_def Let_def write_phase_def prod.case_eq_if split: sum.split)
qed

lemmas attempt_ro_all = attempt_ro attempt_linkedin_ro

text \<open>C1: The fields of one network after the four attempts of publicar_post depend only on the answers of that network's platform: two runs whose environments agree on it leave its phase, ids, URL and error equal, whatever the other platforms answer.\<close>

theorem publish_attempts_isolation:
  "same_remote r env env' \<Longrightarrow>
   net r (at_task (publish_attempts env u c t)) = net r (at_task (publish_attempts env' u c t))"
proof (cases r)
  case Facebook
  assume "same_remote r env env'"
  with Facebook show ?thesis
    by (simp add: attempt_other same_remote_def publish_attempts_def attempt_facebook_local del: net.simps)
next
  case Instagram
  assume "same_remote r env env'"
  with Instagram show ?thesis
    by (simp add: attempt_other same_remote_def publish_attempts_def attempt_instagram_local attempt_ro_all del: net.simps)
next
  case TikTok
  assume "same_remote r env env'"
  with TikTok show ?thesis
    by (simp add: attempt_other same_remote_def publish_attempts_def attempt_tiktok_local attempt_ro_all del: net.simps)
next
  case LinkedIn
  assume "same_remote r env env'"
  with LinkedIn show ?thesis
    by (simp add: attempt_other same_remote_def publish_attempts_def attempt_linkedin_local attempt_ro_all del: net.simps)
qed

subsection \<open>Outcomes of \<open>publicar_post\<close>\<close>

lemma publicar_post_staged:
  assumes "pre_ok (w_task w)" "credential_errors (w_task w) = []"
    "upload_files_to_s3 (pe_s3 env) (task_files (w_task w)) (pe_aws_api env) (pe_aws_secret env) (w_store w) = (Inr urls, st)"
  shows "publicar_post env w = publicar_except (publicar_result env (publish_attempts env urls None (w_task w)) (w\<lparr>w_store := st\<rparr>))"
  using assms unfolding pre_ok_def publicar_post_def publicar_try_def Let_def by (simp del: not_None_eq)





text \<open>C7: A reel without cover, a task without publication date, a task not in state 03_approved, or a task with no network selected makes publicar_post raise a ValidationError before any effect.\<close>

theorem publicar_post_precondition_errors:
  "(\<not> truthy (imagen_portada (w_task w)) \<and> tipo (w_task w) = Video_reels) \<or> fecha_publicacion (w_task w) = None \<or>
   task_state (w_task w) \<noteq> ''03_approved'' \<or> red_social_names (w_task w) = [] \<Longrightarrow>
   \<exists>m. publicar_post env w = (Inl (ValidationError m), w)"
  by (auto simp: publicar_post_def Let_def)


end
