(* ===== verification/Lifecycle.thy ===== *)
theory Lifecycle
  imports Publish
begin

text \<open>
  The rest of the life of a task in \<open>project_task.py\<close>: the validation that
  \<open>write\<close> runs before saving (lines 204--278), the buttons
  \<open>programar_post\<close> and \<open>cancelar_post\<close> (lines 280--311), the
  per-network flags (lines 181--188) and the guards of \<open>unlink\<close> and
  \<open>copy\<close> (lines 190--202). \<open>write\<close> reads the \<open>vals\<close> of the call,
  simulates the many2many commands on the attachment ids to know the
  attachments the task will have, checks them, stores the video duration
  into the same \<open>vals\<close>, and hands \<open>vals\<close> to the ORM, which applies it
  to every record of the call.
\<close>

section \<open>Many2many commands\<close>

text \<open>
  The commands of an \<open>x2many\<close> write: \<open>(0, 0, values)\<close> creates a record
  (here: the attachment it creates), \<open>(1, id, values)\<close> updates one,
  \<open>(2, id)\<close> deletes, \<open>(3, id)\<close> unlinks, \<open>(4, id)\<close> links, \<open>(5,)\<close>
  clears, \<open>(6, 0, ids)\<close> replaces.
\<close>

datatype m2m_cmd =
    M2m_Create attachment
  | M2m_Update nat
  | M2m_Delete nat
  | M2m_Unlink nat
  | M2m_Link nat
  | M2m_Clear
  | M2m_Set "nat list"

text \<open>
  Lines 221--237: the simulation of the commands on the set of ids, written
  as a list without duplicates. Creations and updates are passed over;
  \<open>if command[1]\<close> skips the id \<open>0\<close>.
\<close>

fun sim_m2m :: "nat list \<Rightarrow> m2m_cmd \<Rightarrow> nat list" where
  "sim_m2m ids (M2m_Create a) = ids"
| "sim_m2m ids (M2m_Update i) = ids"
| "sim_m2m ids (M2m_Delete i) = (if i \<noteq> 0 then removeAll i ids else ids)"
| "sim_m2m ids (M2m_Unlink i) = (if i \<noteq> 0 then removeAll i ids else ids)"
| "sim_m2m ids (M2m_Link i) = (if i \<noteq> 0 then List.insert i ids else ids)"
| "sim_m2m ids M2m_Clear = []"
| "sim_m2m ids (M2m_Set xs) = remdups xs"

text \<open>
  What the ORM does with the same commands on the relation, given the
  attachments by id (\<open>browse\<close>): a created attachment is added, an updated
  one is left in place.
\<close>

type_synonym att_store = "nat \<Rightarrow> attachment"

fun orm_m2m :: "att_store \<Rightarrow> attachment list \<Rightarrow> m2m_cmd \<Rightarrow> attachment list" where
  "orm_m2m st atts (M2m_Create a) = atts @ [a]"
| "orm_m2m st atts (M2m_Update i) = atts"
| "orm_m2m st atts (M2m_Delete i) = filter (\<lambda>a. att_id a \<noteq> i) atts"
| "orm_m2m st atts (M2m_Unlink i) = filter (\<lambda>a. att_id a \<noteq> i) atts"
| "orm_m2m st atts (M2m_Link i) = (if i \<in> att_id ` set atts then atts else atts @ [st i])"
| "orm_m2m st atts M2m_Clear = []"
| "orm_m2m st atts (M2m_Set xs) = map st (remdups xs)"

section \<open>The values of a write\<close>

text \<open>
  The keys of \<open>vals\<close> the validation reads or writes: \<open>tipo\<close>,
  \<open>fecha_publicacion\<close> (present with a value or \<open>False\<close>), \<open>state\<close>,
  \<open>adjuntos_ids\<close> and \<open>tiktok_video_duration\<close>. \<open>None\<close> is an absent key.
\<close>

record write_vals =
  wv_tipo :: "tipo option"
  wv_fecha :: "nat option option"
  wv_state :: "string option"
  wv_adjuntos :: "m2m_cmd list option"
  wv_duration :: "nat option"

definition no_vals :: write_vals where
  "no_vals = \<lparr>wv_tipo = None, wv_fecha = None, wv_state = None, wv_adjuntos = None, wv_duration = None\<rparr>"

text \<open>Lines 217--240: the attachments the task will have, as the validation computes them.\<close>

definition current_attachments :: "att_store \<Rightarrow> write_vals \<Rightarrow> task \<Rightarrow> attachment list" where
  "current_attachments st v t =
     (case wv_adjuntos v of
        None \<Rightarrow> adjuntos t
      | Some cmds \<Rightarrow> map st (foldl sim_m2m (remdups (map att_id (adjuntos t))) cmds))"

text \<open>Lines 254--266: each video is an MP4, and its duration goes into \<open>vals\<close>.\<close>

fun check_videos :: "tipo \<Rightarrow> write_vals \<Rightarrow> attachment list \<Rightarrow> exc + write_vals" where
  "check_videos tp v [] = Inr v"
| "check_videos tp v (a # atts) =
     (if att_mimetype a \<noteq> ''video/mp4''
      then Inl (ValidationError (''Solo se aceptan videos en formato MP4 para el tipo de publicaci'' @ acute_o @ ''n ''
                                 @ py_quote (tipo_str tp) @ ''.''))
      else (case att_duration a of
              Inl e \<Rightarrow> Inl (ValidationError (''No se pudo analizar el video MP4: '' @ e))
            | Inr d \<Rightarrow> check_videos tp (v\<lparr>wv_duration := Some d\<rparr>) atts))"

text \<open>Lines 207--276: the checks of one record, returning \<open>vals\<close> as the loop leaves it.\<close>

definition write_check :: "att_store \<Rightarrow> write_vals \<Rightarrow> task \<Rightarrow> exc + write_vals" where
  "write_check st v t =
     (let tp = (case wv_tipo v of None \<Rightarrow> tipo t | Some x \<Rightarrow> x);
          fecha = (case wv_fecha v of None \<Rightarrow> fecha_publicacion t | Some f \<Rightarrow> f)
      in if tp \<noteq> Otro \<and> fecha = None
         then Inl (ValidationError (''La '' @ py_quote (''Fecha y hora de Publicaci'' @ acute_o @ ''n'')
                                    @ '' es obligatoria cuando el tipo no es '' @ py_quote ''Otro'' @ ''.''))
         else if task_state t \<noteq> ''03_approved'' \<or> tp = Otro then Inr v
         else (let cur = current_attachments st v t in
               if cur = []
               then Inl (ValidationError (''Debe seleccionar al menos un archivo para publicar para el tipo ''
                                          @ py_quote (tipo_str tp) @ ''.''))
               else if tp \<noteq> Feed then
                 (if 1 < length cur
                  then Inl (ValidationError (''Solo se acepta 1 archivo para el tipo de publicaci'' @ acute_o @ ''n ''
                                             @ py_quote (tipo_str tp) @ ''.''))
                  else if tp = Video_stories \<or> tp = Video_reels then check_videos tp v cur
                  else Inr v)
               else if list_ex (\<lambda>a. att_mimetype a = ''video/mp4'') cur
               then Inl (ValidationError (''Solo se aceptan im'' @ acute_a @ ''genes para publicaciones de tipo ''
                                          @ py_quote ''Feed'' @ ''. No se permiten videos MP4.''))
               else Inr v))"

text \<open>\<open>super().write(vals)\<close>: the ORM applies the final \<open>vals\<close> to a record.\<close>

definition apply_vals :: "att_store \<Rightarrow> write_vals \<Rightarrow> task \<Rightarrow> task" where
  "apply_vals st v t =
     t\<lparr>tipo := (case wv_tipo v of None \<Rightarrow> tipo t | Some x \<Rightarrow> x),
       fecha_publicacion := (case wv_fecha v of None \<Rightarrow> fecha_publicacion t | Some f \<Rightarrow> f),
       task_state := (case wv_state v of None \<Rightarrow> task_state t | Some s \<Rightarrow> s),
       adjuntos := (case wv_adjuntos v of None \<Rightarrow> adjuntos t | Some cmds \<Rightarrow> foldl (orm_m2m st) (adjuntos t) cmds),
       tiktok_video_duration := (case wv_duration v of None \<Rightarrow> tiktok_video_duration t | Some d \<Rightarrow> d)\<rparr>"

text \<open>
  Lines 204--278: the loop over the records of the call threads the one
  \<open>vals\<close> dictionary through the checks; the ORM then writes it to all.
\<close>

fun write_loop :: "att_store \<Rightarrow> write_vals \<Rightarrow> task list \<Rightarrow> exc + write_vals" where
  "write_loop st v [] = Inr v"
| "write_loop st v (t # ts) = (case write_check st v t of Inl e \<Rightarrow> Inl e | Inr v' \<Rightarrow> write_loop st v' ts)"

definition write_tasks :: "att_store \<Rightarrow> write_vals \<Rightarrow> task list \<Rightarrow> exc + task list" where
  "write_tasks st v ts = (case write_loop st v ts of Inl e \<Rightarrow> Inl e | Inr v' \<Rightarrow> Inr (map (apply_vals st v') ts))"

section \<open>Buttons and guards\<close>

text \<open>
  Lines 280--307: \<open>programar_post\<close>. A failure inside the \<open>try\<close> is mailed
  and replaced by a generic error.
\<close>

definition programar_post :: "world \<Rightarrow> (exc + unit) \<times> world" where
  "programar_post w =
     (let t = w_task w in
      if task_state t \<noteq> ''03_approved''
      then (let e = ''El estado de la Tarea debe ser '' @ py_quote ''Aprobado'' @ '' para poder programar el post.''
            in (Inl (ValidationError (''Ocurri'' @ acute_o @ '' un error inesperado. Revisa la notificaci'' @ acute_o @ ''n.'')),
                w\<lparr>w_mails := w_mails w @ [Mail ''programar_post'' e]\<rparr>))
      else (Inr (), w\<lparr>w_task := t\<lparr>post_estado := ''Programado''\<rparr>\<rparr>))"

text \<open>Lines 309--311: \<open>cancelar_post\<close>.\<close>

definition cancelar_post :: "task \<Rightarrow> task" where
  "cancelar_post t = t\<lparr>post_estado := ''Pendiente''\<rparr>"

text \<open>Lines 181--188: \<open>has_facebook\<close>, \<open>has_instagram\<close>, \<open>has_tiktok\<close>, \<open>has_linkedin\<close>.\<close>

definition social_flags :: "task \<Rightarrow> bool \<times> bool \<times> bool \<times> bool" where
  "social_flags t =
     (let names = set (red_social_names t)
      in (''Facebook'' \<in> names, ''Instagram'' \<in> names, ''TikTok'' \<in> names, ''LinkedIn'' \<in> names))"

text \<open>Lines 190--194: a task tagged \<open>plantilla\<close> (any case) cannot be deleted.\<close>

definition unlink_check :: "string list list \<Rightarrow> exc + unit" where
  "unlink_check tags =
     (if list_ex (list_ex (\<lambda>n. py_lower n = ''plantilla'')) tags
      then Inl (ValidationError (''No puedes eliminar tareas con la etiqueta '' @ [CHR 0x22] @ ''Plantilla'' @ [CHR 0x22] @ ''.''))
      else Inr ())"

text \<open>Lines 196--202: a task of a marketing project cannot be duplicated.\<close>

definition copy_check :: "string option \<Rightarrow> exc + unit" where
  "copy_check project_type =
     (if project_type = Some ''marketing''
      then Inl (ValidationError ''No se puede duplicar tareas de proyectos de tipo Marketing.'')
      else Inr ())"

section \<open>Auxiliary notions for the lemmas\<close>

text \<open>
  A consistent attachment store (\<open>browse(i)\<close> has id \<open>i\<close>), the commands whose
  effect the validation can see (no creation, no id \<open>0\<close>), the agreement of a
  simulated id list with the relation, and what the specification asks of
  the attachments of a publishable task (section 3).
\<close>

definition store_ok :: "att_store \<Rightarrow> bool" where
  "store_ok st = (\<forall>i. att_id (st i) = i)"

fun cmd_ok :: "m2m_cmd \<Rightarrow> bool" where
  "cmd_ok (M2m_Create a) = False"
| "cmd_ok (M2m_Update i) = True"
| "cmd_ok (M2m_Delete i) = (i \<noteq> 0)"
| "cmd_ok (M2m_Unlink i) = (i \<noteq> 0)"
| "cmd_ok (M2m_Link i) = (i \<noteq> 0)"
| "cmd_ok M2m_Clear = True"
| "cmd_ok (M2m_Set xs) = (0 \<notin> set xs)"

definition rel_ok :: "att_store \<Rightarrow> nat list \<Rightarrow> attachment list \<Rightarrow> bool" where
  "rel_ok st ids atts =
     (set ids = att_id ` set atts \<and> distinct ids \<and> distinct (map att_id atts) \<and>
      (\<forall>a\<in>set atts. st (att_id a) = a \<and> att_id a \<noteq> 0))"

definition attachments_ok :: "att_store \<Rightarrow> attachment list \<Rightarrow> bool" where
  "attachments_ok st atts = (distinct (map att_id atts) \<and> (\<forall>a\<in>set atts. st (att_id a) = a \<and> att_id a \<noteq> 0))"

definition is_mp4 :: "attachment \<Rightarrow> bool" where
  "is_mp4 a = (att_mimetype a = ''video/mp4'')"

definition publishable :: "tipo \<Rightarrow> attachment list \<Rightarrow> bool" where
  "publishable tp atts =
     (atts \<noteq> [] \<and>
      (if tp = Feed then \<not> list_ex is_mp4 atts
       else length atts = 1 \<and> (tp = Video_stories \<or> tp = Video_reels \<longrightarrow> list_all is_mp4 atts)))"

definition write_tipo :: "write_vals \<Rightarrow> task \<Rightarrow> tipo" where
  "write_tipo v t = (case wv_tipo v of None \<Rightarrow> tipo t | Some x \<Rightarrow> x)"

definition post_estado_blind :: "(task \<Rightarrow> 'a \<times> task) \<Rightarrow> bool" where
  "post_estado_blind f = (\<forall>t p. f (t\<lparr>post_estado := p\<rparr>) = (fst (f t), (snd (f t))\<lparr>post_estado := p\<rparr>))"

section \<open>Lemmas\<close>

subsection \<open>The validation keeps an approved task publishable\<close>

lemma rel_ok_step:
  assumes "store_ok st" "cmd_ok c" "rel_ok st ids atts"
  shows "rel_ok st (sim_m2m ids c) (orm_m2m st atts c)"
  using assms
proof (cases c)
  case (M2m_Link i)
  show ?thesis
  proof (cases "i \<in> set ids")
    case True
    with assms M2m_Link show ?thesis by (simp add: rel_ok_def)
  next
    case False
    have "att_id (st i) = i" using assms(1) by (simp add: store_ok_def)
    with False assms M2m_Link show ?thesis by (auto simp: rel_ok_def)
  qed
next
  case (M2m_Set xs)
  have sid [simp]: "\<And>i. att_id (st i) = i" using assms(1) by (simp add: store_ok_def)
  have "map att_id (map st (remdups xs)) = remdups xs" by (induction xs) simp_all
  with assms M2m_Set show ?thesis
    by (auto simp: rel_ok_def image_iff) (metis gr0I)
qed (auto simp: rel_ok_def distinct_removeAll distinct_map_filter)

lemma rel_ok_foldl:
  "store_ok st \<Longrightarrow> list_all cmd_ok cmds \<Longrightarrow> rel_ok st ids atts \<Longrightarrow>
   rel_ok st (foldl sim_m2m ids cmds) (foldl (orm_m2m st) atts cmds)"
  by (induction cmds arbitrary: ids atts) (simp_all add: rel_ok_step)

lemma rel_ok_init: "attachments_ok st atts \<Longrightarrow> rel_ok st (remdups (map att_id atts)) atts"
  by (simp add: attachments_ok_def rel_ok_def)

lemma rel_ok_set_length:
  assumes "rel_ok st ids atts"
  shows "set (map st ids) = set atts" "length (map st ids) = length atts"
proof -
  from assms have ids: "set ids = att_id ` set atts" and d: "distinct ids" "distinct (map att_id atts)"
    and st: "\<forall>a\<in>set atts. st (att_id a) = a" by (simp_all add: rel_ok_def)
  have "st ` att_id ` set atts = set atts" using st by (force simp: image_iff)
  then show "set (map st ids) = set atts" by (simp add: ids)
  have "length ids = card (set ids)" using d(1) by (simp add: distinct_card)
  also have "\<dots> = length (map att_id atts)" using d(2) ids by (metis distinct_card set_map)
  finally show "length (map st ids) = length atts" by simp
qed

lemma is_mp4_eq: "is_mp4 = (\<lambda>a. att_mimetype a = ''video/mp4'')"
  by (rule ext) (simp add: is_mp4_def)

lemma publishable_cong:
  assumes "set a = set b" "length a = length b"
  shows "publishable tp a = publishable tp b"
proof -
  have "(a = []) = (b = [])" using assms(2) by (metis length_0_conv)
  with assms show ?thesis by (simp add: publishable_def list_ex_iff list_all_iff)
qed

lemma check_videos_Inr:
  "check_videos tp v atts = Inr v' \<Longrightarrow> list_all is_mp4 atts \<and> v' = v\<lparr>wv_duration := wv_duration v'\<rparr>"
  by (induction tp v atts rule: check_videos.induct) (auto simp: is_mp4_def split: if_splits sum.splits)

lemma length_one: "l \<noteq> [] \<Longrightarrow> \<not> Suc 0 < length l \<Longrightarrow> length l = Suc 0"
  by (cases l) auto

lemma write_check_vals:
  "write_check st v t = Inr v' \<Longrightarrow> v' = v\<lparr>wv_duration := wv_duration v'\<rparr>"
  unfolding write_check_def Let_def
  by (simp split: if_splits) (blast dest: check_videos_Inr)

lemma write_check_approved:
  assumes "task_state t = ''03_approved''" "write_tipo v t \<noteq> Otro" "write_check st v t = Inr v'"
  shows "publishable (write_tipo v t) (current_attachments st v t)"
proof -
  let ?tp = "write_tipo v t" and ?cur = "current_attachments st v t"
  have fecha: "\<not> (?tp \<noteq> Otro \<and> (case wv_fecha v of None \<Rightarrow> fecha_publicacion t | Some f \<Rightarrow> f) = None)"
  proof
    assume "?tp \<noteq> Otro \<and> (case wv_fecha v of None \<Rightarrow> fecha_publicacion t | Some f \<Rightarrow> f) = None"
    then have "isl (write_check st v t)" unfolding write_check_def write_tipo_def Let_def by simp
    with assms(3) show False by simp
  qed
  have w: "write_check st v t =
    (if ?cur = [] then Inl (ValidationError (''Debe seleccionar al menos un archivo para publicar para el tipo ''
                                          @ py_quote (tipo_str ?tp) @ ''.''))
     else if ?tp \<noteq> Feed then
       (if 1 < length ?cur then Inl (ValidationError (''Solo se acepta 1 archivo para el tipo de publicaci'' @ acute_o @ ''n ''
                                             @ py_quote (tipo_str ?tp) @ ''.''))
        else if ?tp = Video_stories \<or> ?tp = Video_reels then check_videos ?tp v ?cur else Inr v)
     else if list_ex (\<lambda>a. att_mimetype a = ''video/mp4'') ?cur
     then Inl (ValidationError (''Solo se aceptan im'' @ acute_a @ ''genes para publicaciones de tipo ''
                                          @ py_quote ''Feed'' @ ''. No se permiten videos MP4.''))
     else Inr v)"
    using fecha assms(1,2) unfolding write_check_def write_tipo_def Let_def by (simp del: not_None_eq)
  show ?thesis
  proof (cases "?tp = Feed")
    case True
    then show ?thesis using assms(3) unfolding w by (simp add: publishable_def is_mp4_eq split: if_splits)
  next
    case False
    then show ?thesis using assms(3) check_videos_Inr [of ?tp v ?cur v'] unfolding w
      by (auto simp: publishable_def length_one split: if_splits)
  qed
qed

lemma apply_vals_fields:
  "v' = v\<lparr>wv_duration := d\<rparr> \<Longrightarrow> tipo (apply_vals st v' t) = write_tipo v t"
  "v' = v\<lparr>wv_duration := d\<rparr> \<Longrightarrow> adjuntos (apply_vals st v' t) =
     (case wv_adjuntos v of None \<Rightarrow> adjuntos t | Some cmds \<Rightarrow> foldl (orm_m2m st) (adjuntos t) cmds)"
  by (simp_all add: apply_vals_def write_tipo_def)

lemma current_attachments_orm:
  assumes "store_ok st" "attachments_ok st (adjuntos t)"
    "list_all cmd_ok (case wv_adjuntos v of None \<Rightarrow> [] | Some cmds \<Rightarrow> cmds)"
  shows "publishable tp (current_attachments st v t) =
    publishable tp (case wv_adjuntos v of None \<Rightarrow> adjuntos t | Some cmds \<Rightarrow> foldl (orm_m2m st) (adjuntos t) cmds)"
proof (cases "wv_adjuntos v")
  case (Some cmds)
  then have "rel_ok st (foldl sim_m2m (remdups (map att_id (adjuntos t))) cmds) (foldl (orm_m2m st) (adjuntos t) cmds)"
    using assms by (intro rel_ok_foldl rel_ok_init) simp_all
  then have "set (map st (foldl sim_m2m (remdups (map att_id (adjuntos t))) cmds)) = set (foldl (orm_m2m st) (adjuntos t) cmds)"
    "length (map st (foldl sim_m2m (remdups (map att_id (adjuntos t))) cmds)) = length (foldl (orm_m2m st) (adjuntos t) cmds)"
    by (rule rel_ok_set_length)+
  with Some show ?thesis
    unfolding current_attachments_def by (simp only: option.case) (rule publishable_cong)
qed (simp add: current_attachments_def)


subsection \<open>What the validation does not see\<close>

lemma write_loop_single: "write_tasks st v [t] = (case write_check st v t of Inl e \<Rightarrow> Inl e | Inr v' \<Rightarrow> Inr [apply_vals st v' t])"
  by (simp add: write_tasks_def split: sum.split)

text \<open>C11: A write that creates an MP4 attachment with a (0, 0, values) command on an approved Feed task is accepted, because the validation skips creation commands, and the task is saved with the video next to its image.\<close>

theorem write_create_bypasses_check:
  assumes "task_state t = ''03_approved''" "tipo t = Feed" "fecha_publicacion t \<noteq> None"
    "adjuntos t = [img]" "att_mimetype img \<noteq> ''video/mp4''" "att_mimetype vid = ''video/mp4''"
    "st (att_id img) = img"
  shows "write_tasks st (no_vals\<lparr>wv_adjuntos := Some [M2m_Create vid]\<rparr>) [t] = Inr [t\<lparr>adjuntos := [img, vid]\<rparr>]"
  using assms
  by (auto simp: write_loop_single write_check_def current_attachments_def no_vals_def apply_vals_def Let_def)

text \<open>C13: A write that moves a task to state 03_approved is accepted without looking at its attachments, because the validation reads the state of the record before the write.\<close>

theorem write_approval_skips_check:
  assumes "task_state t \<noteq> ''03_approved''" "fecha_publicacion t \<noteq> None"
  shows "write_tasks st (no_vals\<lparr>wv_state := Some ''03_approved''\<rparr>) [t] = Inr [t\<lparr>task_state := ''03_approved''\<rparr>]"
  using assms by (auto simp: write_loop_single write_check_def no_vals_def apply_vals_def Let_def)

text \<open>C12: Writing two approved video reels in one call stores the duration of the last video into both records, because the validation puts the duration into the vals dictionary that the ORM then applies to every record.\<close>

theorem write_duration_shared:
  assumes "task_state t1 = ''03_approved''" "tipo t1 = Video_reels" "fecha_publicacion t1 \<noteq> None"
    "adjuntos t1 = [a1]" "att_mimetype a1 = ''video/mp4''" "att_duration a1 = Inr d1"
    "task_state t2 = ''03_approved''" "tipo t2 = Video_reels" "fecha_publicacion t2 \<noteq> None"
    "adjuntos t2 = [a2]" "att_mimetype a2 = ''video/mp4''" "att_duration a2 = Inr d2"
  shows "write_tasks st no_vals [t1, t2] =
    Inr [t1\<lparr>tiktok_video_duration := d2\<rparr>, t2\<lparr>tiktok_video_duration := d2\<rparr>]"
proof -
  have c1: "write_check st no_vals t1 = Inr (no_vals\<lparr>wv_duration := Some d1\<rparr>)"
    using assms(1-6) by (simp add: write_check_def current_attachments_def no_vals_def Let_def)
  have c2: "write_check st (no_vals\<lparr>wv_duration := Some d1\<rparr>) t2 = Inr (no_vals\<lparr>wv_duration := Some d2\<rparr>)"
    using assms(7-12) by (simp add: write_check_def current_attachments_def no_vals_def Let_def)
  show ?thesis unfolding write_tasks_def by (simp add: c1 c2) (simp add: apply_vals_def no_vals_def)
qed

subsection \<open>Cancelling does not stop the reconciler\<close>

lemma set_net_post_estado: "set_net r s (t\<lparr>post_estado := p\<rparr>) = (set_net r s t)\<lparr>post_estado := p\<rparr>"
  by (cases r) simp_all

lemma task_post_estado_sel:
  "tipo (t\<lparr>post_estado := p\<rparr>) = tipo t" "imagen_portada (t\<lparr>post_estado := p\<rparr>) = imagen_portada t"
  "fb_video_id (t\<lparr>post_estado := p\<rparr>) = fb_video_id t"
  "partner_facebook_page_id (t\<lparr>post_estado := p\<rparr>) = partner_facebook_page_id t"
  by simp_all

lemma fb_stages_post_estado:
  "fb_feed_stage c r (t\<lparr>post_estado := p\<rparr>) = fb_feed_stage c r t"
  "fb_stories_stage c (t\<lparr>post_estado := p\<rparr>) = fb_stories_stage c t"
  "fb_reel_publish_stage r (t\<lparr>post_estado := p\<rparr>) = fb_reel_publish_stage r t"
  "fb_reels_stage c r (t\<lparr>post_estado := p\<rparr>) = fb_reels_stage c r t"
  unfolding fb_feed_stage_def fb_stories_stage_def fb_reel_publish_stage_def fb_reels_stage_def task_post_estado_sel
  by (rule refl)+

lemma facebook_flow_post_estado: "facebook_flow c r (t\<lparr>post_estado := p\<rparr>) = facebook_flow c r t"
  by (rule ext) (simp only: facebook_flow_def fb_stages_post_estado)

lemma lift_net_blind: "post_estado_blind (lift_net r f)"
  by (simp add: post_estado_blind_def lift_net_eq set_net_post_estado)

lemma flows_blind:
  "post_estado_blind (run_facebook_flow c fr)" "post_estado_blind (run_instagram_flow c ir)"
  "post_estado_blind (run_tiktok_flow c tr)" "post_estado_blind (run_linkedin_flow c)"
proof -
  have "run_instagram_flow c ir = lift_net Instagram (instagram_flow c ir)"
    "run_tiktok_flow c tr = lift_net TikTok (tiktok_flow c tr)"
    "run_linkedin_flow c = lift_net LinkedIn (linkedin_flow c)"
    by (rule ext; simp add: run_instagram_flow_def run_tiktok_flow_def run_linkedin_flow_def)+
  then show "post_estado_blind (run_instagram_flow c ir)" "post_estado_blind (run_tiktok_flow c tr)"
    "post_estado_blind (run_linkedin_flow c)" by (simp_all only: lift_net_blind)
  show "post_estado_blind (run_facebook_flow c fr)"
    unfolding post_estado_blind_def run_facebook_flow_def facebook_flow_post_estado
    using lift_net_blind [unfolded post_estado_blind_def] by blast
qed

lemma run_when_blind:
  "post_estado_blind f \<Longrightarrow>
   run_when sel f (x, t\<lparr>post_estado := p\<rparr>) = (fst (run_when sel f (x, t)), (snd (run_when sel f (x, t)))\<lparr>post_estado := p\<rparr>)"
  by (cases x) (auto simp: post_estado_blind_def split: prod.split sum.split)

lemma selected_post_estado [simp]: "selected (t\<lparr>post_estado := p\<rparr>) r = selected t r"
  by (simp add: selected_def)

lemma revisar_record_chain_blind:
  "run_when (selected t LinkedIn) (run_linkedin_flow c)
     (run_when (selected t TikTok) (run_tiktok_flow c (rm_tt r))
       (run_when (selected t Instagram) (run_instagram_flow c (rm_ig r))
         (run_when (selected t Facebook) (run_facebook_flow c (rm_fb r)) (Inr (), t\<lparr>post_estado := p\<rparr>)))) =
   (let x = run_when (selected t LinkedIn) (run_linkedin_flow c)
     (run_when (selected t TikTok) (run_tiktok_flow c (rm_tt r))
       (run_when (selected t Instagram) (run_instagram_flow c (rm_ig r))
         (run_when (selected t Facebook) (run_facebook_flow c (rm_fb r)) (Inr (), t))))
    in (fst x, (snd x)\<lparr>post_estado := p\<rparr>))"
  by (simp only: run_when_blind [OF flows_blind(1)] run_when_blind [OF flows_blind(2)]
      run_when_blind [OF flows_blind(3)] run_when_blind [OF flows_blind(4)] prod.collapse Let_def)

lemma revisar_global_nets [simp]: "net q (revisar_global t) = net q t"
  by (simp add: revisar_global_def Let_def)

text \<open>C14: cancelar_post only resets post_estado, so a cancelled task is reconciled exactly as before: the reconciliation returns the same result and leaves every network in the same state.\<close>

theorem cancelar_post_keeps_reconciling:
  "fst (revisar_record c r (cancelar_post t)) = fst (revisar_record c r t) \<and>
   net q (snd (revisar_record c r (cancelar_post t))) = net q (snd (revisar_record c r t))"
proof -
  define ch where "ch = (\<lambda>u. run_when (selected t LinkedIn) (run_linkedin_flow c)
     (run_when (selected t TikTok) (run_tiktok_flow c (rm_tt r))
       (run_when (selected t Instagram) (run_instagram_flow c (rm_ig r))
         (run_when (selected t Facebook) (run_facebook_flow c (rm_fb r)) (Inr (), u)))))"
  have sel: "selected (cancelar_post t) = selected t"
    by (rule ext) (simp add: cancelar_post_def)
  have rr: "revisar_record c r u =
      (case ch u of (Inl e, t') \<Rightarrow> (Inl e, t') | (Inr _, t') \<Rightarrow> (Inr (), revisar_global t'))"
    if "selected u = selected t" for u
    using that unfolding revisar_record_def ch_def by simp
  have "ch (cancelar_post t) = (fst (ch t), (snd (ch t))\<lparr>post_estado := ''Pendiente''\<rparr>)"
    unfolding ch_def cancelar_post_def by (rule revisar_record_chain_blind [unfolded Let_def])
  then show ?thesis
    using rr [OF sel] rr [OF refl] by (cases "ch t") (auto split: sum.split)
qed

theorem programar_post_not_approved:
  assumes "task_state (w_task w) \<noteq> ''03_approved''"
  shows "odoo_button programar_post w =
    (Inl (ValidationError (''Ocurri'' @ acute_o @ '' un error inesperado. Revisa la notificaci'' @ acute_o @ ''n.'')),
     w\<lparr>w_mails := w_mails w @ [Mail ''programar_post''
        (''El estado de la Tarea debe ser '' @ py_quote ''Aprobado'' @ '' para poder programar el post.'')]\<rparr>)"
  using assms by (simp add: odoo_button_def programar_post_def Let_def)

end
