(* ===== verification/Dates.thy ===== *)
theory Dates
  imports Prelude
begin

text \<open>
  The calendar arithmetic the subscription contracts rely on: Python's
  \<open>datetime.date\<close> (proleptic Gregorian, years 1 to 9999) and the part of
  \<open>dateutil.relativedelta\<close> that \<open>subscription_contracts.py\<close> uses
  (\<open>days\<close>, \<open>weeks\<close>, \<open>months\<close>, \<open>years\<close>). Neither library is part of the
  repository; both are written here from their documented behaviour:
  \<^item> \<open>date + timedelta(days=k)\<close> is the date \<open>k\<close> days later, and raises
    \<open>OverflowError("date value out of range")\<close> past 9999-12-31 or before
    0001-01-01;
  \<^item> \<open>date + relativedelta(months=n)\<close> first normalises \<open>n\<close> into years and
    months of the same sign (\<open>_fix\<close>), adds the years, adds the months with one
    carry, clips the day to the length of the target month, and
    \<open>date.replace\<close> raises \<open>ValueError("year Y is out of range")\<close> when the
    year leaves 1..9999; \<open>years=n\<close> is the same with no months.
  \<^item> \<open>timedelta(days=k)\<close> itself raises \<open>OverflowError\<close> when \<open>|k|\<close>
    exceeds 999999999.
  Adding \<open>k\<close> days is \<open>k\<close> steps of one day, which \<open>to_ordinal\<close>
  (\<open>date.toordinal\<close>) shows to be the ordinal arithmetic of CPython; the
  lemmas prove it, the bounds of the calendar, and that \<open>relativedelta\<close>
  on months and years is a shift in the month count \<open>12 * year + month\<close>
  with the day clipped.
\<close>

record date =
  d_year :: int
  d_month :: int
  d_day :: int

definition is_leap :: "int \<Rightarrow> bool" where
  "is_leap y = (y mod 4 = 0 \<and> (y mod 100 \<noteq> 0 \<or> y mod 400 = 0))"

definition days_in_month :: "int \<Rightarrow> int \<Rightarrow> int" where
  "days_in_month y m =
     (if m = 2 then (if is_leap y then 29 else 28)
      else if m = 4 \<or> m = 6 \<or> m = 9 \<or> m = 11 then 30 else 31)"

definition valid_date :: "date \<Rightarrow> bool" where
  "valid_date d =
     (1 \<le> d_year d \<and> d_year d \<le> 9999 \<and> 1 \<le> d_month d \<and> d_month d \<le> 12 \<and>
      1 \<le> d_day d \<and> d_day d \<le> days_in_month (d_year d) (d_month d))"

text \<open>\<open>date.__le__\<close>: the order of \<open>(year, month, day)\<close>.\<close>

definition date_le :: "date \<Rightarrow> date \<Rightarrow> bool" where
  "date_le a b =
     (d_year a < d_year b \<or> d_year a = d_year b \<and> (d_month a < d_month b \<or> d_month a = d_month b \<and> d_day a \<le> d_day b))"

definition mk_date :: "int \<Rightarrow> int \<Rightarrow> int \<Rightarrow> date" where
  "mk_date y m d = \<lparr>d_year = y, d_month = m, d_day = d\<rparr>"

section \<open>Days\<close>

definition next_day :: "date \<Rightarrow> date" where
  "next_day d =
     (if d_day d < days_in_month (d_year d) (d_month d) then d\<lparr>d_day := d_day d + 1\<rparr>
      else if d_month d < 12 then d\<lparr>d_month := d_month d + 1, d_day := 1\<rparr>
      else mk_date (d_year d + 1) 1 1)"

definition prev_day :: "date \<Rightarrow> date" where
  "prev_day d =
     (if 1 < d_day d then d\<lparr>d_day := d_day d - 1\<rparr>
      else if 1 < d_month d then d\<lparr>d_month := d_month d - 1, d_day := days_in_month (d_year d) (d_month d - 1)\<rparr>
      else mk_date (d_year d - 1) 12 31)"

definition date_overflow :: exc where
  "date_overflow = OverflowError ''date value out of range''"

fun days_fwd :: "nat \<Rightarrow> date \<Rightarrow> exc + date" where
  "days_fwd 0 d = Inr d"
| "days_fwd (Suc n) d = (if 9999 < d_year (next_day d) then Inl date_overflow else days_fwd n (next_day d))"

fun days_bwd :: "nat \<Rightarrow> date \<Rightarrow> exc + date" where
  "days_bwd 0 d = Inr d"
| "days_bwd (Suc n) d = (if d_year (prev_day d) < 1 then Inl date_overflow else days_bwd n (prev_day d))"

text \<open>\<open>date + timedelta(days=k)\<close>.\<close>

definition add_days :: "int \<Rightarrow> date \<Rightarrow> exc + date" where
  "add_days k d = (if 0 \<le> k then days_fwd (nat k) d else days_bwd (nat (- k)) d)"

text \<open>\<open>date.toordinal()\<close>: 0001-01-01 is day 1.\<close>

definition days_before_year :: "int \<Rightarrow> int" where
  "days_before_year y = (let z = y - 1 in 365 * z + z div 4 - z div 100 + z div 400)"

definition days_before_month :: "int \<Rightarrow> int \<Rightarrow> int" where
  "days_before_month y m = sum_list (map (\<lambda>i. days_in_month y (int i)) [1..<nat m])"

definition to_ordinal :: "date \<Rightarrow> int" where
  "to_ordinal d = days_before_year (d_year d) + days_before_month (d_year d) (d_month d) + d_day d"

text \<open>\<open>date.max.toordinal()\<close>, the ordinal of 9999-12-31.\<close>

definition max_ordinal :: int where
  "max_ordinal = 3652059"

section \<open>\<open>relativedelta\<close>\<close>

datatype rdelta = Rd_Days int | Rd_Weeks int | Rd_Months int | Rd_Years int

text \<open>\<open>relativedelta._fix\<close> on the months: more than eleven carry into years, with the sign kept.\<close>

definition rd_fix_months :: "int \<Rightarrow> int \<times> int" where
  "rd_fix_months n =
     (if 11 < \<bar>n\<bar> then (let s = sgn n in ((n * s) div 12 * s, (n * s) mod 12 * s)) else (0, n))"

text \<open>\<open>relativedelta.__add__\<close> for whole years and months, then \<open>date.replace\<close>.\<close>

definition add_years_months :: "int \<Rightarrow> int \<Rightarrow> date \<Rightarrow> exc + date" where
  "add_years_months yrs ms d =
     (let y0 = d_year d + yrs;
          (y, m) = (if ms = 0 then (y0, d_month d)
                    else (let m1 = d_month d + ms in
                          if 12 < m1 then (y0 + 1, m1 - 12) else if m1 < 1 then (y0 - 1, m1 + 12) else (y0, m1)));
          dd = min (days_in_month y m) (d_day d)
      in if y < 1 \<or> 9999 < y then Inl (ValueError (''year '' @ int_str y @ '' is out of range''))
         else Inr (mk_date y m dd))"

text \<open>\<open>datetime.timedelta(days=k)\<close>: the constructor bounds the days.\<close>

definition timedelta_days :: "int \<Rightarrow> exc + int" where
  "timedelta_days k =
     (if 999999999 < \<bar>k\<bar> then Inl (OverflowError (''days='' @ int_str k @ ''; must have magnitude <= 999999999''))
      else Inr k)"

definition add_timedelta :: "int \<Rightarrow> date \<Rightarrow> exc + date" where
  "add_timedelta k d = (case timedelta_days k of Inl e \<Rightarrow> Inl e | Inr k' \<Rightarrow> add_days k' d)"

fun rd_add :: "rdelta \<Rightarrow> date \<Rightarrow> exc + date" where
  "rd_add (Rd_Days k) d = add_timedelta k d"
| "rd_add (Rd_Weeks k) d = add_timedelta (7 * k) d"
| "rd_add (Rd_Months k) d = (case rd_fix_months k of (yrs, ms) \<Rightarrow> add_years_months yrs ms d)"
| "rd_add (Rd_Years k) d = add_years_months k 0 d"

text \<open>The reference: move by \<open>k\<close> months in the count \<open>12 * year + month - 1\<close>, clip the day.\<close>

definition shift_months :: "int \<Rightarrow> date \<Rightarrow> exc + date" where
  "shift_months k d =
     (let t = 12 * d_year d + (d_month d - 1) + k; y = t div 12; m = t mod 12 + 1
      in if y < 1 \<or> 9999 < y then Inl (ValueError (''year '' @ int_str y @ '' is out of range''))
         else Inr (mk_date y m (min (days_in_month y m) (d_day d))))"

text \<open>
  The ordinal of the day before the first day of month number \<open>n\<close>,
  counting months as \<open>12 * year + (month - 1)\<close>, and the signed amount of
  a delta; both serve the lemmas.
\<close>

definition month_start :: "int \<Rightarrow> int" where
  "month_start n = days_before_year (n div 12) + days_before_month (n div 12) (n mod 12 + 1)"

fun rd_amount :: "rdelta \<Rightarrow> int" where
  "rd_amount (Rd_Days k) = k"
| "rd_amount (Rd_Weeks k) = k"
| "rd_amount (Rd_Months k) = k"
| "rd_amount (Rd_Years k) = k"

section \<open>Lemmas\<close>

subsection \<open>Ordinals\<close>

lemma div_step: "1 < k \<Longrightarrow> y div k = (y - 1) div k + (if y mod k = 0 then 1 else 0)" for y k :: int
proof -
  assume k: "1 < k"
  have "y div k = ((y - 1) + 1) div k" by simp
  also have "\<dots> = (y - 1) div k + 1 div k + ((y - 1) mod k + 1 mod k) div k"
    by (rule div_add1_eq)
  also have "\<dots> = (y - 1) div k + ((y - 1) mod k + 1) div k"
    using k by simp
  also have "((y - 1) mod k + 1) div k = (if y mod k = 0 then 1 else 0)"
  proof -
    define x where "x = (y - 1) mod k"
    have b: "0 \<le> x" "x < k" using k by (simp_all add: x_def)
    have m: "y mod k = (x + 1) mod k" by (simp add: x_def mod_add_left_eq)
    show ?thesis
    proof (cases "x + 1 = k")
      case True
      then show ?thesis using m k by (simp add: x_def)
    next
      case False
      with b have "0 \<le> x + 1" "x + 1 < k" by simp_all
      then have "(x + 1) div k = 0" "(x + 1) mod k = x + 1" by (simp_all add: div_pos_pos_trivial mod_pos_pos_trivial)
      then show ?thesis using m b by (simp add: x_def)
    qed
  qed
  finally show ?thesis .
qed

lemma days_before_year_succ:
  "days_before_year (y + 1) = days_before_year y + 365 + (if is_leap y then 1 else 0)"
proof -
  have a: "y div 4 = (y - 1) div 4 + (if y mod 4 = 0 then 1 else 0)"
    and b: "y div 100 = (y - 1) div 100 + (if y mod 100 = 0 then 1 else 0)"
    and c: "y div 400 = (y - 1) div 400 + (if y mod 400 = 0 then 1 else 0)"
    by (rule div_step; simp)+
  have d: "y mod 400 = 0 \<Longrightarrow> y mod 100 = 0" "y mod 100 = 0 \<Longrightarrow> y mod 4 = 0"
    by (simp_all add: mod_eq_0_iff_dvd dvd_trans [of 100 400 y] dvd_trans [of 4 100 y])
  have e: "days_before_year (y + 1) = 365 * y + y div 4 - y div 100 + y div 400"
    "days_before_year y = 365 * (y - 1) + (y - 1) div 4 - (y - 1) div 100 + (y - 1) div 400"
    by (simp_all add: days_before_year_def Let_def)
  show ?thesis unfolding e is_leap_def a b c
    using d by (cases "y mod 4 = 0"; cases "y mod 100 = 0"; cases "y mod 400 = 0") simp_all
qed

lemma days_before_month_succ:
  "1 \<le> m \<Longrightarrow> days_before_month y (m + 1) = days_before_month y m + days_in_month y m"
proof -
  assume "1 \<le> m"
  then have "nat (m + 1) = Suc (nat m)" "1 \<le> nat m" "int (nat m) = m" by simp_all
  then show ?thesis by (simp add: days_before_month_def)
qed

lemma days_before_month_1 [simp]: "days_before_month y 1 = 0"
  by (simp add: days_before_month_def)

lemma days_before_month_12: "days_before_month y 12 = 334 + (if is_leap y then 1 else 0)"
  by (simp add: days_before_month_def days_in_month_def upt_rec)

lemma days_in_month_bounds: "28 \<le> days_in_month y m" "days_in_month y m \<le> 31"
  by (simp_all add: days_in_month_def)

lemma to_ordinal_next_day:
  assumes "valid_date d"
  shows "to_ordinal (next_day d) = to_ordinal d + 1"
proof -
  consider "d_day d < days_in_month (d_year d) (d_month d)"
    | "\<not> d_day d < days_in_month (d_year d) (d_month d)" "d_month d < 12"
    | "\<not> d_day d < days_in_month (d_year d) (d_month d)" "\<not> d_month d < 12" by blast
  then show ?thesis
  proof cases
    case 1
    then show ?thesis by (simp add: next_day_def to_ordinal_def)
  next
    case 2
    with assms have "d_day d = days_in_month (d_year d) (d_month d)" "1 \<le> d_month d"
      by (simp_all add: valid_date_def)
    with 2 show ?thesis by (simp add: next_day_def to_ordinal_def days_before_month_succ)
  next
    case 3
    with assms have "d_month d = 12" "d_day d = 31"
      by (simp_all add: valid_date_def days_in_month_def)
    with 3 show ?thesis
      by (simp add: next_day_def to_ordinal_def mk_date_def days_before_year_succ days_before_month_12)
  qed
qed

lemma valid_next_day:
  "valid_date d \<Longrightarrow> d_year (next_day d) \<le> 9999 \<Longrightarrow> valid_date (next_day d)"
  by (auto simp: valid_date_def next_day_def mk_date_def days_in_month_def split: if_splits)

lemma days_before_month_pred:
  "1 < m \<Longrightarrow> days_before_month y m = days_before_month y (m - 1) + days_in_month y (m - 1)"
  using days_before_month_succ [of "m - 1" y] by simp

lemma to_ordinal_prev_day:
  assumes "valid_date d"
  shows "to_ordinal (prev_day d) = to_ordinal d - 1"
proof -
  consider "1 < d_day d" | "\<not> 1 < d_day d" "1 < d_month d" | "\<not> 1 < d_day d" "\<not> 1 < d_month d" by blast
  then show ?thesis
  proof cases
    case 1
    then show ?thesis by (simp add: prev_day_def to_ordinal_def)
  next
    case 2
    with assms have "d_day d = 1" by (simp add: valid_date_def)
    with 2 show ?thesis by (simp add: prev_day_def to_ordinal_def days_before_month_pred)
  next
    case 3
    with assms have "d_month d = 1" "d_day d = 1" by (simp_all add: valid_date_def)
    moreover have "days_before_year (d_year d) = days_before_year (d_year d - 1) + 365 + (if is_leap (d_year d - 1) then 1 else 0)"
      using days_before_year_succ [of "d_year d - 1"] by simp
    ultimately show ?thesis using 3
      by (simp add: prev_day_def to_ordinal_def mk_date_def days_before_month_12 days_in_month_def)
  qed
qed

lemma valid_prev_day:
  "valid_date d \<Longrightarrow> 1 \<le> d_year (prev_day d) \<Longrightarrow> valid_date (prev_day d)"
  by (auto simp: valid_date_def prev_day_def mk_date_def days_in_month_def split: if_splits)

lemma days_before_year_mono: "a \<le> b \<Longrightarrow> days_before_year a \<le> days_before_year b"
proof (induction b rule: int_ge_induct)
  case (step i)
  then show ?case using days_before_year_succ [of i] by simp
qed simp

lemma month_end_bound:
  "1 \<le> m \<Longrightarrow> m \<le> 12 \<Longrightarrow> days_before_month y m + days_in_month y m \<le> 365 + (if is_leap y then 1 else 0)"
proof -
  assume "1 \<le> m" "m \<le> 12"
  then have "m = 1 \<or> m = 2 \<or> m = 3 \<or> m = 4 \<or> m = 5 \<or> m = 6 \<or> m = 7 \<or> m = 8 \<or> m = 9 \<or> m = 10 \<or> m = 11 \<or> m = 12"
    by presburger
  then show ?thesis by (elim disjE) (simp_all add: days_before_month_def days_in_month_def upt_rec)
qed

lemma days_before_month_nonneg: "0 \<le> days_before_month y m"
  unfolding days_before_month_def by (induction "[1..<nat m]") (auto intro!: sum_list_nonneg simp: days_in_month_def)

lemma to_ordinal_bounds:
  assumes "valid_date d"
  shows "1 \<le> to_ordinal d" "to_ordinal d \<le> max_ordinal"
proof -
  from assms have y: "1 \<le> d_year d" "d_year d \<le> 9999" and m: "1 \<le> d_month d" "d_month d \<le> 12"
    and dd: "1 \<le> d_day d" "d_day d \<le> days_in_month (d_year d) (d_month d)"
    by (simp_all add: valid_date_def)
  have "days_before_year 1 \<le> days_before_year (d_year d)" using y(1) by (rule days_before_year_mono)
  then show "1 \<le> to_ordinal d"
    using dd days_before_month_nonneg [of "d_year d" "d_month d"] by (simp add: to_ordinal_def days_before_year_def)
  have "to_ordinal d \<le> days_before_year (d_year d + 1)"
    using month_end_bound [OF m, of "d_year d"] dd days_before_year_succ [of "d_year d"] by (simp add: to_ordinal_def)
  also have "\<dots> \<le> days_before_year 10000" using y by (intro days_before_year_mono) simp
  finally show "to_ordinal d \<le> max_ordinal" by (simp add: days_before_year_def max_ordinal_def)
qed

lemma next_day_overflow:
  assumes "valid_date d" "9999 < d_year (next_day d)"
  shows "to_ordinal d = max_ordinal"
proof -
  from assms have "d = mk_date 9999 12 31"
    by (auto simp: valid_date_def next_day_def mk_date_def days_in_month_def split: if_splits)
  then show ?thesis
    by (simp add: to_ordinal_def mk_date_def days_before_year_def days_before_month_def days_in_month_def
        is_leap_def upt_rec max_ordinal_def)
qed

lemma prev_day_overflow:
  assumes "valid_date d" "d_year (prev_day d) < 1"
  shows "to_ordinal d = 1"
proof -
  from assms have "d = mk_date 1 1 1"
    by (auto simp: valid_date_def prev_day_def mk_date_def split: if_splits)
  then show ?thesis by (simp add: to_ordinal_def mk_date_def days_before_year_def)
qed

lemma days_fwd_Inr:
  "valid_date d \<Longrightarrow> days_fwd n d = Inr d' \<Longrightarrow> valid_date d' \<and> to_ordinal d' = to_ordinal d + int n"
proof (induction n arbitrary: d)
  case (Suc n)
  then have y: "d_year (next_day d) \<le> 9999" by (auto split: if_splits)
  with Suc.prems have "days_fwd n (next_day d) = Inr d'" by simp
  with Suc.IH [OF valid_next_day [OF Suc.prems(1) y]] show ?case
    using to_ordinal_next_day [OF Suc.prems(1)] by simp
qed simp

lemma days_bwd_Inr:
  "valid_date d \<Longrightarrow> days_bwd n d = Inr d' \<Longrightarrow> valid_date d' \<and> to_ordinal d' = to_ordinal d - int n"
proof (induction n arbitrary: d)
  case (Suc n)
  then have y: "1 \<le> d_year (prev_day d)" by (auto split: if_splits)
  with Suc.prems have "days_bwd n (prev_day d) = Inr d'" by simp
  with Suc.IH [OF valid_prev_day [OF Suc.prems(1) y]] show ?case
    using to_ordinal_prev_day [OF Suc.prems(1)] by simp
qed simp

lemma days_fwd_defined:
  "valid_date d \<Longrightarrow> (\<exists>d'. days_fwd n d = Inr d') \<longleftrightarrow> to_ordinal d + int n \<le> max_ordinal"
proof (induction n arbitrary: d)
  case 0
  then show ?case using to_ordinal_bounds by simp
next
  case (Suc n)
  show ?case
  proof (cases "9999 < d_year (next_day d)")
    case True
    then show ?thesis using next_day_overflow [OF Suc.prems] by simp
  next
    case False
    then have "valid_date (next_day d)" using Suc.prems valid_next_day by simp
    then have "(\<exists>d'. days_fwd n (next_day d) = Inr d') \<longleftrightarrow> to_ordinal d + 1 + int n \<le> max_ordinal"
      using Suc.IH [of "next_day d"] to_ordinal_next_day [OF Suc.prems] by simp
    then show ?thesis using False by (simp add: add.assoc)
  qed
qed

lemma days_bwd_defined:
  "valid_date d \<Longrightarrow> (\<exists>d'. days_bwd n d = Inr d') \<longleftrightarrow> 1 \<le> to_ordinal d - int n"
proof (induction n arbitrary: d)
  case 0
  then show ?case using to_ordinal_bounds by simp
next
  case (Suc n)
  show ?case
  proof (cases "d_year (prev_day d) < 1")
    case True
    then show ?thesis using prev_day_overflow [OF Suc.prems] by simp
  next
    case False
    then have "valid_date (prev_day d)" using Suc.prems valid_prev_day by simp
    then have "(\<exists>d'. days_bwd n (prev_day d) = Inr d') \<longleftrightarrow> 1 \<le> to_ordinal d - 1 - int n"
      using Suc.IH [of "prev_day d"] to_ordinal_prev_day [OF Suc.prems] by simp
    then show ?thesis using False by (simp add: algebra_simps)
  qed
qed

lemma add_days_ordinal:
  "valid_date d \<Longrightarrow> add_days k d = Inr d' \<Longrightarrow> valid_date d' \<and> to_ordinal d' = to_ordinal d + k"
  unfolding add_days_def
  by (cases "0 \<le> k") (auto dest: days_fwd_Inr days_bwd_Inr)

lemma add_days_in_range:
  "valid_date d \<Longrightarrow> (\<exists>d'. add_days k d = Inr d') \<longleftrightarrow> 1 \<le> to_ordinal d + k \<and> to_ordinal d + k \<le> max_ordinal"
  unfolding add_days_def
  using days_fwd_defined [of d "nat k"] days_bwd_defined [of d "nat (- k)"] to_ordinal_bounds [of d]
  by (cases "0 \<le> k") auto

subsection \<open>Months and years\<close>

lemma rd_fix_months_sum:
  assumes "rd_fix_months k = (a, b)"
  shows "k = 12 * a + b" "\<bar>b\<bar> \<le> 11"
proof -
  have "k = 12 * a + b \<and> \<bar>b\<bar> \<le> 11"
  proof (cases "11 < \<bar>k\<bar>")
    case True
    show ?thesis
    proof (cases "0 < k")
      case True
      with \<open>11 < \<bar>k\<bar>\<close> assms have "a = k div 12" "b = k mod 12" by (simp_all add: rd_fix_months_def)
      then show ?thesis by simp
    next
      case False
      with \<open>11 < \<bar>k\<bar>\<close> assms have "a = - ((- k) div 12)" "b = - ((- k) mod 12)" by (simp_all add: rd_fix_months_def)
      moreover have "- k = 12 * ((- k) div 12) + (- k) mod 12" by simp
      moreover have "0 \<le> (- k) mod 12" "(- k) mod 12 < 12" by simp_all
      ultimately show ?thesis by linarith
    qed
  next
    case False
    with assms show ?thesis by (simp add: rd_fix_months_def)
  qed
  then show "k = 12 * a + b" "\<bar>b\<bar> \<le> 11" by simp_all
qed

lemma month_count_unique:
  fixes y m t :: int
  assumes "12 * y + (m - 1) = t" "1 \<le> m" "m \<le> 12"
  shows "t div 12 = y" "t mod 12 + 1 = m"
proof -
  have r: "0 \<le> m - 1" "m - 1 < 12" using assms by simp_all
  have "t div 12 = y + (m - 1) div 12" using assms(1) by auto
  then show "t div 12 = y" using r by simp
  have "t mod 12 = (m - 1) mod 12" using assms(1) by auto
  then show "t mod 12 + 1 = m" using r by simp
qed

lemma carry_month:
  fixes y m ms :: int
  assumes "1 \<le> m" "m \<le> 12" "\<bar>ms\<bar> \<le> 11"
  defines "m1 \<equiv> m + ms"
  defines "ym \<equiv> (if ms = 0 then (y, m)
                  else if 12 < m1 then (y + 1, m1 - 12) else if m1 < 1 then (y - 1, m1 + 12) else (y, m1))"
  shows "12 * fst ym + (snd ym - 1) = 12 * y + (m - 1) + ms" "1 \<le> snd ym" "snd ym \<le> 12"
  using assms unfolding ym_def m1_def by auto

lemma add_years_months_shift:
  assumes "valid_date d" "\<bar>ms\<bar> \<le> 11"
  shows "add_years_months yrs ms d = shift_months (12 * yrs + ms) d"
proof -
  have m: "1 \<le> d_month d" "d_month d \<le> 12" using assms(1) by (simp_all add: valid_date_def)
  define m1 where "m1 = d_month d + ms"
  define ym where "ym = (if ms = 0 then (d_year d + yrs, d_month d)
       else if 12 < m1 then (d_year d + yrs + 1, m1 - 12) else if m1 < 1 then (d_year d + yrs - 1, m1 + 12)
       else (d_year d + yrs, m1))"
  have c: "12 * fst ym + (snd ym - 1) = 12 * (d_year d + yrs) + (d_month d - 1) + ms" "1 \<le> snd ym" "snd ym \<le> 12"
    using carry_month [OF m assms(2), of "d_year d + yrs"] unfolding ym_def m1_def by simp_all
  have t: "12 * d_year d + (d_month d - 1) + (12 * yrs + ms) = 12 * fst ym + (snd ym - 1)"
    using c(1) by simp
  have u: "(12 * d_year d + (d_month d - 1) + (12 * yrs + ms)) div 12 = fst ym"
          "(12 * d_year d + (d_month d - 1) + (12 * yrs + ms)) mod 12 + 1 = snd ym"
    using month_count_unique [OF t [symmetric] c(2,3)] by simp_all
  have "add_years_months yrs ms d =
        (if fst ym < 1 \<or> 9999 < fst ym then Inl (ValueError (''year '' @ int_str (fst ym) @ '' is out of range''))
         else Inr (mk_date (fst ym) (snd ym) (min (days_in_month (fst ym) (snd ym)) (d_day d))))"
    unfolding add_years_months_def ym_def m1_def Let_def by (simp add: prod.case_eq_if)
  also have "\<dots> = shift_months (12 * yrs + ms) d"
    unfolding shift_months_def Let_def u ..
  finally show ?thesis .
qed

lemma rd_add_months_shift:
  "valid_date d \<Longrightarrow> rd_add (Rd_Months k) d = shift_months k d"
proof -
  assume v: "valid_date d"
  obtain a b where ab: "rd_fix_months k = (a, b)" by (cases "rd_fix_months k")
  show ?thesis
    using add_years_months_shift [OF v rd_fix_months_sum(2) [OF ab], of a] rd_fix_months_sum(1) [OF ab] ab
    by simp
qed

lemma rd_add_years_shift:
  "valid_date d \<Longrightarrow> rd_add (Rd_Years k) d = shift_months (12 * k) d"
  using add_years_months_shift [of d 0 k] by simp

lemma shift_months_valid:
  assumes "valid_date d" "shift_months k d = Inr d'"
  shows "valid_date d' \<and> d_day d' \<le> d_day d \<and>
         12 * d_year d' + d_month d' = 12 * d_year d + d_month d + k"
proof -
  define t where "t = 12 * d_year d + (d_month d - 1) + k"
  have r: "0 \<le> t mod 12" "t mod 12 < 12" by simp_all
  have d': "d' = mk_date (t div 12) (t mod 12 + 1) (min (days_in_month (t div 12) (t mod 12 + 1)) (d_day d))"
    and y: "1 \<le> t div 12" "t div 12 \<le> 9999"
    using assms(2) unfolding shift_months_def t_def Let_def by (auto split: if_splits)
  have "1 \<le> days_in_month (t div 12) (t mod 12 + 1)" by (simp add: days_in_month_def)
  moreover have "1 \<le> d_day d" using assms(1) by (simp add: valid_date_def)
  moreover have "12 * (t div 12) + (t mod 12 + 1) = t + 1" by simp
  ultimately show ?thesis
    using r y unfolding d' mk_date_def valid_date_def t_def by simp
qed

lemma month_start_succ:
  "month_start (n + 1) = month_start n + days_in_month (n div 12) (n mod 12 + 1)"
proof (cases "n mod 12 = 11")
  case True
  have "12 * (n div 12 + 1) + (1 - 1) = n + 1" using True div_mult_mod_eq [of n 12] by (simp add: distrib_left)
  from month_count_unique [OF this] have "(n + 1) div 12 = n div 12 + 1" "(n + 1) mod 12 + 1 = 1" by simp_all
  then show ?thesis using True days_before_year_succ [of "n div 12"]
    by (simp add: month_start_def days_before_month_12 days_in_month_def)
next
  case False
  have r: "0 \<le> n mod 12" "n mod 12 < 12" by simp_all
  with False have "12 * (n div 12) + ((n mod 12 + 2) - 1) = n + 1" "1 \<le> n mod 12 + 2" "n mod 12 + 2 \<le> 12"
    using div_mult_mod_eq [of n 12] by linarith+
  from month_count_unique [OF this] have "(n + 1) div 12 = n div 12" "(n + 1) mod 12 + 1 = n mod 12 + 2" by simp_all
  then show ?thesis using days_before_month_succ [of "n mod 12 + 1" "n div 12"] r
    by (simp add: month_start_def ac_simps)
qed

lemma month_start_mono: "a \<le> b \<Longrightarrow> month_start a \<le> month_start b"
proof (induction b rule: int_ge_induct)
  case (step i)
  then show ?case using month_start_succ [of i] days_in_month_bounds(1) [of "i div 12" "i mod 12 + 1"] by simp
qed simp

lemma to_ordinal_month_start:
  assumes "valid_date d"
  shows "to_ordinal d = month_start (12 * d_year d + (d_month d - 1)) + d_day d"
proof -
  have "12 * d_year d + (d_month d - 1) = 12 * d_year d + (d_month d - 1)" "1 \<le> d_month d" "d_month d \<le> 12"
    using assms by (simp_all add: valid_date_def)
  from month_count_unique [OF this]
  show ?thesis by (simp add: month_start_def to_ordinal_def)
qed

lemma to_ordinal_month_less:
  assumes "valid_date a" "valid_date b" "12 * d_year a + d_month a < 12 * d_year b + d_month b"
  shows "to_ordinal a < to_ordinal b"
proof -
  define na where "na = 12 * d_year a + (d_month a - 1)"
  define nb where "nb = 12 * d_year b + (d_month b - 1)"
  have "12 * (na div 12) + (na mod 12 + 1 - 1) = na" "1 \<le> na mod 12 + 1" "na mod 12 + 1 \<le> 12" by simp_all
  have "na div 12 = d_year a" "na mod 12 + 1 = d_month a"
    using month_count_unique [of "d_year a" "d_month a" na] assms(1) unfolding na_def valid_date_def by simp_all
  then have "to_ordinal a \<le> month_start (na + 1)"
    using month_start_succ [of na] to_ordinal_month_start [OF assms(1)] assms(1)
    unfolding na_def valid_date_def by simp
  also have "\<dots> \<le> month_start nb" using assms(3) unfolding na_def nb_def by (intro month_start_mono) simp
  also have "\<dots> < to_ordinal b"
    using to_ordinal_month_start [OF assms(2)] assms(2) unfolding nb_def valid_date_def by simp
  finally show ?thesis .
qed

subsection \<open>\<open>relativedelta\<close> on a valid date\<close>

lemma add_timedelta_ordinal:
  "valid_date d \<Longrightarrow> add_timedelta k d = Inr d' \<Longrightarrow> valid_date d' \<and> to_ordinal d' = to_ordinal d + k"
  unfolding add_timedelta_def timedelta_days_def by (auto split: if_splits dest: add_days_ordinal)

lemma add_timedelta_in_range:
  assumes "valid_date d"
  shows "(\<exists>d'. add_timedelta k d = Inr d') \<longleftrightarrow> 1 \<le> to_ordinal d + k \<and> to_ordinal d + k \<le> max_ordinal"
proof (cases "999999999 < \<bar>k\<bar>")
  case True
  then show ?thesis using to_ordinal_bounds [OF assms]
    by (simp add: add_timedelta_def timedelta_days_def max_ordinal_def) linarith
next
  case False
  then show ?thesis using add_days_in_range [OF assms] by (simp add: add_timedelta_def timedelta_days_def)
qed

lemma shift_months_sign:
  assumes "valid_date d" "shift_months k d = Inr d'"
  shows "(0 < k \<longrightarrow> to_ordinal d < to_ordinal d') \<and> (k < 0 \<longrightarrow> to_ordinal d' < to_ordinal d)"
  using shift_months_valid [OF assms] assms(1) to_ordinal_month_less [of d d'] to_ordinal_month_less [of d' d]
  by auto

lemma rd_add_valid_sign:
  assumes "valid_date d" "rd_add r d = Inr d'"
  shows "valid_date d' \<and> (0 < rd_amount r \<longrightarrow> to_ordinal d < to_ordinal d') \<and>
         (rd_amount r < 0 \<longrightarrow> to_ordinal d' < to_ordinal d)"
proof (cases r)
  case (Rd_Days k)
  then show ?thesis using add_timedelta_ordinal [of d k d'] assms by simp
next
  case (Rd_Weeks k)
  then show ?thesis using add_timedelta_ordinal [of d "7 * k" d'] assms by simp
next
  case (Rd_Months k)
  then have "shift_months k d = Inr d'" using assms rd_add_months_shift by simp
  then show ?thesis using shift_months_valid shift_months_sign assms(1) Rd_Months by simp
next
  case (Rd_Years k)
  then have "shift_months (12 * k) d = Inr d'" using assms rd_add_years_shift by simp
  then show ?thesis using shift_months_valid shift_months_sign [of d "12 * k" d'] assms(1) Rd_Years
    by (simp add: zero_less_mult_iff mult_less_0_iff)
qed

theorem rd_add_days_ordinal:
  "valid_date d \<Longrightarrow> rd_add (Rd_Days k) d = Inr d' \<Longrightarrow> valid_date d' \<and> to_ordinal d' = to_ordinal d + k"
  by (simp add: add_timedelta_ordinal)

theorem rd_add_days_in_range:
  "valid_date d \<Longrightarrow> (\<exists>d'. rd_add (Rd_Days k) d = Inr d') \<longleftrightarrow> 1 \<le> to_ordinal d + k \<and> to_ordinal d + k \<le> max_ordinal"
  by (simp add: add_timedelta_in_range)

theorem relativedelta_month_shift:
  "valid_date d \<Longrightarrow> rd_add (Rd_Months k) d = shift_months k d \<and> rd_add (Rd_Years k) d = shift_months (12 * k) d"
  using rd_add_months_shift rd_add_years_shift by blast

end
