(* ===== verification/Subscriptions.thy ===== *)
theory Subscriptions
  imports Dates
begin

text \<open>
  The subscription contracts of
  \<open>sales_contract_and_recurring_invoices/models/subscription_contracts.py\<close>:
  a contract bills its lines on its next invoice date, either from the
  button \<open>action_generate_invoice\<close> (lines 64--112) or from the daily job
  \<open>subscription_contract_state_change\<close> (lines 185--240), and then moves the
  next invoice date on by its recurring period with \<open>relativedelta\<close>
  (theory \<open>Dates\<close>). A contract is a record; the invoices
  (\<open>account.move\<close>) are a list in creation order, and
  \<open>search_count([('contract_origin', '=', id)])\<close> counts in that list.
  Monetary amounts and quantities are integers (cents, units).
\<close>

section \<open>Contracts\<close>

text \<open>Lines 39--45 and 22--27: the selections \<open>state\<close> and \<open>recurring_period_interval\<close>.\<close>

datatype sc_state = Sc_New | Sc_Ongoing | Sc_Expire_Soon | Sc_Expired | Sc_Cancelled

datatype period_interval = Pi_Days | Pi_Weeks | Pi_Months | Pi_Years

text \<open>The fields of \<open>subscription.contracts.line\<close> the invoices copy.\<close>

record contract_line =
  cl_product :: nat
  cl_description :: string
  cl_qty :: int
  cl_price :: int
  cl_discount :: int
  cl_taxes :: "nat list"
  cl_sub_total :: int

text \<open>
  Lines 17--50: the stored fields of a contract. An unset \<open>Integer\<close> is
  \<open>0\<close>, an unset \<open>Date\<close> or selection is \<open>None\<close>.
\<close>

record contract =
  sc_id :: nat
  sc_partner :: nat
  sc_period :: int
  sc_interval :: "period_interval option"
  sc_next :: "date option"
  sc_date_start :: "date option"
  sc_date_end :: "date option"
  sc_invoice_count :: nat
  sc_current_reference :: nat
  sc_lock :: bool
  sc_state :: sc_state
  sc_lines :: "contract_line list"
  sc_invoices_active :: bool

record invoice_line =
  il_product :: nat
  il_name :: string
  il_qty :: int
  il_price :: int
  il_discount :: int
  il_taxes :: "nat list"

text \<open>An \<open>out_invoice\<close>: customer, invoice date, due date (\<open>None\<close> when not given), origin contract.\<close>

record invoice =
  inv_partner :: nat
  inv_date :: date
  inv_due :: "date option"
  inv_origin :: nat
  inv_lines :: "invoice_line list"

text \<open>The database the job sees: the contracts in the order of \<open>search\<close> (by id) and the invoices.\<close>

record billing =
  b_contracts :: "contract list"
  b_moves :: "invoice list"

section \<open>Buttons and computed fields\<close>

text \<open>Lines 52--62: \<open>action_to_confirm\<close> and \<open>action_to_cancel\<close>.\<close>

definition action_to_confirm :: "contract \<Rightarrow> contract" where
  "action_to_confirm c = c\<lparr>sc_state := Sc_Ongoing\<rparr>"

definition action_to_cancel :: "contract \<Rightarrow> contract" where
  "action_to_cancel c = c\<lparr>sc_state := Sc_Cancelled\<rparr>"

text \<open>Lines 114--120: \<open>action_lock\<close> and \<open>action_to_unlock\<close>.\<close>

definition action_lock :: "contract \<Rightarrow> contract" where
  "action_lock c = c\<lparr>sc_lock := True\<rparr>"

definition action_to_unlock :: "contract \<Rightarrow> contract" where
  "action_to_unlock c = c\<lparr>sc_lock := False\<rparr>"

text \<open>Lines 135--140: \<open>_compute_amount_total\<close>.\<close>

definition amount_total :: "contract \<Rightarrow> int" where
  "amount_total c = sum_list (map cl_sub_total (sc_lines c))"

text \<open>\<open>search_count([('contract_origin', '=', id)])\<close>.\<close>

definition count_invoices :: "invoice list \<Rightarrow> nat \<Rightarrow> nat" where
  "count_invoices ms cid = length (filter (\<lambda>i. inv_origin i = cid) ms)"

text \<open>Lines 142--158: \<open>_compute_invoice_count\<close> and \<open>_compute_invoice_active\<close>.\<close>

definition compute_invoice_count :: "invoice list \<Rightarrow> contract \<Rightarrow> contract" where
  "compute_invoice_count ms c = c\<lparr>sc_invoice_count := count_invoices ms (sc_id c)\<rparr>"

definition compute_invoice_active :: "invoice list \<Rightarrow> contract \<Rightarrow> contract" where
  "compute_invoice_active ms c = c\<lparr>sc_invoices_active := (count_invoices ms (sc_id c) \<noteq> 0)\<rparr>"

text \<open>Lines 160--162: \<open>_onchange_date_start_clear_end\<close>.\<close>

definition onchange_date_start :: "contract \<Rightarrow> contract" where
  "onchange_date_start c = c\<lparr>sc_date_end := None\<rparr>"

text \<open>The \<open>relativedelta\<close> of each interval, as both date computations build it.\<close>

fun interval_delta :: "period_interval \<Rightarrow> int \<Rightarrow> rdelta" where
  "interval_delta Pi_Days k = Rd_Days k"
| "interval_delta Pi_Weeks k = Rd_Weeks k"
| "interval_delta Pi_Months k = Rd_Months k"
| "interval_delta Pi_Years k = Rd_Years k"

text \<open>
  Lines 164--183: \<open>_compute_next_invoice_date\<close> of one record: the start
  date itself when the start, the period or the interval is unset, else the
  start moved on by one period.
\<close>

definition compute_next_invoice_date :: "contract \<Rightarrow> exc + contract" where
  "compute_next_invoice_date c =
     (case (sc_date_start c, sc_interval c) of
        (Some start, Some pi) \<Rightarrow>
          if sc_period c = 0 then Inr (c\<lparr>sc_next := Some start\<rparr>)
          else (case rd_add (interval_delta pi (sc_period c)) start of
                  Inl e \<Rightarrow> Inl e
                | Inr d \<Rightarrow> Inr (c\<lparr>sc_next := Some d\<rparr>))
      | _ \<Rightarrow> Inr (c\<lparr>sc_next := sc_date_start c\<rparr>))"

section \<open>Invoicing\<close>

text \<open>Lines 80--90 and 208--218: one invoice line per contract line.\<close>

definition invoice_line_of :: "contract_line \<Rightarrow> invoice_line" where
  "invoice_line_of l =
     \<lparr>il_product = cl_product l, il_name = cl_description l, il_qty = cl_qty l,
      il_price = cl_price l, il_discount = cl_discount l, il_taxes = cl_taxes l\<rparr>"

definition make_invoice :: "contract \<Rightarrow> date \<Rightarrow> date option \<Rightarrow> invoice" where
  "make_invoice c d due =
     \<lparr>inv_partner = sc_partner c, inv_date = d, inv_due = due, inv_origin = sc_id c,
      inv_lines = map invoice_line_of (sc_lines c)\<rparr>"

text \<open>
  Lines 98--108 (and 226--236): \<open>interval = recurring_period or 1\<close>, and the
  next date moves on by that many units of the interval; with no interval
  it stays.
\<close>

definition advance_next :: "contract \<Rightarrow> date \<Rightarrow> exc + date" where
  "advance_next c d =
     (let k = (if sc_period c = 0 then 1 else sc_period c)
      in case sc_interval c of None \<Rightarrow> Inr d | Some pi \<Rightarrow> rd_add (interval_delta pi k) d)"

text \<open>Lines 110--112 (and 238--240): a new contract becomes ongoing.\<close>

definition bill_state :: "sc_state \<Rightarrow> sc_state" where
  "bill_state s = (if s = Sc_New then Sc_Ongoing else s)"

text \<open>
  The common tail of both invoicing paths: create the invoice, recount,
  advance the date, update the state. An exception rolls the whole
  transaction back, so the caller keeps its state on \<open>Inl\<close>.
\<close>

definition bill :: "contract \<Rightarrow> invoice list \<Rightarrow> invoice \<Rightarrow> date \<Rightarrow> exc + contract \<times> invoice list" where
  "bill c ms iv d =
     (let ms' = ms @ [iv];
          c1 = c\<lparr>sc_invoice_count := count_invoices ms' (sc_id c)\<rparr>
      in case advance_next c1 d of
           Inl e \<Rightarrow> Inl e
         | Inr d' \<Rightarrow> Inr (c1\<lparr>sc_next := Some d', sc_state := bill_state (sc_state c1)\<rparr>, ms'))"

text \<open>Lines 64--112: \<open>action_generate_invoice\<close>: nothing without a next date; the invoice is due on its date.\<close>

definition action_generate_invoice :: "contract \<Rightarrow> invoice list \<Rightarrow> exc + contract \<times> invoice list" where
  "action_generate_invoice c ms =
     (case sc_next c of
        None \<Rightarrow> Inr (c, ms)
      | Some d \<Rightarrow> bill c ms (make_invoice c d (Some d)) d)"

text \<open>Lines 194--240: the body of the job's loop for one contract: only on the exact day; no due date.\<close>

definition cron_contract :: "date \<Rightarrow> contract \<Rightarrow> invoice list \<Rightarrow> exc + contract \<times> invoice list" where
  "cron_contract today c ms =
     (case sc_next c of
        None \<Rightarrow> Inr (c, ms)
      | Some d \<Rightarrow> if d \<noteq> today then Inr (c, ms) else bill c ms (make_invoice c d None) d)"

text \<open>
  Lines 189--194: the loop over the contracts that are not cancelled (the
  domain of the \<open>search\<close>), in order, each seeing the invoices created
  before it.
\<close>

fun cron_loop :: "date \<Rightarrow> invoice list \<Rightarrow> contract list \<Rightarrow> exc + contract list \<times> invoice list" where
  "cron_loop today ms [] = Inr ([], ms)"
| "cron_loop today ms (c # cs) =
     (if sc_state c = Sc_Cancelled
      then (case cron_loop today ms cs of Inl e \<Rightarrow> Inl e | Inr (cs', ms') \<Rightarrow> Inr (c # cs', ms'))
      else (case cron_contract today c ms of
              Inl e \<Rightarrow> Inl e
            | Inr (c', ms') \<Rightarrow>
                (case cron_loop today ms' cs of Inl e \<Rightarrow> Inl e | Inr (cs', ms'') \<Rightarrow> Inr (c' # cs', ms''))))"

text \<open>Lines 185--240: \<open>subscription_contract_state_change\<close>, run by the scheduler on \<open>today\<close>.\<close>

definition subscription_contract_state_change :: "date \<Rightarrow> billing \<Rightarrow> exc + billing" where
  "subscription_contract_state_change today b =
     (case cron_loop today (b_moves b) (b_contracts b) of
        Inl e \<Rightarrow> Inl e
      | Inr (cs, ms) \<Rightarrow> Inr (b\<lparr>b_contracts := cs, b_moves := ms\<rparr>))"

section \<open>Sale order lines\<close>

text \<open>The fields of \<open>sale.order.line\<close> that \<open>_compute_sale_order_lines\<close> reads and writes.\<close>

record sale_line =
  sol_partner :: nat
  sol_create :: date
  sol_product :: nat
  sol_contract :: "nat option"

text \<open>
  Line 255: \<open>self.date_start <= date(rec.create_date) <= self.date_end\<close>.
  Python compares left to right and stops at the first false comparison;
  comparing a date with an unset field (\<open>False\<close>) raises \<open>TypeError\<close>.
\<close>

definition le_type_error :: "string \<Rightarrow> string \<Rightarrow> exc" where
  "le_type_error a b =
     TypeError (py_quote ''<='' @ '' not supported between instances of '' @ py_quote a @ '' and '' @ py_quote b)"

definition sol_in_period :: "contract \<Rightarrow> date \<Rightarrow> exc + bool" where
  "sol_in_period c d =
     (case sc_date_start c of
        None \<Rightarrow> Inl (le_type_error ''bool'' ''datetime.date'')
      | Some s \<Rightarrow>
          if \<not> date_le s d then Inr False
          else (case sc_date_end c of
                  None \<Rightarrow> Inl (le_type_error ''datetime.date'' ''bool'')
                | Some e \<Rightarrow> Inr (date_le d e)))"

text \<open>
  Lines 249--257: the sale order lines of the customer (the domain of the
  \<open>search\<close>), in order; a line of the period whose product is one of the
  contract's is linked to the contract.
\<close>

fun link_sale_lines :: "contract \<Rightarrow> sale_line list \<Rightarrow> exc + sale_line list" where
  "link_sale_lines c [] = Inr []"
| "link_sale_lines c (l # ls) =
     (if sol_partner l \<noteq> sc_partner c
      then (case link_sale_lines c ls of Inl e \<Rightarrow> Inl e | Inr ls' \<Rightarrow> Inr (l # ls'))
      else (case sol_in_period c (sol_create l) of
              Inl e \<Rightarrow> Inl e
            | Inr inside \<Rightarrow>
                (let l' = (if inside \<and> sol_product l \<in> set (map cl_product (sc_lines c))
                           then l\<lparr>sol_contract := Some (sc_id c)\<rparr> else l)
                 in case link_sale_lines c ls of Inl e \<Rightarrow> Inl e | Inr ls' \<Rightarrow> Inr (l' # ls'))))"

text \<open>Lines 242--257: \<open>_compute_sale_order_lines\<close> (the \<open>print\<close> calls are left out).\<close>

definition compute_sale_order_lines :: "contract \<Rightarrow> sale_line list \<Rightarrow> exc + contract \<times> sale_line list" where
  "compute_sale_order_lines c sols =
     (case link_sale_lines c sols of
        Inl e \<Rightarrow> Inl e
      | Inr sols' \<Rightarrow> Inr (c\<lparr>sc_current_reference := sc_id c\<rparr>, sols'))"

section \<open>The operations on the contracts\<close>

text \<open>
  Every way the module changes a contract, as a step on the database: the
  buttons on the contract at position \<open>i\<close>, editing its schedule (a new
  start date clears the end date, then the next invoice date is
  recomputed), the stored computes, and the daily job. A step that raises
  is rolled back and leaves the database as it was, so it is no step.
  Dates entered by the user are real dates.
\<close>

definition upd_contract :: "billing \<Rightarrow> nat \<Rightarrow> contract \<Rightarrow> billing" where
  "upd_contract b i c = b\<lparr>b_contracts := (b_contracts b)[i := c]\<rparr>"

definition set_schedule :: "contract \<Rightarrow> date option \<Rightarrow> int \<Rightarrow> period_interval option \<Rightarrow> contract" where
  "set_schedule c s p pi = onchange_date_start (c\<lparr>sc_date_start := s, sc_period := p, sc_interval := pi\<rparr>)"

inductive sc_step :: "billing \<Rightarrow> billing \<Rightarrow> bool" where
  confirm: "i < length (b_contracts b) \<Longrightarrow> sc_step b (upd_contract b i (action_to_confirm (b_contracts b ! i)))"
| cancel: "i < length (b_contracts b) \<Longrightarrow> sc_step b (upd_contract b i (action_to_cancel (b_contracts b ! i)))"
| lock: "i < length (b_contracts b) \<Longrightarrow> sc_step b (upd_contract b i (action_lock (b_contracts b ! i)))"
| unlock: "i < length (b_contracts b) \<Longrightarrow> sc_step b (upd_contract b i (action_to_unlock (b_contracts b ! i)))"
| generate: "i < length (b_contracts b) \<Longrightarrow> action_generate_invoice (b_contracts b ! i) (b_moves b) = Inr (c', ms') \<Longrightarrow>
      sc_step b ((upd_contract b i c')\<lparr>b_moves := ms'\<rparr>)"
| schedule: "i < length (b_contracts b) \<Longrightarrow> pred_option valid_date s \<Longrightarrow>
      compute_next_invoice_date (set_schedule (b_contracts b ! i) s p pi) = Inr c' \<Longrightarrow> sc_step b (upd_contract b i c')"
| set_end: "i < length (b_contracts b) \<Longrightarrow> pred_option valid_date e \<Longrightarrow>
      sc_step b (upd_contract b i ((b_contracts b ! i)\<lparr>sc_date_end := e\<rparr>))"
| recount: "i < length (b_contracts b) \<Longrightarrow>
      sc_step b (upd_contract b i (compute_invoice_active (b_moves b) (compute_invoice_count (b_moves b) (b_contracts b ! i))))"
| cron: "subscription_contract_state_change today b = Inr b' \<Longrightarrow> sc_step b b'"

text \<open>
  What the steps keep: no contract is ever put into \<open>Expire Soon\<close> or
  \<open>Expired\<close>, and every date a contract stores is a real date.
\<close>

definition contract_live :: "contract \<Rightarrow> bool" where
  "contract_live c = (sc_state c \<noteq> Sc_Expire_Soon \<and> sc_state c \<noteq> Sc_Expired)"

definition contract_dates_ok :: "contract \<Rightarrow> bool" where
  "contract_dates_ok c =
     (pred_option valid_date (sc_next c) \<and> pred_option valid_date (sc_date_start c) \<and> pred_option valid_date (sc_date_end c))"

text \<open>The scheduler running the job \<open>n\<close> times on the same day, and the button pressed \<open>n\<close> times.\<close>

primrec cron_repeat :: "nat \<Rightarrow> date \<Rightarrow> billing \<Rightarrow> exc + billing" where
  "cron_repeat 0 today b = Inr b"
| "cron_repeat (Suc n) today b =
     (case subscription_contract_state_change today b of Inl e \<Rightarrow> Inl e | Inr b' \<Rightarrow> cron_repeat n today b')"

primrec generate_repeat :: "nat \<Rightarrow> contract \<Rightarrow> invoice list \<Rightarrow> exc + contract \<times> invoice list" where
  "generate_repeat 0 c ms = Inr (c, ms)"
| "generate_repeat (Suc n) c ms =
     (case action_generate_invoice c ms of Inl e \<Rightarrow> Inl e | Inr (c', ms') \<Rightarrow> generate_repeat n c' ms')"

section \<open>Lemmas\<close>

lemma rd_amount_interval_delta [simp]: "rd_amount (interval_delta pi k) = k"
  by (cases pi) simp_all

lemma bill_Inr:
  assumes "bill c ms iv d = Inr (c', ms')"
  shows "ms' = ms @ [iv] \<and> (\<exists>d'. advance_next c d = Inr d' \<and>
           c' = c\<lparr>sc_invoice_count := count_invoices (ms @ [iv]) (sc_id c), sc_next := Some d',
                   sc_state := bill_state (sc_state c)\<rparr>)"
  using assms by (auto simp: bill_def advance_next_def Let_def split: sum.splits option.splits)

lemma advance_next_valid_date: "valid_date d \<Longrightarrow> advance_next c d = Inr d' \<Longrightarrow> valid_date d'"
  by (auto simp: advance_next_def Let_def split: option.splits dest: rd_add_valid_sign)

lemma advance_next_sign:
  assumes "valid_date d" "advance_next c d = Inr d'" "sc_interval c \<noteq> None"
  shows "(0 \<le> sc_period c \<longrightarrow> to_ordinal d < to_ordinal d') \<and> (sc_period c < 0 \<longrightarrow> to_ordinal d' < to_ordinal d)"
proof -
  obtain pi where pi: "sc_interval c = Some pi" using assms(3) by auto
  define k where "k = (if sc_period c = 0 then 1 else sc_period c)"
  have "rd_add (interval_delta pi k) d = Inr d'" using assms(2) pi by (simp add: advance_next_def k_def)
  from rd_add_valid_sign [OF assms(1) this] show ?thesis by (auto simp: k_def)
qed

text \<open>C24: For a daily contract, moving the next invoice date on (next_invoice_date += relativedelta(days=interval)), when it succeeds, gives a valid date whose ordinal (date.toordinal) is the old ordinal plus the period (1 when the period is unset).\<close>

theorem advance_next_days_ordinal:
  assumes "valid_date d" "sc_interval c = Some Pi_Days" "advance_next c d = Inr d'"
  shows "valid_date d' \<and> to_ordinal d' = to_ordinal d + (if sc_period c = 0 then 1 else sc_period c)"
  using assms(3) rd_add_days_ordinal [OF assms(1)] by (simp add: advance_next_def assms(2))

text \<open>C25: For a daily contract, moving the next invoice date on succeeds exactly when the new ordinal stays between 1 (0001-01-01) and 3652059 (9999-12-31); otherwise the timedelta or the date addition raises OverflowError.\<close>

theorem advance_next_days_in_range:
  assumes "valid_date d" "sc_interval c = Some Pi_Days"
  shows "(\<exists>d'. advance_next c d = Inr d') \<longleftrightarrow>
           1 \<le> to_ordinal d + (if sc_period c = 0 then 1 else sc_period c) \<and>
           to_ordinal d + (if sc_period c = 0 then 1 else sc_period c) \<le> max_ordinal"
  using rd_add_days_in_range [OF assms(1)] by (simp add: advance_next_def assms(2))

text \<open>C26: For a monthly contract, moving the next invoice date on with relativedelta(months=interval), with its normalisation into years and months and its single month carry, equals a shift by the period in the month count 12*year+month with the day clipped to the length of the target month.\<close>

theorem advance_next_month_shift:
  assumes "valid_date d" "sc_interval c = Some Pi_Months"
  shows "advance_next c d = shift_months (if sc_period c = 0 then 1 else sc_period c) d"
  using relativedelta_month_shift [OF assms(1)] by (simp add: advance_next_def assms(2))

lemma cron_contract_skip: "sc_next c \<noteq> Some today \<Longrightarrow> cron_contract today c ms = Inr (c, ms)"
  by (cases "sc_next c") (auto simp: cron_contract_def)

lemma cron_contract_due: "sc_next c = Some today \<Longrightarrow> cron_contract today c ms = bill c ms (make_invoice c today None) today"
  by (simp add: cron_contract_def)

lemma action_generate_due: "sc_next c = Some d \<Longrightarrow> action_generate_invoice c ms = bill c ms (make_invoice c d (Some d)) d"
  by (simp add: action_generate_invoice_def)

lemma make_invoice_bill [simp]:
  "make_invoice (c\<lparr>sc_invoice_count := n, sc_next := x, sc_state := s\<rparr>) = make_invoice c"
  by (simp add: make_invoice_def fun_eq_iff)

lemma cron_loop_moves:
  "cron_loop today ms cs = Inr (cs', ms') \<Longrightarrow>
   ms' = ms @ map (\<lambda>c. make_invoice c today None) (filter (\<lambda>c. sc_state c \<noteq> Sc_Cancelled \<and> sc_next c = Some today) cs) \<and>
   list_all2 (\<lambda>c c'. (sc_state c = Sc_Cancelled \<or> sc_next c \<noteq> Some today) \<longrightarrow> c' = c) cs cs'"
proof (induction cs arbitrary: ms cs' ms')
  case (Cons c cs)
  show ?case
  proof (cases "sc_state c = Sc_Cancelled \<or> sc_next c \<noteq> Some today")
    case True
    then have "cron_contract today c ms = Inr (c, ms)" if "sc_state c \<noteq> Sc_Cancelled" using that cron_contract_skip by auto
    with Cons.prems True obtain cs1 where "cron_loop today ms cs = Inr (cs1, ms')" "cs' = c # cs1"
      by (auto split: if_splits sum.splits prod.splits)
    with Cons.IH True show ?thesis by auto
  next
    case False
    then obtain c1 m1 cs1 where b: "bill c ms (make_invoice c today None) today = Inr (c1, m1)"
      and l: "cron_loop today m1 cs = Inr (cs1, ms')" and e: "cs' = c1 # cs1"
      using Cons.prems cron_contract_due [of c today ms] by (auto split: sum.splits prod.splits)
    from bill_Inr [OF b] have "m1 = ms @ [make_invoice c today None]" by simp
    with Cons.IH [OF l] False e show ?thesis by simp
  qed
qed simp

lemma bill_state_not_cancelled: "s \<noteq> Sc_Cancelled \<Longrightarrow> bill_state s \<noteq> Sc_Cancelled"
  by (simp add: bill_state_def)

lemma cron_contract_due_moves:
  assumes "valid_date today" "sc_next c = Some today" "sc_interval c \<noteq> None" "cron_contract today c ms = Inr (c', ms')"
  shows "sc_next c' \<noteq> Some today \<and> sc_state c' = bill_state (sc_state c)"
proof -
  from assms(2,4) have "bill c ms (make_invoice c today None) today = Inr (c', ms')" by (simp add: cron_contract_due)
  from bill_Inr [OF this] obtain d' where d': "advance_next c today = Inr d'"
    and c': "c' = c\<lparr>sc_invoice_count := count_invoices (ms @ [make_invoice c today None]) (sc_id c), sc_next := Some d',
                   sc_state := bill_state (sc_state c)\<rparr>" by blast
  have "to_ordinal today \<noteq> to_ordinal d'"
    using advance_next_sign [OF assms(1) d' assms(3)] by (cases "0 \<le> sc_period c") auto
  then show ?thesis using c' by auto
qed

lemma cron_loop_idem:
  "cron_loop today ms cs = Inr (cs', ms') \<Longrightarrow> valid_date today \<Longrightarrow>
   \<forall>c\<in>set cs. sc_state c \<noteq> Sc_Cancelled \<and> sc_next c = Some today \<longrightarrow> sc_interval c \<noteq> None \<Longrightarrow>
   cron_loop today ms0 cs' = Inr (cs', ms0)"
proof (induction cs arbitrary: ms cs' ms' ms0)
  case (Cons c cs)
  show ?case
  proof (cases "sc_state c = Sc_Cancelled")
    case True
    with Cons.prems(1) obtain cs1 where "cron_loop today ms cs = Inr (cs1, ms')" "cs' = c # cs1"
      by (auto split: sum.splits prod.splits)
    with Cons.IH Cons.prems(2,3) True show ?thesis by simp
  next
    case False
    with Cons.prems(1) obtain c1 m1 cs1 where b: "cron_contract today c ms = Inr (c1, m1)"
      and l: "cron_loop today m1 cs = Inr (cs1, ms')" and e: "cs' = c # cs1 \<or> cs' = c1 # cs1"
      by (auto split: sum.splits prod.splits)
    have rest: "cron_loop today m0 cs1 = Inr (cs1, m0)" for m0 using Cons.IH [OF l] Cons.prems(2,3) by simp
    have "c1 = c" if "sc_next c \<noteq> Some today" using b cron_contract_skip [OF that] by simp
    moreover have "sc_next c1 \<noteq> Some today \<and> sc_state c1 \<noteq> Sc_Cancelled" if "sc_next c = Some today"
      using cron_contract_due_moves [OF Cons.prems(2) that _ b] that Cons.prems(3) False bill_state_not_cancelled by auto
    ultimately have "sc_next c1 \<noteq> Some today \<and> sc_state c1 \<noteq> Sc_Cancelled" using False by blast
    then have "cron_loop today ms0 (c1 # cs1) = Inr (c1 # cs1, ms0)" using rest cron_contract_skip by simp
    moreover have "cs' = c1 # cs1" using Cons.prems(1) b l False by (simp split: sum.splits prod.splits)
    ultimately show ?thesis by simp
  qed
qed simp

text \<open>C16: When every contract due today has a recurring interval, running the daily job a second time on the same day changes nothing: each billed contract's next invoice date has moved off today.\<close>

theorem cron_same_day_idempotent:
  assumes "subscription_contract_state_change today b = Inr b1" "valid_date today"
    "\<forall>c\<in>set (b_contracts b). sc_state c \<noteq> Sc_Cancelled \<and> sc_next c = Some today \<longrightarrow> sc_interval c \<noteq> None"
  shows "subscription_contract_state_change today b1 = Inr b1"
proof -
  obtain cs ms where l: "cron_loop today (b_moves b) (b_contracts b) = Inr (cs, ms)" and b1: "b1 = b\<lparr>b_contracts := cs, b_moves := ms\<rparr>"
    using assms(1) by (auto simp: subscription_contract_state_change_def split: sum.splits prod.splits)
  show ?thesis using cron_loop_idem [OF l assms(2,3), of ms] b1 by (simp add: subscription_contract_state_change_def)
qed

lemma cron_one_contract_no_interval:
  assumes "sc_interval c = None" "sc_next c = Some today" "sc_state c \<noteq> Sc_Cancelled"
  shows "subscription_contract_state_change today \<lparr>b_contracts = [c], b_moves = ms\<rparr> =
         Inr \<lparr>b_contracts = [c\<lparr>sc_invoice_count := count_invoices (ms @ [make_invoice c today None]) (sc_id c),
                                  sc_next := Some today, sc_state := bill_state (sc_state c)\<rparr>],
              b_moves = ms @ [make_invoice c today None]\<rparr>"
  using assms by (simp add: subscription_contract_state_change_def cron_contract_def bill_def advance_next_def Let_def)

text \<open>C17: A contract due today without a recurring interval keeps its next invoice date, so every run of the job on that day bills it again: n runs create n identical invoices.\<close>

theorem cron_repeat_duplicates:
  "sc_interval c = None \<Longrightarrow> sc_next c = Some today \<Longrightarrow> sc_state c \<noteq> Sc_Cancelled \<Longrightarrow>
   \<exists>c'. cron_repeat n today \<lparr>b_contracts = [c], b_moves = ms\<rparr> =
         Inr \<lparr>b_contracts = [c'], b_moves = ms @ replicate n (make_invoice c today None)\<rparr>"
proof (induction n arbitrary: c ms)
  case (Suc n)
  define c1 where "c1 = c\<lparr>sc_invoice_count := count_invoices (ms @ [make_invoice c today None]) (sc_id c),
                              sc_next := Some today, sc_state := bill_state (sc_state c)\<rparr>"
  have "sc_interval c1 = None" "sc_next c1 = Some today" "sc_state c1 \<noteq> Sc_Cancelled"
    using Suc.prems bill_state_not_cancelled by (simp_all add: c1_def)
  from Suc.IH [OF this, of "ms @ [make_invoice c today None]"] obtain c' where
    "cron_repeat n today \<lparr>b_contracts = [c1], b_moves = ms @ [make_invoice c today None]\<rparr> =
     Inr \<lparr>b_contracts = [c'], b_moves = ms @ [make_invoice c today None] @ replicate n (make_invoice c1 today None)\<rparr>"
    by auto
  moreover have "make_invoice c1 = make_invoice c" by (simp add: c1_def)
  ultimately show ?case
    using cron_one_contract_no_interval [OF Suc.prems] by (simp add: c1_def replicate_append_same [symmetric])
qed simp

text \<open>C18: With a negative recurring period the job moves the next invoice date into the past, and the job never bills the contract again on any later day.\<close>

theorem cron_negative_period_stops:
  assumes "valid_date today" "sc_next c = Some today" "sc_interval c \<noteq> None" "sc_period c < 0"
    "cron_contract today c ms = Inr (c', ms')"
  shows "\<forall>t ms0. to_ordinal today \<le> to_ordinal t \<longrightarrow> cron_contract t c' ms0 = Inr (c', ms0)"
proof -
  from assms(2,5) have "bill c ms (make_invoice c today None) today = Inr (c', ms')" by (simp add: cron_contract_due)
  from bill_Inr [OF this] obtain d' where d': "advance_next c today = Inr d'" and n: "sc_next c' = Some d'"
    by auto
  have lt: "to_ordinal d' < to_ordinal today" using advance_next_sign [OF assms(1) d' assms(3)] assms(4) by simp
  show ?thesis
  proof (intro allI impI)
    fix t ms0
    assume "to_ordinal today \<le> to_ordinal t"
    with lt have "d' \<noteq> t" by auto
    then show "cron_contract t c' ms0 = Inr (c', ms0)" using n cron_contract_skip by simp
  qed
qed


lemma generate_advances:
  assumes "valid_date d" "sc_next c = Some d" "sc_interval c \<noteq> None" "0 \<le> sc_period c"
    "action_generate_invoice c ms = Inr (c', ms')"
  shows "\<exists>d'. sc_next c' = Some d' \<and> valid_date d' \<and> to_ordinal d < to_ordinal d' \<and>
           sc_interval c' = sc_interval c \<and> sc_period c' = sc_period c"
proof -
  from assms(2,5) have "bill c ms (make_invoice c d (Some d)) d = Inr (c', ms')" by (simp add: action_generate_due)
  from bill_Inr [OF this] obtain d' where d': "advance_next c d = Inr d'"
    and c': "sc_next c' = Some d'" "sc_interval c' = sc_interval c" "sc_period c' = sc_period c" by auto
  show ?thesis using advance_next_valid_date [OF assms(1) d'] advance_next_sign [OF assms(1) d' assms(3)] assms(4) c'
    by auto
qed

lemma generate_repeat_advances:
  "valid_date d \<Longrightarrow> sc_next c = Some d \<Longrightarrow> sc_interval c \<noteq> None \<Longrightarrow> 0 \<le> sc_period c \<Longrightarrow>
   generate_repeat n c ms = Inr (c', ms') \<Longrightarrow> \<exists>d'. sc_next c' = Some d' \<and> valid_date d' \<and> to_ordinal d + int n \<le> to_ordinal d'"
proof (induction n arbitrary: c ms d)
  case (Suc n)
  then obtain c1 m1 where g: "action_generate_invoice c ms = Inr (c1, m1)" and r: "generate_repeat n c1 m1 = Inr (c', ms')"
    by (auto split: sum.splits prod.splits)
  from generate_advances [OF Suc.prems(1-4) g] obtain d1 where
    d1: "sc_next c1 = Some d1" "valid_date d1" "to_ordinal d < to_ordinal d1" "sc_interval c1 = sc_interval c"
        "sc_period c1 = sc_period c" by blast
  from Suc.IH [OF d1(2,1) _ _ r] d1(3-5) Suc.prems(3,4) show ?case by fastforce
qed simp

text \<open>C22: With an interval and a non-negative period every invoice moves the next invoice date strictly later, so pressing the invoicing button more than max_ordinal minus the ordinal of that date times must fail: the schedule reaches the end of the calendar.\<close>

theorem generate_invoice_terminates:
  assumes "valid_date d" "sc_next c = Some d" "sc_interval c \<noteq> None" "0 \<le> sc_period c"
    "max_ordinal - to_ordinal d < int n"
  shows "\<exists>e. generate_repeat n c ms = Inl e"
proof (cases "generate_repeat n c ms")
  case (Inr r)
  obtain c' ms' where "r = (c', ms')" by (cases r)
  with Inr generate_repeat_advances [OF assms(1-4)] obtain d' where "valid_date d'" "to_ordinal d + int n \<le> to_ordinal d'"
    by blast
  then show ?thesis using to_ordinal_bounds(2) [of d'] assms(5) by simp
qed simp

lemma cron_loop_pres:
  assumes "\<And>c ms c' ms'. cron_contract today c ms = Inr (c', ms') \<Longrightarrow> P c \<Longrightarrow> P c'"
  shows "cron_loop today ms cs = Inr (cs', ms') \<Longrightarrow> \<forall>c\<in>set cs. P c \<Longrightarrow> \<forall>c\<in>set cs'. P c"
proof (induction cs arbitrary: ms cs' ms')
  case (Cons c cs)
  then show ?case using assms by (auto split: if_splits sum.splits prod.splits)
qed simp

lemma set_update_all: "\<forall>c\<in>set cs. P c \<Longrightarrow> P c' \<Longrightarrow> \<forall>c\<in>set (cs[i := c']). P c"
  by (metis insert_iff set_update_subset_insert subsetD)

lemma bill_live: "bill c ms iv d = Inr (c', ms') \<Longrightarrow> contract_live c \<Longrightarrow> contract_live c'"
  by (auto dest!: bill_Inr simp: contract_live_def bill_state_def split: if_splits)

lemma bill_dates:
  "bill c ms iv d = Inr (c', ms') \<Longrightarrow> sc_next c = Some d \<Longrightarrow> contract_dates_ok c \<Longrightarrow> contract_dates_ok c'"
  by (auto dest!: bill_Inr dest: advance_next_valid_date simp: contract_dates_ok_def)

lemma cron_contract_live: "cron_contract today c ms = Inr (c', ms') \<Longrightarrow> contract_live c \<Longrightarrow> contract_live c'"
  by (auto simp: cron_contract_def split: option.splits if_splits intro: bill_live)

lemma cron_contract_dates: "cron_contract today c ms = Inr (c', ms') \<Longrightarrow> contract_dates_ok c \<Longrightarrow> contract_dates_ok c'"
  by (auto simp: cron_contract_def split: option.splits if_splits intro: bill_dates)

lemma generate_live: "action_generate_invoice c ms = Inr (c', ms') \<Longrightarrow> contract_live c \<Longrightarrow> contract_live c'"
  by (auto simp: action_generate_invoice_def split: option.splits intro: bill_live)

lemma generate_dates: "action_generate_invoice c ms = Inr (c', ms') \<Longrightarrow> contract_dates_ok c \<Longrightarrow> contract_dates_ok c'"
  by (auto simp: action_generate_invoice_def split: option.splits intro: bill_dates)

lemma compute_next_live: "compute_next_invoice_date c = Inr c' \<Longrightarrow> contract_live c \<Longrightarrow> contract_live c'"
  by (auto simp: compute_next_invoice_date_def contract_live_def split: option.splits if_splits sum.splits)

lemma compute_next_dates:
  "compute_next_invoice_date c = Inr c' \<Longrightarrow> contract_dates_ok c \<Longrightarrow> contract_dates_ok c'"
  by (auto simp: compute_next_invoice_date_def contract_dates_ok_def split: option.splits if_splits sum.splits
      dest: rd_add_valid_sign)

lemma state_change_pres:
  assumes "\<And>c ms c' ms'. cron_contract today c ms = Inr (c', ms') \<Longrightarrow> P c \<Longrightarrow> P c'"
    "subscription_contract_state_change today b = Inr b'" "\<forall>c\<in>set (b_contracts b). P c"
  shows "\<forall>c\<in>set (b_contracts b'). P c"
proof -
  obtain cs ms where l: "cron_loop today (b_moves b) (b_contracts b) = Inr (cs, ms)" and "b' = b\<lparr>b_contracts := cs, b_moves := ms\<rparr>"
    using assms(2) by (auto simp: subscription_contract_state_change_def split: sum.splits prod.splits)
  then show ?thesis using cron_loop_pres [OF assms(1) l assms(3)] by simp
qed

lemma upd_contract_all:
  "\<forall>c\<in>set (b_contracts b). P c \<Longrightarrow> P c' \<Longrightarrow> \<forall>c\<in>set (b_contracts (upd_contract b i c')). P c"
  unfolding upd_contract_def using set_update_all [of "b_contracts b" P c' i] by simp

lemma sc_step_live:
  "sc_step b b' \<Longrightarrow> \<forall>c\<in>set (b_contracts b). contract_live c \<Longrightarrow> \<forall>c\<in>set (b_contracts b'). contract_live c"
proof (induction rule: sc_step.induct)
  case (confirm i b)
  then show ?case by (intro upd_contract_all) (simp_all add: action_to_confirm_def contract_live_def)
next
  case (cancel i b)
  then show ?case by (intro upd_contract_all) (simp_all add: action_to_cancel_def contract_live_def)
next
  case (lock i b)
  then show ?case by (intro upd_contract_all) (simp_all add: action_lock_def contract_live_def)
next
  case (unlock i b)
  then show ?case by (intro upd_contract_all) (simp_all add: action_to_unlock_def contract_live_def)
next
  case (generate i b c' ms')
  then have "contract_live (b_contracts b ! i)" by simp
  from generate_live [OF generate.hyps(2) this] generate.prems
  have "\<forall>c\<in>set (b_contracts (upd_contract b i c')). contract_live c" by (rule upd_contract_all [rotated])
  then show ?case by simp
next
  case (schedule i b s p pi c')
  then have "contract_live (set_schedule (b_contracts b ! i) s p pi)"
    by (simp add: set_schedule_def onchange_date_start_def contract_live_def)
  from compute_next_live [OF schedule.hyps(3) this] schedule.prems show ?case by (rule upd_contract_all [rotated])
next
  case (set_end i b e)
  then show ?case by (intro upd_contract_all) (simp_all add: contract_live_def)
next
  case (recount i b)
  then show ?case
    by (intro upd_contract_all) (simp_all add: compute_invoice_active_def compute_invoice_count_def contract_live_def)
next
  case (cron today b b')
  show ?case by (rule state_change_pres [OF cron_contract_live cron.hyps cron.prems])
qed

lemma sc_step_dates:
  "sc_step b b' \<Longrightarrow> \<forall>c\<in>set (b_contracts b). contract_dates_ok c \<Longrightarrow> \<forall>c\<in>set (b_contracts b'). contract_dates_ok c"
proof (induction rule: sc_step.induct)
  case (confirm i b)
  then show ?case by (intro upd_contract_all) (simp_all add: action_to_confirm_def contract_dates_ok_def)
next
  case (cancel i b)
  then show ?case by (intro upd_contract_all) (simp_all add: action_to_cancel_def contract_dates_ok_def)
next
  case (lock i b)
  then show ?case by (intro upd_contract_all) (simp_all add: action_lock_def contract_dates_ok_def)
next
  case (unlock i b)
  then show ?case by (intro upd_contract_all) (simp_all add: action_to_unlock_def contract_dates_ok_def)
next
  case (generate i b c' ms')
  then have "contract_dates_ok (b_contracts b ! i)" by simp
  from generate_dates [OF generate.hyps(2) this] generate.prems
  have "\<forall>c\<in>set (b_contracts (upd_contract b i c')). contract_dates_ok c" by (rule upd_contract_all [rotated])
  then show ?case by simp
next
  case (schedule i b s p pi c')
  then have "contract_dates_ok (set_schedule (b_contracts b ! i) s p pi)"
    by (simp add: set_schedule_def onchange_date_start_def contract_dates_ok_def)
  from compute_next_dates [OF schedule.hyps(3) this] schedule.prems show ?case by (rule upd_contract_all [rotated])
next
  case (set_end i b e)
  then show ?case by (intro upd_contract_all) (simp_all add: contract_dates_ok_def)
next
  case (recount i b)
  then show ?case
    by (intro upd_contract_all) (simp_all add: compute_invoice_active_def compute_invoice_count_def contract_dates_ok_def)
next
  case (cron today b b')
  show ?case by (rule state_change_pres [OF cron_contract_dates cron.hyps cron.prems])
qed

text \<open>C20: No operation of the module (buttons, schedule edits, computes, the daily job) ever puts a contract into Expire Soon or Expired: the reminder and end date never change the stage.\<close>

theorem contracts_never_expire:
  assumes "sc_step\<^sup>*\<^sup>* b0 b" "\<forall>c\<in>set (b_contracts b0). contract_live c"
  shows "\<forall>c\<in>set (b_contracts b). sc_state c \<noteq> Sc_Expire_Soon \<and> sc_state c \<noteq> Sc_Expired"
proof -
  from assms have "\<forall>c\<in>set (b_contracts b). contract_live c"
    by (induction rule: rtranclp_induct) (auto dest: sc_step_live)
  then show ?thesis by (simp add: contract_live_def)
qed


text \<open>C15: The daily job creates one invoice, dated today and without a due date, for each contract that is not cancelled and whose next invoice date is today, in the order of the contracts, and leaves every other contract unchanged.\<close>

theorem cron_bills_due_contracts:
  assumes "subscription_contract_state_change today b = Inr b'"
  shows "b_moves b' = b_moves b @ map (\<lambda>c. make_invoice c today None)
                         (filter (\<lambda>c. sc_state c \<noteq> Sc_Cancelled \<and> sc_next c = Some today) (b_contracts b)) \<and>
         list_all2 (\<lambda>c c'. (sc_state c = Sc_Cancelled \<or> sc_next c \<noteq> Some today) \<longrightarrow> c' = c) (b_contracts b) (b_contracts b')"
proof -
  obtain cs ms where l: "cron_loop today (b_moves b) (b_contracts b) = Inr (cs, ms)" and "b' = b\<lparr>b_contracts := cs, b_moves := ms\<rparr>"
    using assms by (auto simp: subscription_contract_state_change_def split: sum.splits prod.splits)
  then show ?thesis using cron_loop_moves [OF l] by simp
qed

lemma link_sale_lines_type_error:
  "sc_date_end c = None \<Longrightarrow> l \<in> set sols \<Longrightarrow> sol_partner l = sc_partner c \<Longrightarrow>
   pred_option (\<lambda>s. date_le s (sol_create l)) (sc_date_start c) \<Longrightarrow> \<exists>m. link_sale_lines c sols = Inl (TypeError m)"
proof (induction sols)
  case (Cons l0 ls)
  show ?case
  proof (cases "sol_partner l0 = sc_partner c")
    case False
    with Cons have "l \<in> set ls" by auto
    with Cons.IH Cons.prems False show ?thesis by (auto split: sum.splits)
  next
    case True
    show ?thesis
    proof (cases "sc_date_start c")
      case None
      with True show ?thesis by (simp add: sol_in_period_def le_type_error_def)
    next
      case (Some s)
      show ?thesis
      proof (cases "date_le s (sol_create l0)")
        case True
        with \<open>sol_partner l0 = sc_partner c\<close> Some Cons.prems(1) show ?thesis
          by (simp add: sol_in_period_def le_type_error_def)
      next
        case False
        with Some Cons.prems(2,4) have "l \<in> set ls" by auto
        with Cons.IH Cons.prems(1,3,4) obtain m where "link_sale_lines c ls = Inl (TypeError m)" by blast
        with False Some \<open>sol_partner l0 = sc_partner c\<close> show ?thesis by (simp add: sol_in_period_def Let_def)
      qed
    qed
  qed
qed simp

text \<open>C23: Computing the sale order lines of a contract without an end date raises TypeError as soon as the customer has a sale order line created on or after the start date (or at all, when the start date is unset).\<close>

theorem sale_lines_unset_end_type_error:
  assumes "sc_date_end c = None" "l \<in> set sols" "sol_partner l = sc_partner c"
    "pred_option (\<lambda>s. date_le s (sol_create l)) (sc_date_start c)"
  shows "\<exists>m. compute_sale_order_lines c sols = Inl (TypeError m)"
  using link_sale_lines_type_error [OF assms] by (auto simp: compute_sale_order_lines_def)

end
