(* ===== verification/Spec2Isabelle.thy ===== *)
theory Spec2Isabelle
  imports Lifecycle Subscriptions
begin

text \<open>
  \<^bold>\<open>A verification library for the social-media publisher of GenioLibre\<close>

  The repository holds two Odoo addons. \<open>gl_geniolibre/models/project_task.py\<close>
  extends \<open>project.task\<close> into a publisher: \<open>publicar_post\<close> stages the
  attachments on S3 (\<open>upload_files_to_s3\<close>), starts one publication per
  selected network (\<open>publish_on_facebook\<close>, \<open>publish_on_instagram\<close>,
  \<open>publish_on_tiktok\<close>, \<open>publish_on_linkedin\<close>), and leaves each network in a
  phase (\<open>fb_estado\<close>, \<open>ig_estado\<close>, \<open>tt_estado\<close>, \<open>li_estado\<close>) that the
  reconciler \<open>revisar_post\<close> moves on, on a button or from the scheduler, by
  running \<open>_run_facebook_flow\<close>, \<open>_run_instagram_flow\<close>, \<open>_run_tiktok_flow\<close>
  and \<open>_run_linkedin_flow\<close>. \<open>_compute_post_estado_global\<close> folds the four
  phases into one. \<open>sales_contract_and_recurring_invoices\<close> holds the
  subscription contracts; it is not modelled yet (below).

  \<^bold>\<open>Theories.\<close>
  \<^item> \<open>Prelude\<close>: Python values the code relies on (truthiness of a field,
    \<open>strip().lower()\<close>, \<open>str(int)\<close> and \<open>int(str)\<close>, \<open>', '.join\<close>), the
    exceptions as a datatype \<open>exc\<close>, the early-return combinator \<open>stage\<close> with
    which a method body that returns from the middle is written, and
    \<open>odoo_txn\<close>, the transaction of one Odoo call (an exception rolls back the
    database).
  \<^item> \<open>Task\<close>: the fields of \<open>project.task\<close> as the record \<open>task\<close>; the four
    per-network groups of fields (\<open>*_estado\<close>, \<open>*_post_id\<close>, \<open>*_post_url\<close>,
    \<open>*_error\<close>) as one sub-record \<open>net_state\<close> each, read and written through
    \<open>net\<close>/\<open>set_net\<close>; the phase strings as the datatype \<open>estado\<close>.
  \<^item> \<open>Estado_Global\<close>: \<open>_compute_post_estado_global\<close> on strings
    (\<open>compute_post_estado_global\<close>), the same rule on phases (\<open>aggregate\<close>),
    and the rule of the specification (\<open>spec_aggregate\<close>).
  \<^item> \<open>Json\<close>: \<open>json.dumps\<close>/\<open>json.loads\<close> of the list of photo ids that
    the Facebook feed post keeps in \<open>fb_post_id\<close> between the two calls.
  \<^item> \<open>Reconcile\<close>: the four flows, each on its network's \<open>net_state\<close> and
    lifted to the task with \<open>lift_net\<close>; \<open>revisar_record\<close> (one record of
    \<open>revisar_post\<close>), \<open>revisar_post\<close> (the loop, stopped by the first
    exception) and \<open>cron_sweep\<close> (the scheduled call in one transaction).
    The answers of the platforms are records of responses (\<open>fb_remote\<close>,
    \<open>ig_remote\<close>, \<open>tt_remote\<close>), \<open>Inl\<close> being the text of a
    \<open>requests\<close> exception.
  \<^item> \<open>Staging\<close>: \<open>upload_files_to_s3\<close> over an explicit S3 store
    (\<open>s3_store\<close>), so that the objects written before a failure stay written.
  \<^item> \<open>Publish\<close>: the four initiators, the four attempts of \<open>publicar_post\<close>
    (\<open>attempt_facebook\<close> to \<open>attempt_linkedin\<close>, composed by
    \<open>publish_attempts\<close>), the result and the outer handler
    (\<open>publicar_result\<close>, \<open>publicar_try\<close>, \<open>publicar_except\<close>,
    \<open>publicar_post\<close>) on a \<open>world\<close> of the task, the S3 store and the mails
    sent, and \<open>odoo_button\<close>, the transaction of a button call.
  \<^item> This theory: a concrete task and concrete platform answers, and one
    closed instance of every property with hypotheses.

  \<^bold>\<open>What is proved.\<close>
  \<^item> Publication (\<open>Publish\<close>): each network's outcome depends only on its own
    platform (from frame lemmas saying which
    fields each initiator writes); the outcome of \<open>publicar_post\<close> on partial
    success, full success, total failure, staging failure, missing
    credentials and failed preconditions, each as an equation on the world.
  \<^item> Reconciliation (\<open>Reconcile\<close>): the transitions of each flow, the fixed
    point of the Instagram, TikTok and LinkedIn flows after two calls, the
    Facebook feed post read back through JSON, and the behaviours of the
    Facebook flow that never resolve: a reel whose publication returns no post
    id raises on every sweep and, since \<open>revisar_post\<close> stops at the first
    exception, leaves the task unchanged forever and rolls back every
    scheduled batch that contains it; a story with no post id stays
    \<open>Revisando\<close>.
  \<^item> Aggregation (\<open>Estado_Global\<close>): the string code equals the rule on
    phases; it refines the specification's rule when the unselected networks
    were never started; it does not look at the selection.
  \<^item> Staging (\<open>Staging\<close>): the keys are distinct, the upload succeeds exactly
    when every file has an allowed extension and every put succeeds, and a
    forbidden file leaves the earlier files in the bucket.

  \<^bold>\<open>Bounds and fuel.\<close> No loop of the modelled code depends on data
  that may not decrease: every loop runs over a finite list (attachments,
  media URLs, upload instructions, records), so every operation is a total
  function, defined by structural recursion; no fuel is needed. The
  reconciler is not a loop in the code: the scheduler calls it again, and the
  properties about repeated calls iterate \<open>revisar_record\<close> with
  \<open>^^\<close> for any number of calls.

  \<^bold>\<open>Not modelled.\<close> Text preparation (\<open>_prepare_text\<close>,
  \<open>remove_duplicate_links\<close>: HTML-to-text and regular expressions whose result
  only goes into captions); \<open>get_video_duration_ffprobe\<close> (a subprocess);
  \<open>check_tiktok_creator_status\<close>, \<open>write\<close>'s TikTok validation,
  \<open>programar_post\<close>, \<open>cancelar_post\<close>, \<open>unlink\<close>, \<open>copy\<close> and
  \<open>red_social._auto_init\<close> (planned next); the subscription contracts of
  \<open>subscription_contracts.py\<close> (planned: the invoice date, the cron state
  change and invoice generation, with month arithmetic that clips to the end
  of the month). The bodies sent to the platforms (captions, privacy fields)
  are not modelled: only the answers and the fields written from them are.
\<close>

section \<open>A concrete task and concrete answers\<close>

definition demo_net :: net_state where
  "demo_net = \<lparr>net_estado = Programado, net_post_id = None, net_post_url = None, net_error = None\<rparr>"

definition demo_task :: task where
  "demo_task = \<lparr>task_state = ''03_approved'', tipo = Feed, fecha_publicacion = Some 20260101,
     red_social_names = [''Facebook'', ''Instagram''],
     adjuntos = [\<lparr>att_id = 1, att_name = ''foto.jpg'', att_mimetype = ''image/jpeg'', att_datas = ''AAAA'', att_duration = Inl ''ffprobe: not a video''\<rparr>],
     imagen_portada = None, partner_page_access_token = Some ''tok'', partner_facebook_page_id = Some ''fbpage'',
     partner_instagram_page_id = Some ''igpage'', partner_tiktok_access_token = None, partner_linkedin_page_id = None,
     post_estado = ''Programado'', fb_video_id = None, fb = demo_net, ig = demo_net, tt = demo_net, li = demo_net,
     tiktok_video_duration = 0, tiktok_creator_status_info = None\<rparr>"

definition demo_key :: string where
  "demo_key = s3_key ''20260101'' ''12345'' 1 ''jpg''"

definition demo_s3 :: s3_env where
  "demo_s3 = \<lparr>s3_client_resp = Inr (), s3_put_resp = (\<lambda>k. Inr ()), s3_timestamp = ''20260101'', s3_random = ''12345''\<rparr>"

definition demo_world :: world where
  "demo_world = \<lparr>w_task = demo_task, w_store = Map.empty, w_mails = []\<rparr>"

definition demo_fb_ok :: fb_pub_remote where
  "demo_fb_ok = \<lparr>fbp_photo_resp = (\<lambda>u. Inr (Some ''501'', ''{}'')), fbp_start_resp = Inl ''unused'',
     fbp_upload_resp = Inl ''unused'', fbp_finish_resp = Inl ''unused''\<rparr>"

definition demo_ig_timeout :: ig_pub_remote where
  "demo_ig_timeout = \<lparr>igp_container_resp = Inl ''Read timed out'', igp_item_resp = (\<lambda>u. Inl ''Read timed out''),
     igp_carousel_resp = Inl ''Read timed out''\<rparr>"

definition demo_li :: li_pub_remote where
  "demo_li = \<lparr>lip_token = Some ''tok'', lip_head_resp = Inr 1000, lip_vinit_resp = Inl (Li_Exc ''unused''),
     lip_chunk_resp = (\<lambda>i. Inr (Some ''etag'')), lip_thumb_resp = Inr (), lip_finalize_resp = (\<lambda>u k e. Inr ()),
     lip_img_init_resp = (\<lambda>u. Inr (''urn:li:image:1'', ''https://upload'')), lip_img_put_resp = (\<lambda>u. Inr ()),
     lip_post_resp = Inr (Some ''urn:li:share:1'')\<rparr>"

definition demo_fb_remote :: fb_remote where
  "demo_fb_remote = \<lparr>fb_feed_resp = Inr \<lparr>ffd_id = Some ''9001'', ffd_error_code = None, ffd_raw = ''{}''\<rparr>,
     fb_video_status_resp = Inr (Some ''complete''), fb_reel_publish_resp = Inr (None, ''{}''),
     fb_thumb_resp = Inr (200, ''{}''), fb_permalink_resp = Inr None\<rparr>"

definition demo_ig_remote :: ig_remote where
  "demo_ig_remote = \<lparr>ig_status_resp = Inr (Some ''FINISHED'', ''{}''), ig_publish_resp = Inr (Some ''1789'', ''{}''),
     ig_permalink_resp = Inr (Some ''https://www.instagram.com/p/1789/'')\<rparr>"

definition demo_tt_data :: tt_status_data where
  "demo_tt_data = \<lparr>tt_status = Some ''PUBLISH_COMPLETE'', tt_publicaly_id = None, tt_publicly_id = Some ''7301''\<rparr>"

definition demo_tt_remote :: tt_remote where
  "demo_tt_remote = \<lparr>tt_status_resp = Inr (demo_tt_data, ''{}'')\<rparr>"

definition demo_remote :: remote where
  "demo_remote = \<lparr>rm_fb = demo_fb_remote, rm_ig = demo_ig_remote, rm_tt = demo_tt_remote\<rparr>"

definition demo_reel_task :: task where
  "demo_reel_task = demo_task\<lparr>tipo := Video_reels, red_social_names := [''Facebook''], imagen_portada := Some ''AAAA'',
     fb_video_id := Some ''77'', fb := demo_net\<lparr>net_estado := Revisando\<rparr>\<rparr>"

definition demo_world_fb :: world where
  "demo_world_fb = \<lparr>w_task = demo_task\<lparr>red_social_names := [''Facebook'']\<rparr>, w_store = Map.empty, w_mails = []\<rparr>"

definition demo_env :: pub_env where
  "demo_env = \<lparr>pe_aws_api = Some ''key'', pe_aws_secret = Some ''secret'', pe_s3 = demo_s3, pe_s3_cover = demo_s3,
     pe_fb = demo_fb_ok, pe_ig = demo_ig_timeout, pe_tt = \<lparr>ttp_init_resp = Inl ''unused''\<rparr>, pe_li = demo_li, pe_remote = demo_remote\<rparr>"

definition demo_fb_fail :: fb_pub_remote where
  "demo_fb_fail = demo_fb_ok\<lparr>fbp_photo_resp := (\<lambda>u. Inl ''Connection refused'')\<rparr>"

definition demo_url :: string where
  "demo_url = s3_url demo_key"

definition demo_img :: attachment where
  "demo_img = hd (adjuntos demo_task)"

definition demo_store :: att_store where
  "demo_store i = demo_img\<lparr>att_id := i\<rparr>"

definition demo_video :: "nat \<Rightarrow> nat \<Rightarrow> attachment" where
  "demo_video i secs = \<lparr>att_id = i, att_name = ''clip.mp4'', att_mimetype = ''video/mp4'', att_datas = ''AAAA'',
     att_duration = Inr secs\<rparr>"

definition demo_contract :: contract where
  "demo_contract =
     \<lparr>sc_id = 7, sc_partner = 3, sc_period = 1, sc_interval = Some Pi_Months, sc_next = Some (mk_date 2025 1 31),
      sc_date_start = Some (mk_date 2024 12 31), sc_date_end = None, sc_invoice_count = 0, sc_current_reference = 0,
      sc_lock = False, sc_state = Sc_New, sc_lines = [], sc_invoices_active = False\<rparr>"

definition demo_today :: date where
  "demo_today = mk_date 2025 1 31"

definition demo_billing :: billing where
  "demo_billing = \<lparr>b_contracts = [demo_contract], b_moves = []\<rparr>"

definition demo_billed :: billing where
  "demo_billed =
     \<lparr>b_contracts = [demo_contract\<lparr>sc_invoice_count := 1, sc_next := Some (mk_date 2025 2 28), sc_state := Sc_Ongoing\<rparr>],
      b_moves = [make_invoice demo_contract demo_today None]\<rparr>"

definition demo_refund :: contract where
  "demo_refund = demo_contract\<lparr>sc_period := -1, sc_interval := Some Pi_Days\<rparr>"

definition demo_last :: contract where
  "demo_last = demo_contract\<lparr>sc_interval := Some Pi_Days, sc_next := Some (mk_date 9999 12 30)\<rparr>"

definition demo_sale_line :: sale_line where
  "demo_sale_line = \<lparr>sol_partner = 3, sol_create = mk_date 2025 3 1, sol_product = 5, sol_contract = None\<rparr>"

section \<open>Closed instances of the properties\<close>

lemma demo_world_simps [simp]:
  "w_task demo_world = demo_task" "w_store demo_world = Map.empty" "w_mails demo_world = []"
  by (simp_all add: demo_world_def)

lemma demo_upload:
  "upload_files_to_s3 demo_s3 [(''foto.jpg'', ''AAAA'')] (Some ''key'') (Some ''secret'') Map.empty = (Inr [demo_url], [demo_key \<mapsto> ''AAAA''])"
  by (simp add: upload_files_to_s3_def demo_s3_def demo_task_def task_files_def file_ext_def
      allowed_extensions_def py_lower_def py_lower_char_def Let_def demo_key_def demo_url_def)

lemma demo_env_simps [simp]:
  "pe_s3 demo_env = demo_s3" "pe_aws_api demo_env = Some ''key''" "pe_aws_secret demo_env = Some ''secret''"
  by (simp_all add: demo_env_def)

lemma demo_task_files [simp]: "task_files demo_task = [(''foto.jpg'', ''AAAA'')]"
  by (simp add: task_files_def demo_task_def)

lemma demo_pre: "pre_ok demo_task" "credential_errors demo_task = []"
  by (simp_all add: pre_ok_def credential_errors_def selected_def demo_task_def)

lemmas demo_attempt_defs = publish_attempts_def attempt_facebook_def attempt_instagram_def attempt_tiktok_def
  attempt_linkedin_def selected_def demo_task_def demo_net_def write_phase_def publish_on_facebook_def
  publish_on_instagram_def lift_net_def instagram_publish_def ig_container_def

lemma demo_attempts_partial:
  "publish_attempts demo_env [demo_url] None demo_task =
    \<lparr>at_task = demo_task\<lparr>fb := demo_net\<lparr>net_estado := Procesando, net_post_id := Some (json_dumps [''501''])\<rparr>,
                          ig := demo_net\<lparr>net_estado := Error, net_error := Some ''Read timed out''\<rparr>\<rparr>,
     at_errors = [''Instagram: Read timed out''], at_published = [''Facebook'']\<rparr>"
  by (simp add: demo_attempt_defs demo_env_def demo_fb_ok_def demo_ig_timeout_def)

lemma demo_attempts_failed:
  "publish_attempts (demo_env\<lparr>pe_fb := demo_fb_fail\<rparr>) [demo_url] None demo_task =
    \<lparr>at_task = demo_task\<lparr>fb := demo_net\<lparr>net_estado := Error, net_error := Some ''Connection refused''\<rparr>,
                          ig := demo_net\<lparr>net_estado := Error, net_error := Some ''Read timed out''\<rparr>\<rparr>,
     at_errors = [''Facebook: Connection refused'', ''Instagram: Read timed out''], at_published = []\<rparr>"
  by (simp add: demo_attempt_defs demo_env_def demo_fb_fail_def demo_fb_ok_def demo_ig_timeout_def)




theorem publish_attempts_isolation_witness:
  "net Instagram (at_task (publish_attempts demo_env [demo_url] None demo_task)) =
   net Instagram (at_task (publish_attempts (demo_env\<lparr>pe_fb := demo_fb_fail\<rparr>) [demo_url] None demo_task))"
  by (rule publish_attempts_isolation) (simp add: same_remote_def)




theorem publicar_post_precondition_errors_witness:
  "\<exists>m. publicar_post demo_env \<lparr>w_task = demo_task\<lparr>task_state := ''01_draft''\<rparr>, w_store = Map.empty, w_mails = []\<rparr> =
     (Inl (ValidationError m), \<lparr>w_task = demo_task\<lparr>task_state := ''01_draft''\<rparr>, w_store = Map.empty, w_mails = []\<rparr>)"
  by (rule publicar_post_precondition_errors) simp


theorem facebook_reel_starves_sweep_witness:
  "((\<lambda>t. snd (revisar_record True demo_remote t)) ^^ 3) demo_reel_task = demo_reel_task"
  by (rule facebook_reel_starves_sweep [where pid = None and raw = "''{}''"])
     (simp_all add: demo_reel_task_def demo_remote_def demo_fb_remote_def demo_net_def selected_def)

theorem facebook_reel_blocks_cron_witness:
  "\<exists>e. cron_sweep [(demo_remote, demo_reel_task)] = (Inl e, [demo_reel_task])"
  using facebook_reel_blocks_cron [of demo_remote demo_reel_task "[(demo_remote, demo_reel_task)]" None "''{}''"]
  by (simp add: demo_reel_task_def demo_remote_def demo_fb_remote_def demo_net_def selected_def)

theorem facebook_story_without_post_id_witness:
  "facebook_flow True demo_fb_remote (demo_task\<lparr>tipo := Video_stories\<rparr>) (demo_net\<lparr>net_estado := Procesando\<rparr>) =
   (Inr Ret_None, demo_net\<lparr>net_estado := Revisando\<rparr>)"
  using facebook_story_without_post_id [of "demo_task\<lparr>tipo := Video_stories\<rparr>" "demo_net\<lparr>net_estado := Procesando\<rparr>" True demo_fb_remote]
  by (simp add: demo_net_def)

theorem facebook_story_published_witness:
  "net_estado (snd (facebook_flow True demo_fb_remote (demo_task\<lparr>tipo := Video_stories\<rparr>)
     (demo_net\<lparr>net_estado := Error, net_post_id := Some ''1''\<rparr>))) = Publicado"
  by (rule facebook_story_published) simp_all

theorem facebook_feed_publishes_witness:
  "facebook_flow True demo_fb_remote demo_task (demo_net\<lparr>net_estado := Procesando, net_post_id := Some (json_dumps [''501''])\<rparr>) =
   (Inr Ret_None, demo_net\<lparr>net_post_id := Some ''9001'', net_estado := Publicado, net_post_url := Some ''https://www.facebook.com/9001''\<rparr>)"
  using facebook_feed_publishes [of demo_task "demo_net\<lparr>net_estado := Procesando, net_post_id := Some (json_dumps [''501''])\<rparr>"
      "[''501'']" demo_fb_remote "\<lparr>ffd_id = Some ''9001'', ffd_error_code = None, ffd_raw = ''{}''\<rparr>" "''9001''" True]
  by (simp add: demo_task_def demo_net_def demo_fb_remote_def ascii_str_def)

theorem instagram_publishes_witness:
  "instagram_flow True demo_ig_remote (demo_net\<lparr>net_estado := Revisando, net_post_id := Some ''1788''\<rparr>) =
   (Inr Ret_True, demo_net\<lparr>net_post_id := Some ''1789'', net_post_url := Some ''https://www.instagram.com/p/1789/'',
      net_estado := Publicado, net_error := None\<rparr>)"
  using instagram_publishes [of "demo_net\<lparr>net_estado := Revisando, net_post_id := Some ''1788''\<rparr>" demo_ig_remote "''{}''"
      "Some ''1789''" "''{}''" "Some ''https://www.instagram.com/p/1789/''" True]
  by (simp add: demo_net_def demo_ig_remote_def cron_ret_def)

theorem instagram_permalink_failure_witness:
  "snd (instagram_flow True (demo_ig_remote\<lparr>ig_permalink_resp := Inl ''Read timed out''\<rparr>)
      (demo_net\<lparr>net_estado := Revisando, net_post_id := Some ''1788''\<rparr>)) =
   demo_net\<lparr>net_estado := Error, net_post_id := Some ''1788'', net_error := Some ''Read timed out''\<rparr>"
  using instagram_permalink_failure [of "demo_net\<lparr>net_estado := Revisando, net_post_id := Some ''1788''\<rparr>"
      "demo_ig_remote\<lparr>ig_permalink_resp := Inl ''Read timed out''\<rparr>" "''{}''" "Some ''1789''" "''{}''" "''Read timed out''" True]
  by (simp add: demo_net_def demo_ig_remote_def)

theorem instagram_status_request_failure_witness:
  "snd (instagram_flow True (demo_ig_remote\<lparr>ig_status_resp := Inl ''Read timed out''\<rparr>)
      (demo_net\<lparr>net_estado := Revisando, net_post_id := Some ''1788''\<rparr>)) =
   demo_net\<lparr>net_estado := Error, net_post_id := Some ''1788'', net_error := Some ''Read timed out''\<rparr>"
  using instagram_status_request_failure [of "demo_net\<lparr>net_estado := Revisando, net_post_id := Some ''1788''\<rparr>"
      "demo_ig_remote\<lparr>ig_status_resp := Inl ''Read timed out''\<rparr>" "''Read timed out''" True]
  by (simp add: demo_net_def)

theorem tiktok_publicly_id_witness:
  "snd (tiktok_flow True demo_tt_remote (demo_net\<lparr>net_estado := Revisando, net_post_id := Some ''v_pub_1''\<rparr>)) =
   demo_net\<lparr>net_estado := Publicado, net_post_id := Some ''v_pub_1'', net_post_url := Some ''https://www.tiktok.com/@_/video/7301''\<rparr>"
  using tiktok_publicly_id [of "demo_net\<lparr>net_estado := Revisando, net_post_id := Some ''v_pub_1''\<rparr>" demo_tt_remote demo_tt_data "''{}''" "''7301''" True]
  by (simp add: demo_net_def demo_tt_remote_def demo_tt_data_def)

theorem linkedin_one_call_witness:
  "linkedin_flow True (demo_net\<lparr>net_estado := Procesando, net_post_id := Some ''urn:li:share:1''\<rparr>) =
   (Inr Ret_True, demo_net\<lparr>net_estado := Publicado, net_post_id := Some ''urn:li:share:1'',
      net_post_url := Some ''https://www.linkedin.com/feed/update/urn:li:share:1/''\<rparr>)"
  using linkedin_one_call [of "demo_net\<lparr>net_estado := Procesando, net_post_id := Some ''urn:li:share:1''\<rparr>" "''urn:li:share:1''" True]
  by (simp add: demo_net_def cron_ret_def)

theorem instagram_fixed_after_witness:
  "snd (instagram_flow True demo_ig_remote (snd (instagram_flow True demo_ig_remote (demo_net\<lparr>net_estado := Revisando, net_post_id := Some ''1788''\<rparr>))))
   = snd (instagram_flow True demo_ig_remote (demo_net\<lparr>net_estado := Revisando, net_post_id := Some ''1788''\<rparr>))"
  by (rule instagram_fixed_after) simp

theorem tiktok_fixed_after_witness:
  "snd (tiktok_flow True demo_tt_remote (snd (tiktok_flow True demo_tt_remote (demo_net\<lparr>net_estado := Revisando, net_post_id := Some ''v_pub_1''\<rparr>))))
   = snd (tiktok_flow True demo_tt_remote (demo_net\<lparr>net_estado := Revisando, net_post_id := Some ''v_pub_1''\<rparr>))"
  by (rule tiktok_fixed_after) simp

theorem linkedin_fixed_after_witness:
  "snd (linkedin_flow True (snd (linkedin_flow True (demo_net\<lparr>net_estado := Revisando, net_post_id := Some ''urn:li:share:1''\<rparr>))))
   = snd (linkedin_flow True (demo_net\<lparr>net_estado := Revisando, net_post_id := Some ''urn:li:share:1''\<rparr>))"
  by (rule linkedin_fixed_after) simp


theorem post_estado_global_refines_spec_witness:
  "post_estado_global (demo_task\<lparr>fb := demo_net\<lparr>net_estado := Publicado\<rparr>, ig := demo_net\<lparr>net_estado := Revisando\<rparr>\<rparr>) = ''Revisando''"
proof -
  let ?t = "demo_task\<lparr>fb := demo_net\<lparr>net_estado := Publicado\<rparr>, ig := demo_net\<lparr>net_estado := Revisando\<rparr>\<rparr>"
  have u: "\<forall>r. \<not> selected ?t r \<longrightarrow> phase r ?t = Programado \<or> phase r ?t = Vacio"
  proof
    fix r show "\<not> selected ?t r \<longrightarrow> phase r ?t = Programado \<or> phase r ?t = Vacio"
      by (cases r) (simp_all add: selected_def phase_def demo_task_def demo_net_def)
  qed
  have s: "\<forall>r. selected ?t r \<longrightarrow> phase r ?t \<noteq> Programado \<and> phase r ?t \<noteq> Vacio"
  proof
    fix r show "selected ?t r \<longrightarrow> phase r ?t \<noteq> Programado \<and> phase r ?t \<noteq> Vacio"
      by (cases r) (simp_all add: selected_def phase_def demo_task_def demo_net_def)
  qed
  have p: "selected_phases ?t = [Publicado, Revisando]"
    by (simp add: selected_phases_def selected_def phase_def demo_task_def demo_net_def)
  show ?thesis
    using post_estado_global_refines_spec [OF u s] p by (simp add: spec_aggregate_def)
qed

theorem post_estado_global_unselected_error_witness:
  "post_estado_global (demo_task\<lparr>red_social_names := [''Instagram''], fb := demo_net\<lparr>net_estado := Error\<rparr>\<rparr>) = ''Error''"
  by (rule post_estado_global_unselected_error [where r = Facebook]) (simp_all add: selected_def phase_def)


theorem upload_loop_succeeds_iff_witness:
  "\<exists>urls st'. upload_loop demo_s3 1 [(''foto.jpg'', ''AAAA'')] Map.empty = (Inr urls, st')"
  by (rule upload_loop_succeeds_iff [THEN iffD2])
     (simp add: demo_s3_def staged_keys_def file_ext_def allowed_extensions_def py_lower_def py_lower_char_def)

theorem upload_loop_forbidden_after_witness:
  "\<exists>e. upload_loop demo_s3 1 ([(''a.jpg'', ''A'')] @ [(''b.exe'', ''B'')]) Map.empty =
     (Inl e, stored (staged_keys demo_s3 1 [(''a.jpg'', ''A'')]) [''A''] Map.empty)"
  using upload_loop_forbidden_after [of "[(''a.jpg'', ''A'')]" demo_s3 1 "(''b.exe'', ''B'')" "[]" Map.empty]
  by (simp add: demo_s3_def staged_keys_def file_ext_def allowed_extensions_def py_lower_def py_lower_char_def)


subsection \<open>Writing a task\<close>

lemma demo_store_ok: "store_ok demo_store" "demo_store 1 = demo_img" "adjuntos demo_task = [demo_img]"
  by (simp_all add: store_ok_def demo_store_def demo_img_def demo_task_def)


theorem write_create_bypasses_check_witness:
  "write_tasks demo_store (no_vals\<lparr>wv_adjuntos := Some [M2m_Create (demo_video 2 30)]\<rparr>) [demo_task] =
     Inr [demo_task\<lparr>adjuntos := [demo_img, demo_video 2 30]\<rparr>]"
  using write_create_bypasses_check [of demo_task demo_img "demo_video 2 30" demo_store] demo_store_ok
  by (simp add: demo_task_def demo_img_def demo_video_def)

theorem write_approval_skips_check_witness:
  "write_tasks demo_store (no_vals\<lparr>wv_state := Some ''03_approved''\<rparr>) [demo_task\<lparr>task_state := ''01_draft'', adjuntos := []\<rparr>] =
     Inr [demo_task\<lparr>adjuntos := [], task_state := ''03_approved''\<rparr>]"
  using write_approval_skips_check [of "demo_task\<lparr>task_state := ''01_draft'', adjuntos := []\<rparr>" demo_store]
  by (simp add: demo_task_def)

theorem write_duration_shared_witness:
  "write_tasks demo_store no_vals
     [demo_task\<lparr>tipo := Video_reels, adjuntos := [demo_video 1 30]\<rparr>, demo_task\<lparr>tipo := Video_reels, adjuntos := [demo_video 2 45]\<rparr>] =
   Inr [demo_task\<lparr>tipo := Video_reels, adjuntos := [demo_video 1 30], tiktok_video_duration := 45\<rparr>,
        demo_task\<lparr>tipo := Video_reels, adjuntos := [demo_video 2 45], tiktok_video_duration := 45\<rparr>]"
  using write_duration_shared [of "demo_task\<lparr>tipo := Video_reels, adjuntos := [demo_video 1 30]\<rparr>" "demo_video 1 30" 30
      "demo_task\<lparr>tipo := Video_reels, adjuntos := [demo_video 2 45]\<rparr>" "demo_video 2 45" 45 demo_store]
  by (simp add: demo_task_def demo_video_def)


subsection \<open>Subscription contracts\<close>

lemma demo_valid [simp]: "valid_date demo_today" "valid_date (mk_date 2025 2 28)" "valid_date (mk_date 2024 12 31)"
  by (simp_all add: demo_today_def valid_date_def mk_date_def days_in_month_def is_leap_def)

lemma demo_cron: "subscription_contract_state_change demo_today demo_billing = Inr demo_billed"
  by (simp add: subscription_contract_state_change_def demo_billing_def demo_billed_def demo_contract_def demo_today_def
      cron_contract_def bill_def advance_next_def count_invoices_def make_invoice_def shift_months_def
      Let_def rd_fix_months_def add_years_months_def mk_date_def days_in_month_def is_leap_def bill_state_def)

theorem cron_same_day_idempotent_witness:
  "subscription_contract_state_change demo_today demo_billed = Inr demo_billed"
  using cron_same_day_idempotent [OF demo_cron] by (simp add: demo_billing_def demo_contract_def)

theorem cron_repeat_duplicates_witness:
  "\<exists>c'. cron_repeat 2 demo_today \<lparr>b_contracts = [demo_contract\<lparr>sc_interval := None\<rparr>], b_moves = []\<rparr> =
        Inr \<lparr>b_contracts = [c'], b_moves = [make_invoice demo_contract demo_today None, make_invoice demo_contract demo_today None]\<rparr>"
  using cron_repeat_duplicates [of "demo_contract\<lparr>sc_interval := None\<rparr>" demo_today 2 "[]"]
  by (simp add: demo_contract_def demo_today_def numeral_2_eq_2 make_invoice_def)

lemma demo_refund_cron:
  "cron_contract demo_today demo_refund [] =
     Inr (demo_refund\<lparr>sc_invoice_count := 1, sc_next := Some (mk_date 2025 1 30), sc_state := Sc_Ongoing\<rparr>,
          [make_invoice demo_refund demo_today None])"
  by (simp add: demo_refund_def demo_contract_def demo_today_def cron_contract_def bill_def advance_next_def
      count_invoices_def make_invoice_def add_timedelta_def timedelta_days_def add_days_def prev_day_def mk_date_def
      bill_state_def Let_def)

theorem cron_negative_period_stops_witness:
  "cron_contract (mk_date 2025 2 1)
     (demo_refund\<lparr>sc_invoice_count := 1, sc_next := Some (mk_date 2025 1 30), sc_state := Sc_Ongoing\<rparr>) [] =
   Inr (demo_refund\<lparr>sc_invoice_count := 1, sc_next := Some (mk_date 2025 1 30), sc_state := Sc_Ongoing\<rparr>, [])"
proof -
  have "to_ordinal demo_today \<le> to_ordinal (mk_date 2025 2 1)"
    by (simp add: demo_today_def to_ordinal_def mk_date_def days_before_month_def upt_rec days_in_month_def)
  moreover have "sc_next demo_refund = Some demo_today" "sc_interval demo_refund \<noteq> None" "sc_period demo_refund < 0"
    by (simp_all add: demo_refund_def demo_contract_def demo_today_def)
  ultimately show ?thesis using cron_negative_period_stops [OF demo_valid(1) _ _ _ demo_refund_cron] by blast
qed


theorem generate_invoice_terminates_witness:
  "\<exists>e. generate_repeat 2 demo_last [] = Inl e"
proof -
  have "valid_date (mk_date 9999 12 30)" by (simp add: valid_date_def mk_date_def days_in_month_def)
  moreover have "max_ordinal - to_ordinal (mk_date 9999 12 30) < int 2"
    by (simp add: max_ordinal_def to_ordinal_def mk_date_def days_before_year_def days_before_month_def
        days_in_month_def is_leap_def upt_rec)
  ultimately show ?thesis using generate_invoice_terminates [of "mk_date 9999 12 30" demo_last 2 "[]"]
    by (simp add: demo_last_def demo_contract_def)
qed

lemma demo_billing_ok: "\<forall>c\<in>set (b_contracts demo_billing). contract_live c \<and> contract_dates_ok c"
  by (simp add: demo_billing_def demo_contract_def contract_live_def contract_dates_ok_def valid_date_def mk_date_def
      days_in_month_def is_leap_def)

lemma demo_step: "sc_step\<^sup>*\<^sup>* demo_billing demo_billed"
  using sc_step.cron [OF demo_cron] by (rule r_into_rtranclp)

theorem contracts_never_expire_witness:
  "sc_state (hd (b_contracts demo_billed)) \<noteq> Sc_Expire_Soon \<and> sc_state (hd (b_contracts demo_billed)) \<noteq> Sc_Expired"
  using contracts_never_expire [OF demo_step] demo_billing_ok by (simp add: demo_billed_def)


theorem cron_bills_due_contracts_witness:
  "b_moves demo_billed = [make_invoice demo_contract demo_today None]"
  using cron_bills_due_contracts [OF demo_cron] by (simp add: demo_billing_def demo_contract_def demo_today_def)

theorem sale_lines_unset_end_type_error_witness:
  "\<exists>m. compute_sale_order_lines demo_contract [demo_sale_line] = Inl (TypeError m)"
  using sale_lines_unset_end_type_error [of demo_contract demo_sale_line "[demo_sale_line]"]
  by (simp add: demo_contract_def demo_sale_line_def date_le_def mk_date_def)


theorem advance_next_days_ordinal_witness:
  "advance_next demo_last (mk_date 2024 2 28) = Inr (mk_date 2024 2 29) \<and>
   to_ordinal (mk_date 2024 2 29) = to_ordinal (mk_date 2024 2 28) + 1"
proof -
  have v: "valid_date (mk_date 2024 2 28)" by (simp add: valid_date_def mk_date_def days_in_month_def)
  have r: "advance_next demo_last (mk_date 2024 2 28) = Inr (mk_date 2024 2 29)"
    by (simp add: demo_last_def demo_contract_def advance_next_def add_timedelta_def timedelta_days_def add_days_def
        next_day_def mk_date_def days_in_month_def is_leap_def)
  have "sc_interval demo_last = Some Pi_Days" "sc_period demo_last = 1" by (simp_all add: demo_last_def demo_contract_def)
  then show ?thesis using advance_next_days_ordinal [OF v _ r] r by simp
qed

theorem advance_next_days_in_range_witness: "\<not> (\<exists>d'. advance_next demo_last (mk_date 9999 12 31) = Inr d')"
proof -
  have "valid_date (mk_date 9999 12 31)" by (simp add: valid_date_def mk_date_def days_in_month_def)
  moreover have "to_ordinal (mk_date 9999 12 31) = max_ordinal"
    by (simp add: max_ordinal_def to_ordinal_def mk_date_def days_before_year_def days_before_month_def
        days_in_month_def is_leap_def upt_rec)
  moreover have "sc_interval demo_last = Some Pi_Days" "sc_period demo_last = 1" by (simp_all add: demo_last_def demo_contract_def)
  ultimately show ?thesis using advance_next_days_in_range [of "mk_date 9999 12 31" demo_last] by simp
qed

theorem advance_next_month_shift_witness: "advance_next demo_contract (mk_date 2025 1 31) = Inr (mk_date 2025 2 28)"
proof -
  have "valid_date (mk_date 2025 1 31)" "sc_interval demo_contract = Some Pi_Months" "sc_period demo_contract = 1"
    by (simp_all add: valid_date_def mk_date_def days_in_month_def demo_contract_def)
  then show ?thesis using advance_next_month_shift [of "mk_date 2025 1 31" demo_contract]
    by (simp add: shift_months_def mk_date_def days_in_month_def is_leap_def)
qed

end
